theory Spec2Isabelle
  imports Complex_Main "HOL-Library.AList"
begin

section \<open>Numbers and JavaScript maps\<close>

text \<open>
  The program is TypeScript. Its \<^verbatim>\<open>number\<close> is modelled by the exact rationals: every
  value the analytics handle is a price in cents, a size, a millisecond timestamp or a
  quotient of such, and the operations used are \<open>+\<close>, \<open>-\<close>, \<open>*\<close>, \<open>/\<close>, comparison,
  \<open>Math.min\<close> and \<open>Math.max\<close>. Rounding, \<^verbatim>\<open>NaN\<close> and the infinities of IEEE doubles are
  outside this model.

  A \<^verbatim>\<open>Map<K, V>\<close> is an association list in insertion order with at most one entry per key:
  \<^verbatim>\<open>get\<close> is \<^const>\<open>map_of\<close>, \<^verbatim>\<open>set\<close> is \<^const>\<open>AList.update\<close> (an existing key keeps its
  place, a new key goes to the end), \<^verbatim>\<open>delete\<close> is \<^const>\<open>AList.delete\<close>.
\<close>

type_synonym number = rat

text \<open>\<^verbatim>\<open>x || 0\<close> on an optional number: \<^verbatim>\<open>undefined\<close> and \<^verbatim>\<open>0\<close> are both falsy.\<close>

definition orZero :: "number option \<Rightarrow> number" where
  "orZero x = (case x of None \<Rightarrow> 0 | Some v \<Rightarrow> (if v = 0 then 0 else v))"

text \<open>\<^verbatim>\<open>x ?? d\<close>: only \<^verbatim>\<open>undefined\<close> takes the default.\<close>

definition orElse :: "'a option \<Rightarrow> 'a \<Rightarrow> 'a" where
  "orElse x d = (case x of None \<Rightarrow> d | Some v \<Rightarrow> v)"

section \<open>Feed messages and connection state (types.ts, ws.ts)\<close>

record TickerMsg =
  tk_market_ticker :: string
  yes_bid :: "number option"
  yes_ask :: "number option"

record OrderbookSnapshotMsg =
  os_market_ticker :: string
  os_yes :: "(number \<times> number) list option"
  os_no :: "(number \<times> number) list option"

datatype BookSide = SideYes | SideNo

record OrderbookDeltaMsg =
  od_market_ticker :: string
  od_price :: number
  od_delta :: number
  od_side :: BookSide

record TradeMsg =
  tr_market_ticker :: string
  tr_count :: "number option"
  yes_price :: "number option"
  taker_side :: "string option"

datatype KalshiWSMessage =
    Ticker TickerMsg
  | OrderbookSnapshot OrderbookSnapshotMsg
  | OrderbookDelta OrderbookDeltaMsg
  | Trade TradeMsg
  | OtherMessage

record OrderBook =
  yes :: "(number \<times> number) list"
  no :: "(number \<times> number) list"

text \<open>The raw-feed ring of \<^verbatim>\<open>ConnectionState\<close> is a debugging echo and is left out.\<close>

record ConnectionState =
  tickersByMarket :: "(string \<times> TickerMsg) list"
  orderbookByMarket :: "(string \<times> OrderBook) list"

definition createConnectionState :: ConnectionState where
  "createConnectionState = \<lparr>tickersByMarket = [], orderbookByMarket = []\<rparr>"

definition applyTickerUpdate :: "ConnectionState \<Rightarrow> TickerMsg \<Rightarrow> ConnectionState" where
  "applyTickerUpdate state msg =
     state\<lparr>tickersByMarket := AList.update (tk_market_ticker msg) msg (tickersByMarket state)\<rparr>"

text \<open>The loop \<^verbatim>\<open>for (const [price, quantity] of levels) if (quantity > 0) map.set(price, quantity)\<close>.\<close>

fun setPositiveLevels ::
  "(number \<times> number) list \<Rightarrow> (number \<times> number) list \<Rightarrow> (number \<times> number) list" where
  "setPositiveLevels [] m = m"
| "setPositiveLevels ((price, quantity) # rest) m =
     setPositiveLevels rest (if quantity > 0 then AList.update price quantity m else m)"

definition applyOrderbookSnapshot ::
  "ConnectionState \<Rightarrow> OrderbookSnapshotMsg \<Rightarrow> ConnectionState" where
  "applyOrderbookSnapshot state msg =
     (let yesMap = setPositiveLevels (orElse (os_yes msg) []) [];
          noMap = setPositiveLevels (orElse (os_no msg) []) []
      in state\<lparr>orderbookByMarket :=
           AList.update (os_market_ticker msg) \<lparr>yes = yesMap, no = noMap\<rparr>
             (orderbookByMarket state)\<rparr>)"

definition deltaSide :: "(number \<times> number) list \<Rightarrow> number \<Rightarrow> number \<Rightarrow> (number \<times> number) list" where
  "deltaSide sideMap price delta =
     (let currentQty = orZero (map_of sideMap price);
          newQty = currentQty + delta
      in if newQty \<le> 0 then AList.delete price sideMap
         else AList.update price newQty sideMap)"

definition applyOrderbookDelta ::
  "ConnectionState \<Rightarrow> OrderbookDeltaMsg \<Rightarrow> ConnectionState" where
  "applyOrderbookDelta state msg =
     (let book = (case map_of (orderbookByMarket state) (od_market_ticker msg) of
                    None \<Rightarrow> \<lparr>yes = [], no = []\<rparr>
                  | Some b \<Rightarrow> b);
          book' = (if od_side msg = SideYes
                   then book\<lparr>yes := deltaSide (yes book) (od_price msg) (od_delta msg)\<rparr>
                   else book\<lparr>no := deltaSide (no book) (od_price msg) (od_delta msg)\<rparr>)
      in state\<lparr>orderbookByMarket :=
           AList.update (od_market_ticker msg) book' (orderbookByMarket state)\<rparr>)"

text \<open>The \<^verbatim>\<open>switch (message.type)\<close> of the socket's message handler.\<close>

fun applyMessage :: "ConnectionState \<Rightarrow> KalshiWSMessage \<Rightarrow> ConnectionState" where
  "applyMessage state (Ticker msg) = applyTickerUpdate state msg"
| "applyMessage state (OrderbookSnapshot msg) = applyOrderbookSnapshot state msg"
| "applyMessage state (OrderbookDelta msg) = applyOrderbookDelta state msg"
| "applyMessage state (Trade msg) = state"
| "applyMessage state OtherMessage = state"

text \<open>Every level stored on either side of every book has a strictly positive size.\<close>

definition positiveLevels :: "(number \<times> number) list \<Rightarrow> bool" where
  "positiveLevels m = list_all (\<lambda>(price, size). size > 0) m"

definition positiveBooks :: "ConnectionState \<Rightarrow> bool" where
  "positiveBooks state =
     list_all (\<lambda>(ticker, book). positiveLevels (yes book) \<and> positiveLevels (no book))
       (orderbookByMarket state)"

section \<open>Statistics engine (stats.ts)\<close>

datatype FeedStatus = Fresh | Stale | UnknownStatus

datatype TradeSide = Buy | Sell | UnknownSide

text \<open>
  The fields of \<^verbatim>\<open>MarketStats\<close> that the ladder builder and the dirty-set bookkeeping read.
  The remaining fields (basis-point spread, microprice, imbalances, walls, trade flow,
  volatility and jump) are derived from the same inputs and are left out; \<^verbatim>\<open>volume\<close> is
  declared by the interface but \<^verbatim>\<open>computeMarketStats\<close> never sets it.
\<close>

record MarketStats =
  market_ticker :: string
  ts :: number
  best_bid :: "number option"
  best_ask :: "number option"
  mid :: "number option"
  spread :: "number option"
  bid_size_top :: "number option"
  ask_size_top :: "number option"
  sum_bid_top5 :: "number option"
  sum_ask_top5 :: "number option"
  volume :: "number option"
  last_ticker_age_ms :: "number option"
  last_orderbook_age_ms :: "number option"
  last_trade_ts :: "number option"
  feed_status :: FeedStatus

record TradeRecord =
  trade_ts :: number
  trade_price :: number
  trade_count :: number
  trade_side :: TradeSide

record MidRecord =
  mid_ts :: number
  mid_value :: number

record MarketBuffer =
  trades :: "TradeRecord list"
  mids :: "MidRecord list"
  lastTickerTs :: number
  lastOrderbookTs :: number
  lastTradeTs :: number
  lastMid :: "number option"
  mid5sAgo :: "number option"
  mid5sAgoTs :: "number option"
  mid1mAgo :: "number option"
  mid1mAgoTs :: "number option"

text \<open>\<^verbatim>\<open>dirtyMarkets\<close> is a \<^verbatim>\<open>Set<string>\<close>: a duplicate-free list in insertion order.\<close>

record StatsEngine =
  buffers :: "(string \<times> MarketBuffer) list"
  lastComputedStats :: "(string \<times> MarketStats) list"
  dirtyMarkets :: "string list"

definition newStatsEngine :: StatsEngine where
  "newStatsEngine = \<lparr>buffers = [], lastComputedStats = [], dirtyMarkets = []\<rparr>"

definition RING_BUFFER_MAX_SIZE :: nat where "RING_BUFFER_MAX_SIZE = 500"
definition RING_BUFFER_WINDOW_MS :: number where "RING_BUFFER_WINDOW_MS = 60000"
definition STALE_THRESHOLD_MS :: number where "STALE_THRESHOLD_MS = 3000"
definition TOP_N_LEVELS :: nat where "TOP_N_LEVELS = 5"

text \<open>\<^verbatim>\<open>Set.prototype.add\<close>.\<close>

definition setAdd :: "'a \<Rightarrow> 'a list \<Rightarrow> 'a list" where
  "setAdd x xs = (if x \<in> set xs then xs else xs @ [x])"

text \<open>
  \<^verbatim>\<open>getOrCreateBuffer\<close> returns the market's buffer, a fresh one when the market is new. The
  source stores the fresh buffer at once and then mutates it in place; here each handler
  writes the buffer back with \<open>putBuffer\<close> when it is done, which leaves the same map.
\<close>

definition getOrCreateBuffer :: "StatsEngine \<Rightarrow> string \<Rightarrow> MarketBuffer" where
  "getOrCreateBuffer eng marketTicker =
     (case map_of (buffers eng) marketTicker of
        Some buffer \<Rightarrow> buffer
      | None \<Rightarrow> \<lparr>trades = [], mids = [], lastTickerTs = 0, lastOrderbookTs = 0, lastTradeTs = 0,
                 lastMid = None, mid5sAgo = None, mid5sAgoTs = None,
                 mid1mAgo = None, mid1mAgoTs = None\<rparr>)"

definition putBuffer :: "string \<Rightarrow> MarketBuffer \<Rightarrow> StatsEngine \<Rightarrow> StatsEngine" where
  "putBuffer marketTicker buffer eng =
     eng\<lparr>buffers := AList.update marketTicker buffer (buffers eng)\<rparr>"

text \<open>\<^verbatim>\<open>xs.slice(-k)\<close>: the last \<open>k\<close> elements.\<close>

definition sliceLast :: "nat \<Rightarrow> 'a list \<Rightarrow> 'a list" where
  "sliceLast k xs = drop (length xs - k) xs"

definition pruneBuffer :: "MarketBuffer \<Rightarrow> number \<Rightarrow> MarketBuffer" where
  "pruneBuffer buffer now =
     (let cutoff = now - RING_BUFFER_WINDOW_MS;
          trades1 = dropWhile (\<lambda>t. trade_ts t < cutoff) (trades buffer);
          trades2 = (if length trades1 > RING_BUFFER_MAX_SIZE
                     then sliceLast RING_BUFFER_MAX_SIZE trades1 else trades1);
          mids1 = dropWhile (\<lambda>m. mid_ts m < cutoff) (mids buffer);
          mids2 = (if length mids1 > RING_BUFFER_MAX_SIZE
                   then sliceLast RING_BUFFER_MAX_SIZE mids1 else mids1)
      in buffer\<lparr>trades := trades2, mids := mids2\<rparr>)"

text \<open>\<^verbatim>\<open>Date.now()\<close> is the parameter \<open>now\<close> of every handler.\<close>

definition onTickerUpdate :: "TickerMsg \<Rightarrow> number \<Rightarrow> StatsEngine \<Rightarrow> StatsEngine" where
  "onTickerUpdate msg now eng =
     (let buffer0 = (getOrCreateBuffer eng (tk_market_ticker msg))\<lparr>lastTickerTs := now\<rparr>;
          buffer1 =
            (case (yes_bid msg, yes_ask msg) of
               (Some bid, Some ask) \<Rightarrow>
                 (if bid > 0 \<and> ask > 0 then
                    (let m = (bid + ask) / 2;
                         b1 = buffer0\<lparr>mids := mids buffer0 @ [\<lparr>mid_ts = now, mid_value = m\<rparr>]\<rparr>;
                         b2 = (if mid5sAgoTs b1 = None \<or> now - orElse (mid5sAgoTs b1) 0 \<ge> 5000
                               then b1\<lparr>mid5sAgo := lastMid b1, mid5sAgoTs := Some now\<rparr> else b1);
                         b3 = (if mid1mAgoTs b2 = None \<or> now - orElse (mid1mAgoTs b2) 0 \<ge> 60000
                               then b2\<lparr>mid1mAgo := lastMid b2, mid1mAgoTs := Some now\<rparr> else b2)
                     in b3\<lparr>lastMid := Some m\<rparr>)
                  else buffer0)
             | _ \<Rightarrow> buffer0)
      in (putBuffer (tk_market_ticker msg) (pruneBuffer buffer1 now) eng)
           \<lparr>dirtyMarkets := setAdd (tk_market_ticker msg) (dirtyMarkets eng)\<rparr>)"

definition onOrderbookUpdate :: "string \<Rightarrow> number \<Rightarrow> StatsEngine \<Rightarrow> StatsEngine" where
  "onOrderbookUpdate marketTicker now eng =
     (let buffer = (getOrCreateBuffer eng marketTicker)\<lparr>lastOrderbookTs := now\<rparr>
      in (putBuffer marketTicker buffer eng)
           \<lparr>dirtyMarkets := setAdd marketTicker (dirtyMarkets eng)\<rparr>)"

text \<open>
  \<^verbatim>\<open>String.prototype.toLowerCase\<close> on the ASCII letters (strings here are byte strings).
\<close>

definition lowerChar :: "char \<Rightarrow> char" where
  "lowerChar c =
     orElse (map_of (zip ''ABCDEFGHIJKLMNOPQRSTUVWXYZ'' ''abcdefghijklmnopqrstuvwxyz'') c) c"

definition toLowerCase :: "string \<Rightarrow> string" where
  "toLowerCase s = map lowerChar s"

text \<open>
  The side of a trade, the \<^verbatim>\<open>let side\<close> block of \<^verbatim>\<open>onTradeUpdate\<close>. \<^verbatim>\<open>if (msg.taker_side)\<close>
  is true for a present, non-empty string.
\<close>

definition tradeSide ::
  "string option \<Rightarrow> number option \<Rightarrow> number option \<Rightarrow> number \<Rightarrow> TradeSide" where
  "tradeSide takerSide currentBid currentAsk price =
     (if takerSide \<noteq> None \<and> takerSide \<noteq> Some []
      then (if toLowerCase (orElse takerSide []) = ''yes'' then Buy else Sell)
      else (case (currentBid, currentAsk) of
              (Some bid, Some ask) \<Rightarrow>
                (if price > 0
                 then (let midPrice = (bid + ask) / 2 in if price \<ge> midPrice then Buy else Sell)
                 else UnknownSide)
            | _ \<Rightarrow> UnknownSide))"

definition onTradeUpdate ::
  "TradeMsg \<Rightarrow> number option \<Rightarrow> number option \<Rightarrow> number \<Rightarrow> StatsEngine \<Rightarrow> StatsEngine" where
  "onTradeUpdate msg currentBid currentAsk now eng =
     (let buffer0 = (getOrCreateBuffer eng (tr_market_ticker msg))\<lparr>lastTradeTs := now\<rparr>;
          price = orElse (yes_price msg) 0;
          count = orElse (tr_count msg) 1;
          side = tradeSide (taker_side msg) currentBid currentAsk price;
          buffer1 = buffer0\<lparr>trades := trades buffer0 @
                      [\<lparr>trade_ts = now, trade_price = price, trade_count = count, trade_side = side\<rparr>]\<rparr>
      in (putBuffer (tr_market_ticker msg) (pruneBuffer buffer1 now) eng)
           \<lparr>dirtyMarkets := setAdd (tr_market_ticker msg) (dirtyMarkets eng)\<rparr>)"

text \<open>The five best levels of a side: entries sorted by price, highest first.\<close>

definition topLevels :: "(number \<times> number) list \<Rightarrow> (number \<times> number) list" where
  "topLevels side = take TOP_N_LEVELS (sort_key (\<lambda>level. - fst level) side)"

text \<open>\<^verbatim>\<open>x > 0 ? x : undefined\<close>.\<close>

definition positiveOrUndefined :: "number \<Rightarrow> number option" where
  "positiveOrUndefined x = (if x > 0 then Some x else None)"

text \<open>\<^verbatim>\<open>buffer?.field ? now - buffer.field : undefined\<close>: a zero timestamp is falsy.\<close>

definition ageOf :: "MarketBuffer option \<Rightarrow> (MarketBuffer \<Rightarrow> number) \<Rightarrow> number \<Rightarrow> number option" where
  "ageOf buffer field now =
     (case buffer of None \<Rightarrow> None
      | Some b \<Rightarrow> (if field b \<noteq> 0 then Some (now - field b) else None))"

definition computeMarketStats ::
  "string \<Rightarrow> ConnectionState \<Rightarrow> StatsEngine \<Rightarrow> number \<Rightarrow> MarketStats option" where
  "computeMarketStats marketTicker state eng now =
     (let buffer = map_of (buffers eng) marketTicker;
          ticker = map_of (tickersByMarket state) marketTicker;
          book = map_of (orderbookByMarket state) marketTicker;
          yesLevels = (case book of None \<Rightarrow> [] | Some b \<Rightarrow> topLevels (yes b));
          noLevels = (case book of None \<Rightarrow> [] | Some b \<Rightarrow> topLevels (no b));
          tickerBid = Option.bind ticker yes_bid;
          tickerAsk = Option.bind ticker yes_ask;
          bestBid = (case yesLevels of [] \<Rightarrow> tickerBid
                     | level # _ \<Rightarrow> (if tickerBid = None then Some (fst level) else tickerBid));
          bidSizeTop = (case yesLevels of [] \<Rightarrow> 0 | level # _ \<Rightarrow> snd level);
          bestAsk = (case noLevels of [] \<Rightarrow> tickerAsk
                     | level # _ \<Rightarrow> (if tickerAsk = None then Some (100 - fst level) else tickerAsk));
          askSizeTop = (case noLevels of [] \<Rightarrow> 0 | level # _ \<Rightarrow> snd level);
          midV = (case (bestBid, bestAsk) of
                    (Some b, Some a) \<Rightarrow> Some ((b + a) / 2) | _ \<Rightarrow> None);
          spreadV = (case (bestBid, bestAsk) of
                       (Some b, Some a) \<Rightarrow> Some (a - b) | _ \<Rightarrow> None);
          sumBidTop5 = sum_list (map snd yesLevels);
          sumAskTop5 = sum_list (map snd noLevels);
          latestUpdate = (case buffer of None \<Rightarrow> 0
                          | Some b \<Rightarrow> max (max (lastTickerTs b) (lastOrderbookTs b)) (lastTradeTs b));
          feedStatus = (if latestUpdate > 0
                        then (if now - latestUpdate < STALE_THRESHOLD_MS then Fresh else Stale)
                        else UnknownStatus)
      in Some \<lparr>market_ticker = marketTicker, ts = now,
               best_bid = bestBid, best_ask = bestAsk, mid = midV, spread = spreadV,
               bid_size_top = positiveOrUndefined bidSizeTop,
               ask_size_top = positiveOrUndefined askSizeTop,
               sum_bid_top5 = positiveOrUndefined sumBidTop5,
               sum_ask_top5 = positiveOrUndefined sumAskTop5,
               volume = None,
               last_ticker_age_ms = ageOf buffer lastTickerTs now,
               last_orderbook_age_ms = ageOf buffer lastOrderbookTs now,
               last_trade_ts = map_option lastTradeTs buffer,
               feed_status = feedStatus\<rparr>)"

text \<open>
  The result of a statistics pass is a plain JavaScript object used as a dictionary
  (\<^verbatim>\<open>const result: Record<string, MarketStats> = {}\<close>). It is modelled by its own
  properties, which is what \<^verbatim>\<open>Object.keys\<close> and \<^verbatim>\<open>Object.entries\<close> enumerate (their
  order is not modelled: JavaScript lists integer-like keys first), and by the statistics
  object that an assignment to the key \<^verbatim>\<open>__proto__\<close> has installed as its prototype, if
  any.
\<close>

record StatsObject =
  ownStats :: "(string \<times> MarketStats) list"
  protoStats :: "MarketStats option"

definition emptyObject :: StatsObject where
  "emptyObject = \<lparr>ownStats = [], protoStats = None\<rparr>"

text \<open>The property names every plain object inherits from \<^verbatim>\<open>Object.prototype\<close>.\<close>

definition objectPrototypeNames :: "string list" where
  "objectPrototypeNames =
     [''constructor'', ''__defineGetter__'', ''__defineSetter__'', ''hasOwnProperty'',
      ''__lookupGetter__'', ''__lookupSetter__'', ''isPrototypeOf'', ''propertyIsEnumerable'',
      ''toString'', ''valueOf'', ''__proto__'', ''toLocaleString'']"

text \<open>
  Whether \<^verbatim>\<open>result[key]\<close> is truthy: an own property holds a statistics object; otherwise
  the key is looked up along the prototype chain, in an installed statistics object and in
  \<^verbatim>\<open>Object.prototype\<close>, whose members are functions and objects. Which properties of a
  statistics object are truthy is the parameter \<open>fieldTruthy\<close>, because \<open>MarketStats\<close>
  leaves fields out.
\<close>

definition truthyAt :: "(MarketStats \<Rightarrow> string \<Rightarrow> bool) \<Rightarrow> StatsObject \<Rightarrow> string \<Rightarrow> bool" where
  "truthyAt fieldTruthy obj k =
     (map_of (ownStats obj) k \<noteq> None
      \<or> (case protoStats obj of None \<Rightarrow> False | Some proto \<Rightarrow> fieldTruthy proto k)
      \<or> k \<in> set objectPrototypeNames)"

text \<open>
  \<^verbatim>\<open>result[key] = stats\<close>: the key \<^verbatim>\<open>__proto__\<close> runs the inherited setter, which replaces
  the prototype and creates no own property; every other key becomes an own property.
\<close>

definition assignAt :: "string \<Rightarrow> MarketStats \<Rightarrow> StatsObject \<Rightarrow> StatsObject" where
  "assignAt k stats obj =
     (if k = ''__proto__'' then obj\<lparr>protoStats := Some stats\<rparr>
      else obj\<lparr>ownStats := AList.update k stats (ownStats obj)\<rparr>)"

text \<open>
  The loop shared by \<^verbatim>\<open>computeStats\<close> and \<^verbatim>\<open>computeAllStats\<close>: compute each listed market,
  store it in the result and in \<^verbatim>\<open>lastComputedStats\<close>. With \<open>onlyMissing\<close> (the second loop
  of \<^verbatim>\<open>computeAllStats\<close>, guarded by \<^verbatim>\<open>!result[marketTicker]\<close>) a market whose key is
  truthy in the result is skipped.
\<close>

fun computeEach ::
  "bool \<Rightarrow> (MarketStats \<Rightarrow> string \<Rightarrow> bool) \<Rightarrow> string list \<Rightarrow> ConnectionState \<Rightarrow> number \<Rightarrow>
   StatsObject \<times> StatsEngine \<Rightarrow> StatsObject \<times> StatsEngine" where
  "computeEach onlyMissing fieldTruthy [] state now acc = acc"
| "computeEach onlyMissing fieldTruthy (marketTicker # rest) state now (result, eng) =
     (if onlyMissing \<and> truthyAt fieldTruthy result marketTicker
      then computeEach onlyMissing fieldTruthy rest state now (result, eng)
      else (case computeMarketStats marketTicker state eng now of
              None \<Rightarrow> computeEach onlyMissing fieldTruthy rest state now (result, eng)
            | Some stats \<Rightarrow>
                computeEach onlyMissing fieldTruthy rest state now
                  (assignAt marketTicker stats result,
                   eng\<lparr>lastComputedStats :=
                     AList.update marketTicker stats (lastComputedStats eng)\<rparr>)))"

definition computeStats ::
  "(MarketStats \<Rightarrow> string \<Rightarrow> bool) \<Rightarrow> ConnectionState \<Rightarrow> number \<Rightarrow> StatsEngine \<Rightarrow>
   StatsObject \<times> StatsEngine" where
  "computeStats fieldTruthy state now eng =
     (let (result, eng') =
            computeEach False fieldTruthy (dirtyMarkets eng) state now (emptyObject, eng)
      in (result, eng'\<lparr>dirtyMarkets := []\<rparr>))"

definition computeAllStats ::
  "(MarketStats \<Rightarrow> string \<Rightarrow> bool) \<Rightarrow> ConnectionState \<Rightarrow> number \<Rightarrow> StatsEngine \<Rightarrow>
   StatsObject \<times> StatsEngine" where
  "computeAllStats fieldTruthy state now eng =
     (let acc1 = computeEach False fieldTruthy (map fst (tickersByMarket state)) state now
                   (emptyObject, eng);
          (result, eng') =
            computeEach True fieldTruthy (map fst (orderbookByMarket state)) state now acc1
      in (result, eng'\<lparr>dirtyMarkets := []\<rparr>))"

section \<open>Session orchestration (route.ts)\<close>

text \<open>
  The \<^verbatim>\<open>onMessage\<close> callback: every feed message is applied to the statistics engine.
  \<open>currentState\<close> is the connection state last handed to \<^verbatim>\<open>onStateUpdate\<close>, if any.
\<close>

fun onMessage ::
  "KalshiWSMessage \<Rightarrow> ConnectionState option \<Rightarrow> number \<Rightarrow> StatsEngine \<Rightarrow> StatsEngine" where
  "onMessage (Ticker msg) currentState now eng = onTickerUpdate msg now eng"
| "onMessage (OrderbookSnapshot msg) currentState now eng =
     onOrderbookUpdate (os_market_ticker msg) now eng"
| "onMessage (OrderbookDelta msg) currentState now eng =
     onOrderbookUpdate (od_market_ticker msg) now eng"
| "onMessage (Trade msg) currentState now eng =
     (let ticker = Option.bind currentState (\<lambda>st. map_of (tickersByMarket st) (tr_market_ticker msg))
      in onTradeUpdate msg (Option.bind ticker yes_bid) (Option.bind ticker yes_ask) now eng)"
| "onMessage OtherMessage currentState now eng = eng"

text \<open>
  The body of the 500 ms statistics timer. It returns the base statistics it computed
  (\<open>None\<close> when \<^verbatim>\<open>Object.keys(baseStats)\<close> is empty and it sends nothing) and the engine.
  The snapshot sent is the enrichment of these statistics, which keeps the set of markets.
\<close>

definition statsBatchTimer ::
  "(MarketStats \<Rightarrow> string \<Rightarrow> bool) \<Rightarrow> ConnectionState option \<Rightarrow> number \<Rightarrow> StatsEngine \<Rightarrow>
   (string \<times> MarketStats) list option \<times> StatsEngine" where
  "statsBatchTimer fieldTruthy currentState now eng =
     (case currentState of
        None \<Rightarrow> (None, eng)
      | Some state \<Rightarrow>
          (let (baseStats, eng') = computeAllStats fieldTruthy state now eng
           in (if ownStats baseStats \<noteq> [] then Some (ownStats baseStats) else None, eng')))"

section \<open>Ladder configuration (ladderConfig.ts)\<close>

definition MIN_LIQUIDITY_DEPTH :: number where "MIN_LIQUIDITY_DEPTH = 2000"
definition MIN_LIQUIDITY_VOLUME :: number where "MIN_LIQUIDITY_VOLUME = 5000"
definition MAX_SPREAD_CENTS :: number where "MAX_SPREAD_CENTS = 3"
definition MAX_STALE_MS :: number where "MAX_STALE_MS = 5000"
definition OUTLIER_MIN_CENTS :: number where "OUTLIER_MIN_CENTS = 5"
definition MONO_MIN_CENTS :: number where "MONO_MIN_CENTS = 3"
definition MONO_EPSILON :: number where "MONO_EPSILON = 15 / 1000"
definition PERSIST_MS :: number where "PERSIST_MS = 3000"
definition COOLDOWN_MS :: number where "COOLDOWN_MS = 30000"
definition TOP_K :: nat where "TOP_K = 8"

datatype MonotonicDirection = Nonincreasing | Nondecreasing

datatype LadderType = SpreadLadder | TotalLadder

definition getExpectedDirection :: "LadderType \<Rightarrow> string \<Rightarrow> MonotonicDirection" where
  "getExpectedDirection ladderType sideName =
     (if ladderType = SpreadLadder then Nonincreasing
      else if toLowerCase sideName = ''under'' then Nondecreasing
      else Nonincreasing)"

section \<open>Signals engine (signals.ts): data\<close>

datatype SignalType =
    MONO_VIOLATION | NEG_MASS | SUM_GT_1 | OUTLIER_LINE
  | STALE_QUOTE | JUMP | LOW_LIQUIDITY | WIDE_SPREAD

fun typeName :: "SignalType \<Rightarrow> string" where
  "typeName MONO_VIOLATION = ''MONO_VIOLATION''"
| "typeName NEG_MASS = ''NEG_MASS''"
| "typeName SUM_GT_1 = ''SUM_GT_1''"
| "typeName OUTLIER_LINE = ''OUTLIER_LINE''"
| "typeName STALE_QUOTE = ''STALE_QUOTE''"
| "typeName JUMP = ''JUMP''"
| "typeName LOW_LIQUIDITY = ''LOW_LIQUIDITY''"
| "typeName WIDE_SPREAD = ''WIDE_SPREAD''"

datatype SignalConfidence = LowConfidence | MediumConfidence | HighConfidence

text \<open>
  A signal id is the string \<^verbatim>\<open>signal-n\<close> or \<^verbatim>\<open>arb-n\<close>, \<open>n\<close> the engine's counter after its
  increment; the two shapes are the two constructors.
\<close>

datatype SignalId = SignalNo nat | ArbNo nat

text \<open>
  The free-text fields \<^verbatim>\<open>suggested_action\<close> and \<^verbatim>\<open>reason\<close> of a signal are formatted for
  display and are left out.
\<close>

record SignalItem =
  sig_id :: SignalId
  sig_ts :: number
  sig_market_ticker :: string
  sig_type :: SignalType
  confidence :: SignalConfidence
  magnitude :: "number option"
  related_tickers :: "string list option"
  severity_score :: "number option"
  sig_ladder_key :: "string option"

datatype ParseSource = ParsedFromTicker | ParsedFromTitle | ParsedUnknown

record LadderPoint =
  pt_line :: number
  pt_side :: string
  pt_market_ticker :: string
  pt_title :: "string option"
  pt_mid :: "number option"
  pt_bid :: "number option"
  pt_ask :: "number option"
  bid_prob :: number
  ask_prob :: number
  mid_prob :: number
  fitted_prob :: "number option"
  residual :: "number option"
  depth_bid :: "number option"
  depth_ask :: "number option"
  pt_volume :: "number option"
  spread_cents :: "number option"
  is_violation :: "bool option"
  is_outlier :: "bool option"
  is_primary :: "bool option"
  is_excluded :: "bool option"
  exclude_reason :: "string option"
  pt_parse_source :: "ParseSource option"

text \<open>Truthiness of an optional boolean field.\<close>

definition truthy :: "bool option \<Rightarrow> bool" where
  "truthy b = (b = Some True)"

record LadderDiagnostics =
  total_markets :: nat
  parsed_markets :: nat
  unparsed_markets :: nat
  duplicates_dropped :: nat
  excluded_by_liquidity :: nat
  excluded_by_spread :: nat
  excluded_by_staleness :: nat

record LadderState =
  ladder_key :: string
  game_id :: string
  ladder_type :: LadderType
  team_or_direction :: string
  expected_direction :: MonotonicDirection
  points :: "LadderPoint list"
  violations :: "SignalItem list"
  diagnostics :: LadderDiagnostics
  mono_violation_count :: nat
  outlier_count :: nat
  max_violation_cents :: number
  last_updated :: number

text \<open>
  The statistics of a market joined with its parsed metadata, as the ladder builder reads
  them (the scores and per-market flags of the enrichment are not read there).
\<close>

datatype GroupType = Winner | Spread | Total | Other

record EnrichedMarketStats = MarketStats +
  group_type :: "GroupType option"
  line :: "number option"
  side :: "string option"

record MarketMeta =
  mm_ticker :: string
  mm_title :: "string option"
  mm_parse_source :: "ParseSource option"
  is_parsed :: "bool option"

record PendingSignal =
  signal :: SignalItem
  firstSeenTs :: number
  lastSeenTs :: number
  emittedTs :: "number option"

text \<open>
  The state of the engine that the functions below read and write: the market metadata,
  the active and the pending signals, and the id counter.
\<close>

record SignalsEngine =
  marketMeta :: "(string \<times> MarketMeta) list"
  activeSignals :: "(SignalId \<times> SignalItem) list"
  pendingSignals :: "(string \<times> PendingSignal) list"
  signalIdCounter :: nat

definition newSignalsEngine :: SignalsEngine where
  "newSignalsEngine =
     \<lparr>marketMeta = [], activeSignals = [], pendingSignals = [], signalIdCounter = 0\<rparr>"

section \<open>Signal lifecycle\<close>

definition persistKey :: "SignalItem \<Rightarrow> string" where
  "persistKey sg =
     typeName (sig_type sg) @ '':'' @ sig_market_ticker sg @ '':'' @ orElse (sig_ladder_key sg) []"

text \<open>
  \<^verbatim>\<open>pending.emittedTs ? now - pending.emittedTs : Infinity\<close>, compared with the cooldown: an
  absent and a zero \<^verbatim>\<open>emittedTs\<close> are both falsy, and \<^verbatim>\<open>Infinity\<close> passes every cooldown.
\<close>

definition cooledDown :: "number option \<Rightarrow> number \<Rightarrow> bool" where
  "cooledDown emitted now =
     (case emitted of
        None \<Rightarrow> True
      | Some e \<Rightarrow> (if e = 0 then True else now - e \<ge> COOLDOWN_MS))"

text \<open>
  \<^verbatim>\<open>handleSignalPersistence\<close> returns the \<^verbatim>\<open>violations\<close> array (the signal is pushed when
  it is emitted) and the engine.
\<close>

definition handleSignalPersistence ::
  "SignalItem \<Rightarrow> SignalItem list \<Rightarrow> number \<Rightarrow> SignalsEngine \<Rightarrow> SignalItem list \<times> SignalsEngine" where
  "handleSignalPersistence sg viols now eng =
     (case map_of (pendingSignals eng) (persistKey sg) of
        None \<Rightarrow>
          (viols,
           eng\<lparr>pendingSignals :=
             AList.update (persistKey sg)
               \<lparr>signal = sg, firstSeenTs = now, lastSeenTs = now, emittedTs = None\<rparr>
               (pendingSignals eng)\<rparr>)
      | Some pending \<Rightarrow>
          (let pending1 = pending\<lparr>lastSeenTs := now, signal := sg\<rparr>;
               persistedDuration = now - firstSeenTs pending1
           in if persistedDuration \<ge> PERSIST_MS \<and> cooledDown (emittedTs pending1) now
              then (viols @ [sg],
                    eng\<lparr>activeSignals := AList.update (sig_id sg) sg (activeSignals eng),
                        pendingSignals :=
                          AList.update (persistKey sg) (pending1\<lparr>emittedTs := Some now\<rparr>)
                            (pendingSignals eng)\<rparr>)
              else (viols,
                    eng\<lparr>pendingSignals :=
                          AList.update (persistKey sg) pending1 (pendingSignals eng)\<rparr>)))"

definition cleanPendingSignals :: "number \<Rightarrow> SignalsEngine \<Rightarrow> SignalsEngine" where
  "cleanPendingSignals now eng =
     eng\<lparr>pendingSignals :=
       filter (\<lambda>(key, pending). \<not> now - lastSeenTs pending > 2000) (pendingSignals eng)\<rparr>"

definition clearOldSignals :: "number \<Rightarrow> number \<Rightarrow> SignalsEngine \<Rightarrow> SignalsEngine" where
  "clearOldSignals maxAgeMs now eng =
     cleanPendingSignals now
       (eng\<lparr>activeSignals :=
          filter (\<lambda>(i, sg). \<not> now - sig_ts sg > maxAgeMs) (activeSignals eng)\<rparr>)"

section \<open>Isotonic regression (pool adjacent violators)\<close>

text \<open>Pooling the cells \<open>i\<close> and \<open>i + 1\<close> into their weighted average.\<close>

definition poolAt :: "nat \<Rightarrow> number list \<times> number list \<Rightarrow> number list \<times> number list" where
  "poolAt i rw =
     (let result = fst rw; weights = snd rw;
          sumW = weights ! i + weights ! (i + 1);
          avg = (result ! i * weights ! i + result ! (i + 1) * weights ! (i + 1)) / sumW
      in (result[i := avg, i + 1 := avg], weights[i := sumW, i + 1 := sumW]))"

text \<open>
  The inner loop \<^verbatim>\<open>while (i > 0 && result[i - 1] < result[i]) { pool i - 1 and i; i-- }\<close>;
  it returns the index it stops at.
\<close>

fun poolBackward :: "nat \<Rightarrow> number list \<times> number list \<Rightarrow> nat \<times> number list \<times> number list" where
  "poolBackward 0 rw = (0, rw)"
| "poolBackward (Suc i) rw =
     (if fst rw ! i < fst rw ! Suc i then poolBackward i (poolAt i rw) else (Suc i, rw))"

text \<open>
  The outer loop \<^verbatim>\<open>while (i < n - 1)\<close>. After a backward pass the index moves forward by
  one only, so the loop is not bounded by \<open>n\<close>; a run that never leaves it is the value
  \<open>None\<close>.
\<close>

partial_function (option) pavSweep :: "nat \<Rightarrow> number list \<times> number list \<Rightarrow> number list option" where
  "pavSweep i rw =
     (if i + 1 < length (fst rw)
      then (if fst rw ! i < fst rw ! (i + 1)
            then (case poolBackward i (poolAt i rw) of (i', rw') \<Rightarrow> pavSweep (i' + 1) rw')
            else pavSweep (i + 1) rw)
      else Some (fst rw))"

declare pavSweep.simps [code]

text \<open>
  The propagation loop \<^verbatim>\<open>for (j = 1; j < n; j++) if (result[j] > result[j-1]) result[j] = result[j-1]\<close>:
  each cell is capped by the cell before it, already capped.
\<close>

fun propagate :: "number list \<Rightarrow> number list" where
  "propagate [] = []"
| "propagate [x] = [x]"
| "propagate (x # y # rest) = x # propagate ((if y > x then x else y) # rest)"

definition clip01 :: "number \<Rightarrow> number" where
  "clip01 v = max 0 (min 1 v)"

definition isotonicRegression :: "number list \<Rightarrow> MonotonicDirection \<Rightarrow> number list option" where
  "isotonicRegression vals direction =
     (if length vals = 0 then Some []
      else (let input = (if direction = Nondecreasing then map uminus vals else vals)
            in case pavSweep 0 (input, replicate (length vals) 1) of
                 None \<Rightarrow> None
               | Some result \<Rightarrow>
                   (let propagated = propagate result
                    in if direction = Nondecreasing
                       then Some (map (\<lambda>v. clip01 (- v)) propagated)
                       else Some (map clip01 propagated))))"



section \<open>Ladder analysis\<close>

text \<open>
  The state carried through the two analysis loops: the ladder's points (whose flags the
  loops set), the \<^verbatim>\<open>violations\<close> array, the running count and maximum, and the engine.
\<close>

record Analysis =
  an_points :: "LadderPoint list"
  an_violations :: "SignalItem list"
  an_count :: nat
  an_maxCents :: number
  an_engine :: SignalsEngine

definition pointLiquidity :: "LadderPoint \<Rightarrow> number" where
  "pointLiquidity pt = min (orElse (depth_bid pt) 0) (orElse (depth_ask pt) 0)"

text \<open>
  \<^verbatim>\<open>Math.log10\<close> is no rational function; the severity score takes it as the parameter
  \<open>log10\<close>.
\<close>

definition computeSeverityScore ::
  "(number \<Rightarrow> number) \<Rightarrow> number \<Rightarrow> LadderPoint \<Rightarrow> LadderPoint \<Rightarrow> number" where
  "computeSeverityScore log10 magnitudeCents pt1 pt2 =
     (let minDepth = min (pointLiquidity pt1) (pointLiquidity pt2);
          avgSpread = (orElse (spread_cents pt1) 10 + orElse (spread_cents pt2) 10) / 2;
          depthFactor = log10 (1 + minDepth / 1000)
      in magnitudeCents * depthFactor - (1 / 2) * avgSpread)"

definition assessConfidence :: "LadderPoint \<Rightarrow> LadderPoint \<Rightarrow> SignalConfidence" where
  "assessConfidence easier harder =
     (let minDepth = min (min (orElse (depth_bid easier) 0) (orElse (depth_ask easier) 0))
                         (min (orElse (depth_bid harder) 0) (orElse (depth_ask harder) 0))
      in if minDepth < 20 then LowConfidence
         else if minDepth < 100 then MediumConfidence
         else HighConfidence)"

text \<open>The margin of the pair \<open>(ptI, ptJ)\<close>, in cents, with its dynamic epsilon.\<close>

definition violationMargin :: "MonotonicDirection \<Rightarrow> LadderPoint \<Rightarrow> LadderPoint \<Rightarrow> number" where
  "violationMargin direction ptI ptJ =
     (let avgSpread = (orZero (spread_cents ptI) + orZero (spread_cents ptJ)) / 2;
          dynamicEpsilon = max MONO_EPSILON ((avgSpread / 100) * (1 / 2))
      in if direction = Nonincreasing
         then (bid_prob ptJ - ask_prob ptI - dynamicEpsilon) * 100
         else (bid_prob ptI - ask_prob ptJ - dynamicEpsilon) * 100)"

text \<open>The candidate built for a violating pair; \<open>n\<close> is the counter after its increment.\<close>

definition monoSignal ::
  "(number \<Rightarrow> number) \<Rightarrow> nat \<Rightarrow> string \<Rightarrow> number \<Rightarrow> number \<Rightarrow> LadderPoint \<Rightarrow> LadderPoint \<Rightarrow> SignalItem" where
  "monoSignal log10 n ladderKey now margin ptI ptJ =
     \<lparr>sig_id = SignalNo n, sig_ts = now, sig_market_ticker = pt_market_ticker ptJ,
      sig_type = MONO_VIOLATION, confidence = assessConfidence ptI ptJ,
      magnitude = Some margin,
      related_tickers = Some [pt_market_ticker ptI, pt_market_ticker ptJ],
      severity_score = Some (computeSeverityScore log10 margin ptI ptJ),
      sig_ladder_key = Some ladderKey\<rparr>"

text \<open>The body of the loop of \<^verbatim>\<open>checkMonotonicity\<close> at index \<open>i\<close>.\<close>

definition monoStep ::
  "(number \<Rightarrow> number) \<Rightarrow> string \<Rightarrow> MonotonicDirection \<Rightarrow> number \<Rightarrow> nat \<Rightarrow> Analysis \<Rightarrow> Analysis" where
  "monoStep log10 ladderKey direction now i st =
     (let ptI = an_points st ! i;
          ptJ = an_points st ! (i + 1);
          margin = violationMargin direction ptI ptJ
      in if margin \<ge> MONO_MIN_CENTS
         then (let ptI' = ptI\<lparr>is_violation := Some True\<rparr>;
                   ptJ' = ptJ\<lparr>is_violation := Some True\<rparr>;
                   n = signalIdCounter (an_engine st) + 1;
                   sg = monoSignal log10 n ladderKey now margin ptI' ptJ';
                   (viols, eng) = handleSignalPersistence sg (an_violations st) now
                                    ((an_engine st)\<lparr>signalIdCounter := n\<rparr>)
               in \<lparr>an_points = (an_points st)[i := ptI', i + 1 := ptJ'],
                   an_violations = viols,
                   an_count = an_count st + 1,
                   an_maxCents = max (an_maxCents st) margin,
                   an_engine = eng\<rparr>)
         else st)"

text \<open>\<^verbatim>\<open>for (let i = 0; i < points.length - 1; i++)\<close>: the indices \<open>0, \<dots>, n - 2\<close> in order.\<close>

definition checkMonotonicity ::
  "(number \<Rightarrow> number) \<Rightarrow> LadderPoint list \<Rightarrow> SignalItem list \<Rightarrow> string \<Rightarrow> MonotonicDirection \<Rightarrow>
   number \<Rightarrow> SignalsEngine \<Rightarrow> Analysis" where
  "checkMonotonicity log10 pts viols ladderKey direction now eng =
     fold (monoStep log10 ladderKey direction now) [0..<length pts - 1]
       \<lparr>an_points = pts, an_violations = viols, an_count = 0, an_maxCents = 0, an_engine = eng\<rparr>"

definition outlierSignal ::
  "(number \<Rightarrow> number) \<Rightarrow> nat \<Rightarrow> string \<Rightarrow> number \<Rightarrow> number \<Rightarrow> LadderPoint \<Rightarrow> SignalItem" where
  "outlierSignal log10 n ladderKey now residualCents pt =
     \<lparr>sig_id = SignalNo n, sig_ts = now, sig_market_ticker = pt_market_ticker pt,
      sig_type = OUTLIER_LINE,
      confidence = (if residualCents \<ge> 8 then HighConfidence
                    else if residualCents \<ge> 6 then MediumConfidence else LowConfidence),
      magnitude = Some residualCents,
      related_tickers = None,
      severity_score = Some (computeSeverityScore log10 residualCents pt pt),
      sig_ladder_key = Some ladderKey\<rparr>"

text \<open>The body of the loop of \<^verbatim>\<open>fitAndDetectOutliers\<close> at index \<open>i\<close>.\<close>

definition outlierStep ::
  "(number \<Rightarrow> number) \<Rightarrow> string \<Rightarrow> number \<Rightarrow> number list \<Rightarrow> nat \<Rightarrow> Analysis \<Rightarrow> Analysis" where
  "outlierStep log10 ladderKey now fitted i st =
     (let pt0 = an_points st ! i;
          res = (mid_prob pt0 - fitted ! i) * 100;
          pt1 = pt0\<lparr>fitted_prob := Some (fitted ! i), residual := Some res\<rparr>;
          residualCents = \<bar>res\<bar>;
          minDepth = pointLiquidity pt1;
          hasLiquidity = (minDepth \<ge> MIN_LIQUIDITY_DEPTH
                          \<or> orElse (pt_volume pt1) 0 \<ge> MIN_LIQUIDITY_VOLUME);
          tightSpread = (orElse (spread_cents pt1) 100 \<le> MAX_SPREAD_CENTS)
      in if residualCents \<ge> OUTLIER_MIN_CENTS \<and> hasLiquidity \<and> tightSpread
         then (let pt2 = pt1\<lparr>is_outlier := Some True\<rparr>;
                   n = signalIdCounter (an_engine st) + 1;
                   sg = outlierSignal log10 n ladderKey now residualCents pt2;
                   (viols, eng) = handleSignalPersistence sg (an_violations st) now
                                    ((an_engine st)\<lparr>signalIdCounter := n\<rparr>)
               in \<lparr>an_points = (an_points st)[i := pt2],
                   an_violations = viols,
                   an_count = an_count st + 1,
                   an_maxCents = max (an_maxCents st) residualCents,
                   an_engine = eng\<rparr>)
         else st\<lparr>an_points := (an_points st)[i := pt1]\<rparr>)"

text \<open>
  \<^verbatim>\<open>fitAndDetectOutliers\<close> has no result when the isotonic fit does not return.
\<close>

definition fitAndDetectOutliers ::
  "(number \<Rightarrow> number) \<Rightarrow> LadderPoint list \<Rightarrow> SignalItem list \<Rightarrow> string \<Rightarrow> MonotonicDirection \<Rightarrow>
   number \<Rightarrow> SignalsEngine \<Rightarrow> Analysis option" where
  "fitAndDetectOutliers log10 pts viols ladderKey direction now eng =
     (let st0 = \<lparr>an_points = pts, an_violations = viols, an_count = 0, an_maxCents = 0,
                 an_engine = eng\<rparr>
      in if length pts < 3 then Some st0
         else (case isotonicRegression (map mid_prob pts) direction of
                 None \<Rightarrow> None
               | Some fitted \<Rightarrow>
                   Some (fold (outlierStep log10 ladderKey now fitted) [0..<length pts] st0)))"

section \<open>Ladder builder\<close>

text \<open>
  The callback of \<^verbatim>\<open>markets.filter(line present).map(...)\<close>: the point of a market whose
  line is \<open>l\<close>, with its gating, and the diagnostics it counts into.
\<close>

definition rawPoint ::
  "SignalsEngine \<Rightarrow> EnrichedMarketStats \<Rightarrow> number \<Rightarrow> LadderDiagnostics \<Rightarrow> LadderPoint \<times> LadderDiagnostics" where
  "rawPoint eng m l diag =
     (let meta = map_of (marketMeta eng) (market_ticker m);
          minDepth = min (orElse (sum_bid_top5 m) 0) (orElse (sum_ask_top5 m) 0);
          spreadV = orElse (spread m) 100;
          maxAge = max (orElse (last_ticker_age_ms m) 0) (orElse (last_orderbook_age_ms m) 0);
          (isExcluded, excludeReason, diag1) =
            (if minDepth < MIN_LIQUIDITY_DEPTH \<and> orElse (volume m) 0 < MIN_LIQUIDITY_VOLUME
             then (True, Some ''low_liquidity'',
                   diag\<lparr>excluded_by_liquidity := excluded_by_liquidity diag + 1\<rparr>)
             else if spreadV > MAX_SPREAD_CENTS
             then (True, Some ''wide_spread'',
                   diag\<lparr>excluded_by_spread := excluded_by_spread diag + 1\<rparr>)
             else if maxAge > MAX_STALE_MS
             then (True, Some ''stale'',
                   diag\<lparr>excluded_by_staleness := excluded_by_staleness diag + 1\<rparr>)
             else (False, None, diag));
          diag2 = (if truthy (Option.bind meta is_parsed)
                   then diag1\<lparr>parsed_markets := parsed_markets diag1 + 1\<rparr>
                   else diag1\<lparr>unparsed_markets := unparsed_markets diag1 + 1\<rparr>)
      in (\<lparr>pt_line = l,
           pt_side = orElse (side m) ''Unknown'',
           pt_market_ticker = market_ticker m,
           pt_title = Option.bind meta mm_title,
           pt_mid = mid m,
           pt_bid = best_bid m,
           pt_ask = best_ask m,
           bid_prob = orElse (best_bid m) 0 / 100,
           ask_prob = orElse (best_ask m) 100 / 100,
           mid_prob = orElse (mid m) 50 / 100,
           fitted_prob = None,
           residual = None,
           depth_bid = sum_bid_top5 m,
           depth_ask = sum_ask_top5 m,
           pt_volume = volume m,
           spread_cents = Some spreadV,
           is_violation = None,
           is_outlier = None,
           is_primary = Some True,
           is_excluded = Some isExcluded,
           exclude_reason = excludeReason,
           pt_parse_source = Option.bind meta mm_parse_source\<rparr>, diag2))"

fun rawPointsOf ::
  "SignalsEngine \<Rightarrow> EnrichedMarketStats list \<Rightarrow> LadderDiagnostics \<Rightarrow> LadderPoint list \<times> LadderDiagnostics" where
  "rawPointsOf eng [] diag = ([], diag)"
| "rawPointsOf eng (m # ms) diag =
     (case line m of
        None \<Rightarrow> rawPointsOf eng ms diag
      | Some l \<Rightarrow>
          (let (pt, diag1) = rawPoint eng m l diag;
               (pts, diag2) = rawPointsOf eng ms diag1
           in (pt # pts, diag2)))"

text \<open>\<^verbatim>\<open>.sort((a, b) => a.line - b.line)\<close>: a stable sort by line, ascending.\<close>

definition sortByLine :: "LadderPoint list \<Rightarrow> LadderPoint list" where
  "sortByLine pts = sort_key pt_line pts"

text \<open>The map from a line to the points at that line, keys in order of first appearance.\<close>

fun groupByLine ::
  "LadderPoint list \<Rightarrow> (number \<times> LadderPoint list) list \<Rightarrow> (number \<times> LadderPoint list) list" where
  "groupByLine [] lineToPoints = lineToPoints"
| "groupByLine (pt # pts) lineToPoints =
     groupByLine pts
       (AList.update (pt_line pt) (orElse (map_of lineToPoints (pt_line pt)) [] @ [pt])
          lineToPoints)"

text \<open>
  The treatment of one group: with more than one point, a stable sort by
  \<open>min(depth_bid, depth_ask)\<close>, highest first, the first marked primary and the others not.
  It returns the group as marked and the number of duplicates to count.
\<close>

definition dedupeGroup :: "LadderPoint list \<Rightarrow> LadderPoint list \<times> nat" where
  "dedupeGroup pts =
     (if length pts > 1
      then (case sort_key (\<lambda>pt. - pointLiquidity pt) pts of
              [] \<Rightarrow> ([], 0)
            | best # others \<Rightarrow>
                (best\<lparr>is_primary := Some True\<rparr> # map (\<lambda>pt. pt\<lparr>is_primary := Some False\<rparr>) others,
                 length pts - 1))
      else (pts, 0))"

text \<open>
  The loop over the groups: the head of each group goes into the analysed points when it
  is primary and not excluded.
\<close>

fun dedupeGroups ::
  "(number \<times> LadderPoint list) list \<Rightarrow> LadderPoint list \<times> nat \<Rightarrow> LadderPoint list \<times> nat" where
  "dedupeGroups [] acc = acc"
| "dedupeGroups ((l, pts) # groups) (analysed, dropped) =
     (let (marked, d) = dedupeGroup pts
      in case marked of
           [] \<Rightarrow> dedupeGroups groups (analysed, dropped + d)
         | primary # _ \<Rightarrow>
             (if truthy (is_primary primary) \<and> \<not> truthy (is_excluded primary)
              then dedupeGroups groups (analysed @ [primary], dropped + d)
              else dedupeGroups groups (analysed, dropped + d)))"

text \<open>The analysed points of a ladder and the number of duplicates dropped.\<close>

definition dedupe :: "LadderPoint list \<Rightarrow> LadderPoint list \<times> nat" where
  "dedupe rawPoints =
     (let (analysed, dropped) = dedupeGroups (groupByLine rawPoints []) ([], 0)
      in (sortByLine analysed, dropped))"

definition buildLadder ::
  "(number \<Rightarrow> number) \<Rightarrow> EnrichedMarketStats list \<Rightarrow> string \<Rightarrow> LadderType \<Rightarrow> string \<Rightarrow> string \<Rightarrow>
   number \<Rightarrow> SignalsEngine \<Rightarrow> (LadderState \<times> SignalsEngine) option" where
  "buildLadder log10 markets gameId ladderType teamOrDirection ladderKey now eng =
     (let expectedDirection = getExpectedDirection ladderType teamOrDirection;
          diag0 = \<lparr>total_markets = length markets, parsed_markets = 0, unparsed_markets = 0,
                   duplicates_dropped = 0, excluded_by_liquidity = 0, excluded_by_spread = 0,
                   excluded_by_staleness = 0\<rparr>;
          (unsorted, diag1) = rawPointsOf eng markets diag0;
          rawPoints = sortByLine unsorted;
          (pts, dropped) = dedupe rawPoints;
          diag2 = diag1\<lparr>duplicates_dropped := duplicates_dropped diag1 + dropped\<rparr>;
          monoResult = checkMonotonicity log10 pts [] ladderKey expectedDirection now eng
      in case fitAndDetectOutliers log10 (an_points monoResult) (an_violations monoResult)
                ladderKey expectedDirection now (an_engine monoResult) of
           None \<Rightarrow> None
         | Some outlierResult \<Rightarrow>
             Some (\<lparr>ladder_key = ladderKey, game_id = gameId, ladder_type = ladderType,
                    team_or_direction = teamOrDirection,
                    expected_direction = expectedDirection,
                    points = an_points outlierResult,
                    violations = an_violations outlierResult,
                    diagnostics = diag2,
                    mono_violation_count = an_count monoResult,
                    outlier_count = an_count outlierResult,
                    max_violation_cents =
                      max (max 0 (an_maxCents monoResult)) (an_maxCents outlierResult),
                    last_updated = now\<rparr>,
                   an_engine outlierResult))"

section \<open>Cross-ladder arbitrage\<close>

definition isOpposing :: "LadderState \<Rightarrow> LadderState \<Rightarrow> bool" where
  "isOpposing l1 l2 =
     ((ladder_type l1 = TotalLadder
        \<and> ((team_or_direction l1 = ''Over'' \<and> team_or_direction l2 = ''Under'')
           \<or> (team_or_direction l1 = ''Under'' \<and> team_or_direction l2 = ''Over'')))
      \<or> (ladder_type l1 = SpreadLadder \<and> team_or_direction l1 \<noteq> team_or_direction l2))"

text \<open>The point of \<open>l2\<close> that mirrors \<open>p1\<close>: the first one within 0.01 of the target line.\<close>

definition mirrorPoint :: "LadderState \<Rightarrow> LadderState \<Rightarrow> LadderPoint \<Rightarrow> LadderPoint option" where
  "mirrorPoint l1 l2 p1 =
     (let targetLine = (if ladder_type l1 = SpreadLadder then - pt_line p1 else pt_line p1)
      in find (\<lambda>p. \<bar>pt_line p - targetLine\<bar> < 1 / 100) (points l2))"

definition arbSignal :: "nat \<Rightarrow> number \<Rightarrow> LadderState \<Rightarrow> LadderPoint \<Rightarrow> LadderPoint \<Rightarrow> SignalItem" where
  "arbSignal n now l1 p1 p2 =
     (let sumBids = bid_prob p1 + bid_prob p2;
          profitCents = (sumBids - 1) * 100
      in \<lparr>sig_id = ArbNo n, sig_ts = now, sig_market_ticker = pt_market_ticker p1,
          sig_type = SUM_GT_1, confidence = HighConfidence,
          magnitude = Some profitCents,
          related_tickers = Some [pt_market_ticker p1, pt_market_ticker p2],
          severity_score = Some (profitCents * 10),
          sig_ladder_key = Some (ladder_key l1)\<rparr>)"

text \<open>
  The body of the loop over the points of \<open>l1\<close>; the accumulator is the list of candidates
  and the id counter.
\<close>

definition arbPoint ::
  "LadderState \<Rightarrow> LadderState \<Rightarrow> number \<Rightarrow> LadderPoint \<Rightarrow> SignalItem list \<times> nat \<Rightarrow> SignalItem list \<times> nat" where
  "arbPoint l1 l2 now p1 acc =
     (case mirrorPoint l1 l2 p1 of
        None \<Rightarrow> acc
      | Some p2 \<Rightarrow>
          (if bid_prob p1 + bid_prob p2 > 101 / 100
           then (fst acc @ [arbSignal (snd acc + 1) now l1 p1 p2], snd acc + 1)
           else acc))"

text \<open>The body of the loop over \<open>j\<close>: one pair of ladders.\<close>

definition arbPair ::
  "LadderState \<Rightarrow> number \<Rightarrow> LadderState \<Rightarrow> SignalItem list \<times> nat \<Rightarrow> SignalItem list \<times> nat" where
  "arbPair l1 now l2 acc =
     (if ladder_type l1 \<noteq> ladder_type l2 then acc
      else if \<not> isOpposing l1 l2 then acc
      else fold (arbPoint l1 l2 now) (points l1) acc)"

text \<open>The loop over \<open>i\<close>, each ladder paired with every later one.\<close>

fun arbFrom :: "LadderState list \<Rightarrow> number \<Rightarrow> SignalItem list \<times> nat \<Rightarrow> SignalItem list \<times> nat" where
  "arbFrom [] now acc = acc"
| "arbFrom (l1 # rest) now acc = arbFrom rest now (fold (arbPair l1 now) rest acc)"

definition detectCrossLadderArb ::
  "LadderState list \<Rightarrow> number \<Rightarrow> SignalsEngine \<Rightarrow> SignalItem list \<times> SignalsEngine" where
  "detectCrossLadderArb ladders now eng =
     (let (arbSignals, n) = arbFrom ladders now ([], signalIdCounter eng)
      in (arbSignals, eng\<lparr>signalIdCounter := n\<rparr>))"

text \<open>The book of a market as a delta reads it: absent means both sides empty.\<close>

definition bookOf :: "ConnectionState \<Rightarrow> string \<Rightarrow> OrderBook" where
  "bookOf state ticker = orElse (map_of (orderbookByMarket state) ticker) \<lparr>yes = [], no = []\<rparr>"

definition levelsOf :: "BookSide \<Rightarrow> OrderBook \<Rightarrow> (number \<times> number) list" where
  "levelsOf s book = (if s = SideYes then yes book else no book)"

text \<open>
  The side \<^verbatim>\<open>onTradeUpdate\<close> records for a trade: the side of the newest entry of the
  market's trade ring after the update.
\<close>

definition recordedSide ::
  "TradeMsg \<Rightarrow> number option \<Rightarrow> number option \<Rightarrow> number \<Rightarrow> StatsEngine \<Rightarrow> TradeSide" where
  "recordedSide msg currentBid currentAsk now eng =
     trade_side (last (trades (getOrCreateBuffer (onTradeUpdate msg currentBid currentAsk now eng)
       (tr_market_ticker msg))))"

text \<open>
  The classification as the specification words it: buy for taker side \<^verbatim>\<open>"yes"\<close>, sell for
  \<^verbatim>\<open>"no"\<close>, otherwise relative to the mid of the two hints, unknown when a hint is missing.
\<close>

definition specTradeSide ::
  "string option \<Rightarrow> number option \<Rightarrow> number option \<Rightarrow> number \<Rightarrow> TradeSide" where
  "specTradeSide takerSide currentBid currentAsk price =
     (if takerSide = Some ''yes'' then Buy
      else if takerSide = Some ''no'' then Sell
      else (case (currentBid, currentAsk) of
              (Some bid, Some ask) \<Rightarrow> (if price \<ge> (bid + ask) / 2 then Buy else Sell)
            | _ \<Rightarrow> UnknownSide))"

text \<open>A ticker message used in the examples below.\<close>

definition exampleTicker :: TickerMsg where
  "exampleTicker = \<lparr>tk_market_ticker = ''MKT-A'', yes_bid = Some 40, yes_ask = Some 42\<rparr>"

text \<open>
  A candidate is emitted when \<^verbatim>\<open>handleSignalPersistence\<close> pushes it to the \<^verbatim>\<open>violations\<close>
  array (it then also enters the active map and its pending entry records the time).
\<close>

definition emitted :: "SignalItem \<Rightarrow> number \<Rightarrow> SignalsEngine \<Rightarrow> bool" where
  "emitted sg now eng = (fst (handleSignalPersistence sg [] now eng) = [sg])"

text \<open>
  The two things that happen to the signal maps in a session: a candidate arrives at a time,
  or the cleanup of the signals timer (\<^verbatim>\<open>clearOldSignals(60000)\<close>) runs at a time.
\<close>

datatype LifecycleEvent = Candidate SignalItem number | Cleanup number

fun lifecycleStep :: "SignalsEngine \<Rightarrow> LifecycleEvent \<Rightarrow> SignalsEngine" where
  "lifecycleStep eng (Candidate sg now) = snd (handleSignalPersistence sg [] now eng)"
| "lifecycleStep eng (Cleanup now) = clearOldSignals 60000 now eng"

definition runLifecycle :: "LifecycleEvent list \<Rightarrow> SignalsEngine" where
  "runLifecycle evs = foldl lifecycleStep newSignalsEngine evs"

text \<open>A candidate used in the examples: the \<open>n\<close>-th detection of one violation, at \<open>now\<close>.\<close>

definition exampleCandidate :: "nat \<Rightarrow> number \<Rightarrow> SignalItem" where
  "exampleCandidate n now =
     \<lparr>sig_id = SignalNo n, sig_ts = now, sig_market_ticker = ''MKT-A'',
      sig_type = MONO_VIOLATION, confidence = HighConfidence, magnitude = Some 4,
      related_tickers = None, severity_score = Some 1,
      sig_ladder_key = Some ''g|total|Over|total_over''\<rparr>"

text \<open>
  A state of the sweep that it cannot leave in exact arithmetic: three cells \<open>a, a, b\<close> with
  \<open>a < b\<close>, the index at the middle cell, positive weights.
\<close>

definition stuck :: "nat \<Rightarrow> number list \<times> number list \<Rightarrow> bool" where
  "stuck i rw = (\<exists>a b w0 w1 w2. i = 1 \<and> rw = ([a, a, b], [w0, w1, w2])
                   \<and> a < b \<and> 0 < w0 \<and> 0 < w1 \<and> 0 < w2)"


definition flagged :: "LadderPoint \<Rightarrow> LadderPoint" where
  "flagged pt = pt\<lparr>is_violation := Some True\<rparr>"





text \<open>
  A ladder point used in the examples: a liquid, primary, unexcluded point with the given
  ticker, line, bid and ask (in cents).
\<close>

definition examplePoint :: "string \<Rightarrow> number \<Rightarrow> number \<Rightarrow> number \<Rightarrow> LadderPoint" where
  "examplePoint ticker l bid ask =
     \<lparr>pt_line = l, pt_side = ''Over'', pt_market_ticker = ticker, pt_title = None,
      pt_mid = Some ((bid + ask) / 2), pt_bid = Some bid, pt_ask = Some ask,
      bid_prob = bid / 100, ask_prob = ask / 100, mid_prob = ((bid + ask) / 2) / 100,
      fitted_prob = None, residual = None, depth_bid = Some 3000, depth_ask = Some 3000,
      pt_volume = None, spread_cents = Some (ask - bid), is_violation = None,
      is_outlier = None, is_primary = Some True, is_excluded = Some False,
      exclude_reason = None, pt_parse_source = Some ParsedFromTicker\<rparr>"

text \<open>
  The candidates as the specification lists them: for every pair of ladders, the earlier
  one first, of equal type and opposing sides, and every point of the first whose mirror
  point exists in the second with bids summing to more than 1.01, the triple of the first
  ladder, the point and its mirror; \<open>numbered\<close> turns the triples into signals with
  consecutive ids.
\<close>

definition pointMatches :: "LadderState \<Rightarrow> LadderState \<Rightarrow> LadderPoint \<Rightarrow> (LadderState \<times> LadderPoint \<times> LadderPoint) list" where
  "pointMatches l1 l2 p1 =
     (case mirrorPoint l1 l2 p1 of
        None \<Rightarrow> []
      | Some p2 \<Rightarrow> (if bid_prob p1 + bid_prob p2 > 101 / 100 then [(l1, p1, p2)] else []))"

definition pairMatches :: "LadderState \<Rightarrow> LadderState \<Rightarrow> (LadderState \<times> LadderPoint \<times> LadderPoint) list" where
  "pairMatches l1 l2 =
     (if ladder_type l1 = ladder_type l2 \<and> isOpposing l1 l2
      then concat (map (pointMatches l1 l2) (points l1)) else [])"

fun allMatches :: "LadderState list \<Rightarrow> (LadderState \<times> LadderPoint \<times> LadderPoint) list" where
  "allMatches [] = []"
| "allMatches (l1 # rest) = concat (map (pairMatches l1) rest) @ allMatches rest"

fun numbered :: "number \<Rightarrow> nat \<Rightarrow> (LadderState \<times> LadderPoint \<times> LadderPoint) list \<Rightarrow> SignalItem list" where
  "numbered now n [] = []"
| "numbered now n ((l1, p1, p2) # ms) = arbSignal (n + 1) now l1 p1 p2 # numbered now (n + 1) ms"

text \<open>Ladders used in the examples.\<close>

definition exampleLadder :: "string \<Rightarrow> LadderType \<Rightarrow> string \<Rightarrow> LadderPoint list \<Rightarrow> LadderState" where
  "exampleLadder key ty dir pts =
     \<lparr>ladder_key = key, game_id = ''g'', ladder_type = ty, team_or_direction = dir,
      expected_direction = getExpectedDirection ty dir, points = pts, violations = [],
      diagnostics = \<lparr>total_markets = length pts, parsed_markets = length pts,
        unparsed_markets = 0, duplicates_dropped = 0, excluded_by_liquidity = 0,
        excluded_by_spread = 0, excluded_by_staleness = 0\<rparr>,
      mono_violation_count = 0, outlier_count = 0, max_violation_cents = 0,
      last_updated = 0\<rparr>"

definition overUnderExample :: "LadderState list" where
  "overUnderExample =
     [exampleLadder ''g|total|Over|total_over'' TotalLadder ''Over'' [examplePoint ''O45'' 45 58 60],
      exampleLadder ''g|total|Under|total_under'' TotalLadder ''Under'' [examplePoint ''U45'' 45 45 47]]"

subsection \<open>Deduplication: statement-level definitions\<close>

definition sameLine :: "number \<Rightarrow> LadderPoint list \<Rightarrow> LadderPoint list" where
  "sameLine l raw = filter (\<lambda>p. pt_line p = l) raw"

definition primaryOf :: "LadderPoint list \<Rightarrow> number \<Rightarrow> LadderPoint" where
  "primaryOf raw l = hd (sort_key (\<lambda>pt. - pointLiquidity pt) (sameLine l raw))"

definition keepPrimary :: "number \<times> LadderPoint list \<Rightarrow> LadderPoint option" where
  "keepPrimary g =
     (case fst (dedupeGroup (snd g)) of
        [] \<Rightarrow> None
      | primary # _ \<Rightarrow>
          (if truthy (is_primary primary) \<and> \<not> truthy (is_excluded primary)
           then Some primary else None))"

definition depthPoint :: "string \<Rightarrow> number \<Rightarrow> number \<Rightarrow> LadderPoint" where
  "depthPoint ticker l depth =
     (examplePoint ticker l 50 52)\<lparr>depth_bid := Some depth, depth_ask := Some (depth + 100)\<rparr>"

subsection \<open>Gating and missing quotes: statement-level definitions\<close>

text \<open>
  The three gates as the specification words them, over the statistics of a market:
  \<open>min_depth < 2000 AND volume < 5000\<close>, \<open>spread > 3\<close> cents (a missing spread read as 100) and
  \<open>max_age > 5000\<close> ms.
\<close>

definition minDepthOf :: "'a MarketStats_scheme \<Rightarrow> number" where
  "minDepthOf m = min (orElse (sum_bid_top5 m) 0) (orElse (sum_ask_top5 m) 0)"

definition lowLiquidity :: "'a MarketStats_scheme \<Rightarrow> bool" where
  "lowLiquidity m = (minDepthOf m < 2000 \<and> orElse (volume m) 0 < 5000)"

definition wideSpread :: "'a MarketStats_scheme \<Rightarrow> bool" where
  "wideSpread m = (orElse (spread m) 100 > 3)"

definition staleQuote :: "'a MarketStats_scheme \<Rightarrow> bool" where
  "staleQuote m =
     (max (orElse (last_ticker_age_ms m) 0) (orElse (last_orderbook_age_ms m) 0) > 5000)"

definition failsGate :: "'a MarketStats_scheme \<Rightarrow> bool" where
  "failsGate m = (lowLiquidity m \<or> wideSpread m \<or> staleQuote m)"

text \<open>What identifies a point and its gating, untouched by the two analysis passes.\<close>

definition pointId :: "LadderPoint \<Rightarrow> string \<times> number \<times> bool option \<times> string option" where
  "pointId p = (pt_market_ticker p, pt_line p, is_excluded p, exclude_reason p)"

text \<open>
  A quoted market of a totals ladder with the given line, depth on both sides and spread,
  fresh feeds and no volume; a market with no quote at all and the given depth, as
  \<^verbatim>\<open>computeMarketStats\<close> reports a market that never received a message; and diagnostics
  with nothing counted yet.
\<close>

definition exampleMarket :: "string \<Rightarrow> number \<Rightarrow> number \<Rightarrow> number \<Rightarrow> EnrichedMarketStats" where
  "exampleMarket ticker l depth spr =
     \<lparr>market_ticker = ticker, ts = 1000, best_bid = Some 50, best_ask = Some (50 + spr),
      mid = Some (50 + spr / 2), spread = Some spr, bid_size_top = None, ask_size_top = None,
      sum_bid_top5 = Some depth, sum_ask_top5 = Some depth, volume = None,
      last_ticker_age_ms = Some 0, last_orderbook_age_ms = Some 0, last_trade_ts = None,
      feed_status = Fresh, group_type = Some Total, line = Some l, side = Some ''Over''\<rparr>"

definition quotelessMarket :: "string \<Rightarrow> number \<Rightarrow> number option \<Rightarrow> EnrichedMarketStats" where
  "quotelessMarket ticker l depth =
     \<lparr>market_ticker = ticker, ts = 1000, best_bid = None, best_ask = None,
      mid = None, spread = None, bid_size_top = None, ask_size_top = None,
      sum_bid_top5 = depth, sum_ask_top5 = depth, volume = None,
      last_ticker_age_ms = None, last_orderbook_age_ms = None, last_trade_ts = None,
      feed_status = UnknownStatus, group_type = Some Total, line = Some l,
      side = Some ''Over''\<rparr>"

definition exampleDiagnostics :: LadderDiagnostics where
  "exampleDiagnostics =
     \<lparr>total_markets = 2, parsed_markets = 0, unparsed_markets = 0, duplicates_dropped = 0,
      excluded_by_liquidity = 0, excluded_by_spread = 0, excluded_by_staleness = 0\<rparr>"


section \<open>Book state: every stored level has positive size\<close>

lemma list_all_update:
  "list_all P al \<Longrightarrow> P (k, v) \<Longrightarrow> list_all P (AList.update k v al)"
  by (induction al) auto

lemma list_all_delete:
  "list_all P al \<Longrightarrow> list_all P (AList.delete k al)"
  by (induction al) auto

lemma list_all_map_of:
  "list_all P al \<Longrightarrow> map_of al k = Some v \<Longrightarrow> P (k, v)"
  by (induction al) (auto split: if_splits)

lemma positiveLevels_Nil: "positiveLevels []"
  by (simp add: positiveLevels_def)

lemma positiveLevels_setPositiveLevels:
  "positiveLevels m \<Longrightarrow> positiveLevels (setPositiveLevels levels m)"
  by (induction levels m rule: setPositiveLevels.induct)
     (auto simp: positiveLevels_def list_all_update)

lemma positiveLevels_deltaSide:
  "positiveLevels m \<Longrightarrow> positiveLevels (deltaSide m price delta)"
  by (auto simp: positiveLevels_def deltaSide_def Let_def list_all_update list_all_delete)

lemma positiveBooks_snapshot:
  "positiveBooks state \<Longrightarrow> positiveBooks (applyOrderbookSnapshot state msg)"
  unfolding positiveBooks_def applyOrderbookSnapshot_def Let_def
  by (simp add: list_all_update positiveLevels_setPositiveLevels positiveLevels_Nil)

lemma positiveBooks_delta:
  assumes "positiveBooks state"
  shows "positiveBooks (applyOrderbookDelta state msg)"
proof -
  let ?t = "od_market_ticker msg"
  let ?book = "case map_of (orderbookByMarket state) ?t of
                    None \<Rightarrow> \<lparr>yes = [], no = []\<rparr> | Some b \<Rightarrow> b"
  have "positiveLevels (yes ?book) \<and> positiveLevels (no ?book)"
  proof (cases "map_of (orderbookByMarket state) ?t")
    case None
    then show ?thesis by (simp add: positiveLevels_Nil)
  next
    case (Some b)
    with assms list_all_map_of [of _ "orderbookByMarket state" ?t b]
    show ?thesis by (auto simp: positiveBooks_def)
  qed
  then show ?thesis using assms
    unfolding positiveBooks_def applyOrderbookDelta_def Let_def
    by (simp add: list_all_update positiveLevels_deltaSide)
qed

lemma positiveBooks_applyMessage:
  "positiveBooks state \<Longrightarrow> positiveBooks (applyMessage state m)"
  by (cases m) (simp_all add: positiveBooks_snapshot positiveBooks_delta,
      simp add: positiveBooks_def applyTickerUpdate_def)

lemma positiveBooks_foldl:
  "positiveBooks state \<Longrightarrow> positiveBooks (foldl applyMessage state ms)"
  by (induction ms arbitrary: state) (simp_all add: positiveBooks_applyMessage)

lemma positiveBooks_initial: "positiveBooks createConnectionState"
  by (simp add: positiveBooks_def createConnectionState_def)

lemma map_of_setPositiveLevels:
  "map_of (setPositiveLevels levels m) p =
     (case map_of (rev (filter (\<lambda>(price, size). size > 0) levels)) p of
        None \<Rightarrow> map_of m p | Some q \<Rightarrow> Some q)"
  by (induction levels m rule: setPositiveLevels.induct)
     (auto simp: update_conv' split: option.splits)

lemma map_of_deltaSide:
  "map_of (deltaSide m price delta) p =
     (if p = price then
        (if orZero (map_of m price) + delta \<le> 0 then None
         else Some (orZero (map_of m price) + delta))
      else map_of m p)"
  by (auto simp: deltaSide_def Let_def update_conv' delete_conv')

lemma bookOf_snapshot:
  "bookOf (applyOrderbookSnapshot state msg) (os_market_ticker msg) =
     \<lparr>yes = setPositiveLevels (orElse (os_yes msg) []) [],
      no = setPositiveLevels (orElse (os_no msg) []) []\<rparr>"
  by (simp add: bookOf_def applyOrderbookSnapshot_def Let_def update_conv' orElse_def)

lemma bookOf_delta:
  "levelsOf (od_side msg) (bookOf (applyOrderbookDelta state msg) (od_market_ticker msg)) =
     deltaSide (levelsOf (od_side msg) (bookOf state (od_market_ticker msg)))
       (od_price msg) (od_delta msg)"
  by (simp add: bookOf_def applyOrderbookDelta_def Let_def update_conv' orElse_def levelsOf_def
      split: option.splits)

text \<open>
  Claim C3. Starting from the empty connection state and applying any sequence of feed
  messages (tickers, order-book snapshots, order-book deltas, trades), every price level
  stored in the yes and no maps of every book has a strictly positive size. A snapshot
  replaces both side maps of its market: a price is present afterwards exactly when the
  snapshot lists it with a positive size, and it carries the last such size. A delta on a
  side sets the level at its price to \<open>prev + delta\<close> (\<open>prev\<close> being 0 for an absent
  level), deletes the level when that is \<open>\<le> 0\<close>, and leaves every other price of that side
  as it was.
\<close>

theorem book_levels_positive:
  "positiveBooks (foldl applyMessage createConnectionState msgs)
   \<and> map_of (yes (bookOf (applyOrderbookSnapshot state smsg) (os_market_ticker smsg))) p =
       map_of (rev (filter (\<lambda>(price, size). size > 0) (orElse (os_yes smsg) []))) p
   \<and> map_of (no (bookOf (applyOrderbookSnapshot state smsg) (os_market_ticker smsg))) p =
       map_of (rev (filter (\<lambda>(price, size). size > 0) (orElse (os_no smsg) []))) p
   \<and> map_of (levelsOf (od_side dmsg) (bookOf (applyOrderbookDelta state dmsg) (od_market_ticker dmsg))) p =
       (let prev = orZero (map_of (levelsOf (od_side dmsg) (bookOf state (od_market_ticker dmsg)))
                     (od_price dmsg))
        in if p = od_price dmsg
           then (if prev + od_delta dmsg \<le> 0 then None else Some (prev + od_delta dmsg))
           else map_of (levelsOf (od_side dmsg) (bookOf state (od_market_ticker dmsg))) p)"
proof -
  have inv: "positiveBooks (foldl applyMessage createConnectionState msgs)"
    by (rule positiveBooks_foldl [OF positiveBooks_initial])
  have snap_yes: "map_of (yes (bookOf (applyOrderbookSnapshot state smsg) (os_market_ticker smsg))) p =
       map_of (rev (filter (\<lambda>(price, size). size > 0) (orElse (os_yes smsg) []))) p"
    by (simp add: bookOf_snapshot map_of_setPositiveLevels split: option.splits)
  have snap_no: "map_of (no (bookOf (applyOrderbookSnapshot state smsg) (os_market_ticker smsg))) p =
       map_of (rev (filter (\<lambda>(price, size). size > 0) (orElse (os_no smsg) []))) p"
    by (simp add: bookOf_snapshot map_of_setPositiveLevels split: option.splits)
  have delta: "map_of (levelsOf (od_side dmsg) (bookOf (applyOrderbookDelta state dmsg) (od_market_ticker dmsg))) p =
       (let prev = orZero (map_of (levelsOf (od_side dmsg) (bookOf state (od_market_ticker dmsg)))
                     (od_price dmsg))
        in if p = od_price dmsg
           then (if prev + od_delta dmsg \<le> 0 then None else Some (prev + od_delta dmsg))
           else map_of (levelsOf (od_side dmsg) (bookOf state (od_market_ticker dmsg))) p)"
    by (simp add: bookOf_delta map_of_deltaSide Let_def)
  from inv snap_yes snap_no delta show ?thesis by blast
qed

text \<open>
  An instance: a snapshot with a zero-size level, then a delta that empties a level and a
  delta that opens one on a market never seen before.
\<close>

theorem book_levels_positive_witness:
  "positiveBooks (foldl applyMessage createConnectionState
     [OrderbookSnapshot \<lparr>os_market_ticker = ''MKT-A'', os_yes = Some [(40, 10), (41, 0)],
        os_no = Some [(55, 7)]\<rparr>,
      OrderbookDelta \<lparr>od_market_ticker = ''MKT-A'', od_price = 40, od_delta = -10, od_side = SideYes\<rparr>,
      OrderbookDelta \<lparr>od_market_ticker = ''MKT-B'', od_price = 30, od_delta = 5, od_side = SideNo\<rparr>])
   \<and> foldl applyMessage createConnectionState
     [OrderbookSnapshot \<lparr>os_market_ticker = ''MKT-A'', os_yes = Some [(40, 10), (41, 0)],
        os_no = Some [(55, 7)]\<rparr>,
      OrderbookDelta \<lparr>od_market_ticker = ''MKT-A'', od_price = 40, od_delta = -10, od_side = SideYes\<rparr>,
      OrderbookDelta \<lparr>od_market_ticker = ''MKT-B'', od_price = 30, od_delta = 5, od_side = SideNo\<rparr>]
     = \<lparr>tickersByMarket = [],
        orderbookByMarket = [(''MKT-A'', \<lparr>yes = [], no = [(55, 7)]\<rparr>),
                             (''MKT-B'', \<lparr>yes = [], no = [(30, 5)]\<rparr>)]\<rparr>"
proof -
  have "foldl applyMessage createConnectionState
     [OrderbookSnapshot \<lparr>os_market_ticker = ''MKT-A'', os_yes = Some [(40, 10), (41, 0)],
        os_no = Some [(55, 7)]\<rparr>,
      OrderbookDelta \<lparr>od_market_ticker = ''MKT-A'', od_price = 40, od_delta = -10, od_side = SideYes\<rparr>,
      OrderbookDelta \<lparr>od_market_ticker = ''MKT-B'', od_price = 30, od_delta = 5, od_side = SideNo\<rparr>]
     = \<lparr>tickersByMarket = [],
        orderbookByMarket = [(''MKT-A'', \<lparr>yes = [], no = [(55, 7)]\<rparr>),
                             (''MKT-B'', \<lparr>yes = [], no = [(30, 5)]\<rparr>)]\<rparr>"
    by (simp add: createConnectionState_def applyOrderbookSnapshot_def applyOrderbookDelta_def
        deltaSide_def orElse_def orZero_def Let_def)
  with book_levels_positive show ?thesis by blast
qed

section \<open>Trade side inference\<close>

lemma toLowerCase_yes_no:
  "toLowerCase ''yes'' = ''yes''" "toLowerCase ''no'' \<noteq> ''yes''"
  by (simp_all add: toLowerCase_def lowerChar_def orElse_def)

lemma last_dropWhile_snoc:
  "\<not> P x \<Longrightarrow> last (dropWhile P (xs @ [x])) = x \<and> dropWhile P (xs @ [x]) \<noteq> []"
  by (induction xs) auto

lemma last_sliceLast: "xs \<noteq> [] \<Longrightarrow> 0 < k \<Longrightarrow> last (sliceLast k xs) = last xs"
  by (simp add: sliceLast_def)

text \<open>The trade just appended carries the current time, so pruning keeps it at the end.\<close>

lemma last_trades_pruneBuffer:
  assumes "trade_ts t = now"
  shows "last (trades (pruneBuffer (b\<lparr>trades := old @ [t]\<rparr>) now)) = t"
proof -
  have keep: "\<not> trade_ts t < now - RING_BUFFER_WINDOW_MS"
    using assms by (simp add: RING_BUFFER_WINDOW_MS_def)
  note d = last_dropWhile_snoc [of "\<lambda>t. trade_ts t < now - RING_BUFFER_WINDOW_MS" t old, OF keep]
  show ?thesis
    using d by (simp add: pruneBuffer_def Let_def last_sliceLast RING_BUFFER_MAX_SIZE_def)
qed

lemma getOrCreateBuffer_putBuffer:
  "getOrCreateBuffer ((putBuffer k b eng)\<lparr>dirtyMarkets := d\<rparr>) k = b"
  by (simp add: getOrCreateBuffer_def putBuffer_def update_conv')

lemma recordedSide_eq:
  "recordedSide msg currentBid currentAsk now eng =
     tradeSide (taker_side msg) currentBid currentAsk (orElse (yes_price msg) 0)"
  unfolding recordedSide_def onTradeUpdate_def Let_def
  by (simp add: getOrCreateBuffer_putBuffer last_trades_pruneBuffer)

text \<open>
  Claim C9, as the code has it. The side recorded for a trade is: with a present, non-empty
  taker side, buy when it lower-cases to \<^verbatim>\<open>"yes"\<close> and sell for every other string (so
  \<^verbatim>\<open>"yes"\<close> gives buy and \<^verbatim>\<open>"no"\<close> gives sell); with the taker side absent or empty, when
  both hints are present and the trade's price (0 when the message has none) is positive,
  buy if the price is at or above the mid of the hints and sell if below; unknown in every
  other case.
\<close>

theorem trade_side_recorded:
  "recordedSide msg currentBid currentAsk now eng =
     (let price = orElse (yes_price msg) 0 in
      if taker_side msg \<noteq> None \<and> taker_side msg \<noteq> Some []
      then (if toLowerCase (the (taker_side msg)) = ''yes'' then Buy else Sell)
      else if currentBid \<noteq> None \<and> currentAsk \<noteq> None \<and> price > 0
      then (if price \<ge> (the currentBid + the currentAsk) / 2 then Buy else Sell)
      else UnknownSide)
   \<and> (taker_side msg = Some ''yes'' \<longrightarrow> recordedSide msg currentBid currentAsk now eng = Buy)
   \<and> (taker_side msg = Some ''no'' \<longrightarrow> recordedSide msg currentBid currentAsk now eng = Sell)"
proof -
  have eq: "recordedSide msg currentBid currentAsk now eng =
     (let price = orElse (yes_price msg) 0 in
      if taker_side msg \<noteq> None \<and> taker_side msg \<noteq> Some []
      then (if toLowerCase (the (taker_side msg)) = ''yes'' then Buy else Sell)
      else if currentBid \<noteq> None \<and> currentAsk \<noteq> None \<and> price > 0
      then (if price \<ge> (the currentBid + the currentAsk) / 2 then Buy else Sell)
      else UnknownSide)"
    by (cases "taker_side msg"; cases currentBid; cases currentAsk)
       (simp_all add: recordedSide_eq tradeSide_def Let_def orElse_def)
  have y: "taker_side msg = Some ''yes'' \<longrightarrow> recordedSide msg currentBid currentAsk now eng = Buy"
    by (simp add: recordedSide_eq tradeSide_def toLowerCase_yes_no orElse_def)
  have n: "taker_side msg = Some ''no'' \<longrightarrow> recordedSide msg currentBid currentAsk now eng = Sell"
    by (simp add: recordedSide_eq tradeSide_def toLowerCase_yes_no orElse_def)
  from eq y n show ?thesis by blast
qed

theorem trade_side_recorded_witness:
  "recordedSide \<lparr>tr_market_ticker = ''MKT-A'', tr_count = Some 3, yes_price = Some 10,
       taker_side = Some ''yes''\<rparr> (Some 40) (Some 60) 1000 newStatsEngine = Buy
   \<and> recordedSide \<lparr>tr_market_ticker = ''MKT-A'', tr_count = Some 3, yes_price = Some 70,
       taker_side = Some ''no''\<rparr> (Some 40) (Some 60) 1000 newStatsEngine = Sell
   \<and> recordedSide \<lparr>tr_market_ticker = ''MKT-A'', tr_count = None, yes_price = Some 50,
       taker_side = None\<rparr> (Some 40) (Some 60) 1000 newStatsEngine = Buy
   \<and> recordedSide \<lparr>tr_market_ticker = ''MKT-A'', tr_count = None, yes_price = Some 49,
       taker_side = None\<rparr> (Some 40) (Some 60) 1000 newStatsEngine = Sell
   \<and> recordedSide \<lparr>tr_market_ticker = ''MKT-A'', tr_count = None, yes_price = Some 49,
       taker_side = None\<rparr> None (Some 60) 1000 newStatsEngine = UnknownSide"
proof -
  note t = trade_side_recorded [where now = 1000 and eng = newStatsEngine]
  have a: "recordedSide \<lparr>tr_market_ticker = ''MKT-A'', tr_count = Some 3, yes_price = Some 10,
       taker_side = Some ''yes''\<rparr> (Some 40) (Some 60) 1000 newStatsEngine = Buy"
    using t [of "\<lparr>tr_market_ticker = ''MKT-A'', tr_count = Some 3, yes_price = Some 10,
       taker_side = Some ''yes''\<rparr>" "Some 40" "Some 60"] by (simp add: toLowerCase_yes_no)
  have b: "recordedSide \<lparr>tr_market_ticker = ''MKT-A'', tr_count = Some 3, yes_price = Some 70,
       taker_side = Some ''no''\<rparr> (Some 40) (Some 60) 1000 newStatsEngine = Sell"
    using t [of "\<lparr>tr_market_ticker = ''MKT-A'', tr_count = Some 3, yes_price = Some 70,
       taker_side = Some ''no''\<rparr>" "Some 40" "Some 60"] by (simp add: toLowerCase_yes_no)
  have c: "recordedSide \<lparr>tr_market_ticker = ''MKT-A'', tr_count = None, yes_price = Some 50,
       taker_side = None\<rparr> (Some 40) (Some 60) 1000 newStatsEngine = Buy"
    using t [of "\<lparr>tr_market_ticker = ''MKT-A'', tr_count = None, yes_price = Some 50,
       taker_side = None\<rparr>" "Some 40" "Some 60"] by (simp add: orElse_def)
  have d: "recordedSide \<lparr>tr_market_ticker = ''MKT-A'', tr_count = None, yes_price = Some 49,
       taker_side = None\<rparr> (Some 40) (Some 60) 1000 newStatsEngine = Sell"
    using t [of "\<lparr>tr_market_ticker = ''MKT-A'', tr_count = None, yes_price = Some 49,
       taker_side = None\<rparr>" "Some 40" "Some 60"] by (simp add: orElse_def)
  have e: "recordedSide \<lparr>tr_market_ticker = ''MKT-A'', tr_count = None, yes_price = Some 49,
       taker_side = None\<rparr> None (Some 60) 1000 newStatsEngine = UnknownSide"
    using t [of "\<lparr>tr_market_ticker = ''MKT-A'', tr_count = None, yes_price = Some 49,
       taker_side = None\<rparr>" None "Some 60"] by (simp add: orElse_def)
  from a b c d e show ?thesis by blast
qed

text \<open>
  The claim as worded fails: a trade message without a price and without a taker side,
  arriving while both hints are known, is recorded as unknown, where the wording (a mid can
  be formed, and the price 0 lies below it) asks for sell.
\<close>

theorem trade_side_counterexample:
  "recordedSide \<lparr>tr_market_ticker = ''MKT-A'', tr_count = Some 3, yes_price = None,
       taker_side = None\<rparr> (Some 40) (Some 60) 1000 newStatsEngine = UnknownSide
   \<and> specTradeSide None (Some 40) (Some 60) (orElse None 0) = Sell"
  by (simp add: recordedSide_eq tradeSide_def specTradeSide_def orElse_def)

section \<open>Dirty-set tracking and the statistics passes\<close>

lemma setAdd_mem: "x \<in> set (setAdd x xs)"
  by (simp add: setAdd_def)

lemma computeMarketStats_Some: "computeMarketStats t state eng now \<noteq> None"
  by (simp add: computeMarketStats_def Let_def)

lemma keys_update: "fst ` set (AList.update k v al) = insert k (fst ` set al)"
  by (induction al) auto

lemma keys_assignAt:
  "fst ` set (ownStats (assignAt k v obj)) =
     (if k = ''__proto__'' then fst ` set (ownStats obj) else insert k (fst ` set (ownStats obj)))"
  by (simp add: assignAt_def keys_update)

lemma proto_assignAt:
  "k \<noteq> ''__proto__'' \<Longrightarrow> protoStats (assignAt k v obj) = protoStats obj"
  by (simp add: assignAt_def)

lemma computeEach_keys_all:
  "fst ` set (ownStats (fst (computeEach False ft tks state now (result, eng)))) =
     fst ` set (ownStats result) \<union> (set tks - {''__proto__''})"
proof (induction tks arbitrary: result eng)
  case Nil
  show ?case by simp
next
  case (Cons t tks)
  obtain stats where s: "computeMarketStats t state eng now = Some stats"
    using computeMarketStats_Some [of t state eng now] by auto
  show ?case using s Cons.IH by (auto simp: keys_assignAt)
qed

lemma computeEach_proto_all:
  "''__proto__'' \<notin> set tks \<Longrightarrow>
   protoStats (fst (computeEach om ft tks state now (result, eng))) = protoStats result"
proof (induction tks arbitrary: result eng)
  case Nil
  show ?case by simp
next
  case (Cons t tks)
  obtain stats where s: "computeMarketStats t state eng now = Some stats"
    using computeMarketStats_Some [of t state eng now] by auto
  show ?case using s Cons by (auto simp: proto_assignAt)
qed

lemma in_prototype_names: "''__proto__'' \<in> set objectPrototypeNames"
  by (simp add: objectPrototypeNames_def)

lemma computeEach_keys_missing:
  "protoStats result = None \<Longrightarrow>
   fst ` set (ownStats (fst (computeEach True ft tks state now (result, eng)))) =
     fst ` set (ownStats result) \<union> (set tks - set objectPrototypeNames)"
proof (induction tks arbitrary: result eng)
  case Nil
  show ?case by simp
next
  case (Cons t tks)
  obtain stats where s: "computeMarketStats t state eng now = Some stats"
    using computeMarketStats_Some [of t state eng now] by auto
  show ?case
  proof (cases "truthyAt ft result t")
    case True
    with Cons.prems have "t \<in> fst ` set (ownStats result) \<or> t \<in> set objectPrototypeNames"
      by (auto simp: truthyAt_def map_of_eq_None_iff)
    with True Cons.IH [OF Cons.prems, of eng] show ?thesis by auto
  next
    case False
    then have n: "t \<notin> set objectPrototypeNames" by (simp add: truthyAt_def)
    with in_prototype_names have np: "t \<noteq> ''__proto__''" by auto
    then have "protoStats (assignAt t stats result) = None"
      using Cons.prems by (simp add: proto_assignAt)
    from Cons.IH [OF this] False s n np show ?thesis
      by (auto simp: keys_assignAt)
  qed
qed

lemma computeEach_last:
  "t \<notin> set tks \<Longrightarrow>
   map_of (lastComputedStats (snd (computeEach om ft tks state now (result, eng)))) t =
   map_of (lastComputedStats eng) t"
proof (induction tks arbitrary: result eng)
  case Nil
  show ?case by simp
next
  case (Cons a tks)
  then show ?case
    by (auto simp: update_conv' split: option.splits)
qed

lemma computeStats_keys:
  "fst ` set (ownStats (fst (computeStats ft state now eng))) =
     set (dirtyMarkets eng) - {''__proto__''}"
  using computeEach_keys_all [of ft "dirtyMarkets eng" state now emptyObject eng]
  by (simp add: computeStats_def Let_def split_def emptyObject_def)

lemma computeStats_dirty: "dirtyMarkets (snd (computeStats ft state now eng)) = []"
  by (simp add: computeStats_def Let_def split_def)

lemma computeStats_last:
  "t \<notin> set (dirtyMarkets eng) \<Longrightarrow>
   map_of (lastComputedStats (snd (computeStats ft state now eng))) t =
   map_of (lastComputedStats eng) t"
  using computeEach_last [of t "dirtyMarkets eng" False ft state now emptyObject eng]
  by (simp add: computeStats_def Let_def split_def)

lemma computeAllStats_keys:
  assumes "''__proto__'' \<notin> fst ` set (tickersByMarket state)"
  shows "fst ` set (ownStats (fst (computeAllStats ft state now eng))) =
     fst ` set (tickersByMarket state)
       \<union> (fst ` set (orderbookByMarket state) - set objectPrototypeNames)"
proof -
  obtain r1 e1 where a1:
    "computeEach False ft (map fst (tickersByMarket state)) state now (emptyObject, eng) = (r1, e1)"
    by (cases "computeEach False ft (map fst (tickersByMarket state)) state now (emptyObject, eng)")
  have k1: "fst ` set (ownStats r1) = fst ` set (tickersByMarket state)"
    using computeEach_keys_all [of ft "map fst (tickersByMarket state)" state now emptyObject eng]
      a1 assms
    by (auto simp: emptyObject_def)
  have p1: "protoStats r1 = None"
    using computeEach_proto_all [of "map fst (tickersByMarket state)" False ft state now
        emptyObject eng] a1 assms
    by (simp add: emptyObject_def)
  show ?thesis
    using computeEach_keys_missing [OF p1, of ft "map fst (orderbookByMarket state)" state now e1]
      a1 k1
    by (simp add: computeAllStats_def Let_def split_def)
qed

lemma computeEach_keys_grow:
  "fst ` set (ownStats result)
     \<subseteq> fst ` set (ownStats (fst (computeEach om ft tks state now (result, eng))))"
proof (induction tks arbitrary: result eng)
  case Nil
  show ?case by simp
next
  case (Cons t tks)
  obtain stats where s: "computeMarketStats t state eng now = Some stats"
    using computeMarketStats_Some [of t state eng now] by auto
  show ?case
  proof (cases "om \<and> truthyAt ft result t")
    case True
    then have "computeEach om ft (t # tks) state now (result, eng) =
        computeEach om ft tks state now (result, eng)" by simp
    with Cons.IH [of result eng] show ?thesis by simp
  next
    case False
    let ?r = "assignAt t stats result"
    let ?e = "eng\<lparr>lastComputedStats := AList.update t stats (lastComputedStats eng)\<rparr>"
    from False s have "computeEach om ft (t # tks) state now (result, eng) =
        computeEach om ft tks state now (?r, ?e)" by (cases om) simp_all
    moreover have "fst ` set (ownStats result) \<subseteq> fst ` set (ownStats ?r)"
      by (auto simp: keys_assignAt)
    ultimately show ?thesis using Cons.IH [of ?r ?e] by (simp only:)
  qed
qed

lemma computeAllStats_tickers:
  "fst ` set (tickersByMarket state) - {''__proto__''}
     \<subseteq> fst ` set (ownStats (fst (computeAllStats ft state now eng)))"
proof -
  obtain r1 e1 where a1:
    "computeEach False ft (map fst (tickersByMarket state)) state now (emptyObject, eng) = (r1, e1)"
    by (cases "computeEach False ft (map fst (tickersByMarket state)) state now (emptyObject, eng)")
  have k1: "fst ` set (ownStats r1) = fst ` set (tickersByMarket state) - {''__proto__''}"
    using computeEach_keys_all [of ft "map fst (tickersByMarket state)" state now emptyObject eng]
      a1
    by (simp add: emptyObject_def)
  have "fst (computeAllStats ft state now eng) =
      fst (computeEach True ft (map fst (orderbookByMarket state)) state now (r1, e1))"
    using a1 by (simp add: computeAllStats_def Let_def split_def)
  with computeEach_keys_grow [of r1 True ft "map fst (orderbookByMarket state)" state now e1] k1
  show ?thesis by (simp only:)
qed

lemma computeAllStats_dirty: "dirtyMarkets (snd (computeAllStats ft state now eng)) = []"
  by (simp add: computeAllStats_def Let_def split_def)

text \<open>
  Claim C8, as the code has it. Every message handler of the statistics engine (ticker,
  order-book snapshot or delta, trade) marks its market dirty. \<^verbatim>\<open>computeStats\<close> recomputes
  exactly the markets of the dirty set (the key \<^verbatim>\<open>__proto__\<close> is computed but is no key
  of the result) and leaves the last computed statistics of every other market untouched;
  \<^verbatim>\<open>computeAllStats\<close> returns every market that has a ticker and, when no ticker market is
  called \<^verbatim>\<open>__proto__\<close>, exactly the markets with a ticker and the markets with a book whose
  name is no member of \<^verbatim>\<open>Object.prototype\<close>; after either, the dirty set is empty. The
  500 ms statistics timer runs \<^verbatim>\<open>computeAllStats\<close>, the full pass, whatever the dirty set
  holds.
\<close>

theorem dirty_set_tracking:
  "tk_market_ticker tmsg \<in> set (dirtyMarkets (onMessage (Ticker tmsg) cur now eng))
   \<and> os_market_ticker smsg \<in> set (dirtyMarkets (onMessage (OrderbookSnapshot smsg) cur now eng))
   \<and> od_market_ticker dmsg \<in> set (dirtyMarkets (onMessage (OrderbookDelta dmsg) cur now eng))
   \<and> tr_market_ticker trmsg \<in> set (dirtyMarkets (onMessage (Trade trmsg) cur now eng))
   \<and> fst ` set (ownStats (fst (computeStats ft state now eng))) =
        set (dirtyMarkets eng) - {''__proto__''}
   \<and> (t \<notin> set (dirtyMarkets eng) \<longrightarrow>
        map_of (lastComputedStats (snd (computeStats ft state now eng))) t =
        map_of (lastComputedStats eng) t)
   \<and> dirtyMarkets (snd (computeStats ft state now eng)) = []
   \<and> fst ` set (tickersByMarket state) - {''__proto__''}
        \<subseteq> fst ` set (ownStats (fst (computeAllStats ft state now eng)))
   \<and> (''__proto__'' \<notin> fst ` set (tickersByMarket state) \<longrightarrow>
        fst ` set (ownStats (fst (computeAllStats ft state now eng))) =
          fst ` set (tickersByMarket state)
            \<union> (fst ` set (orderbookByMarket state) - set objectPrototypeNames))
   \<and> dirtyMarkets (snd (computeAllStats ft state now eng)) = []
   \<and> snd (statsBatchTimer ft (Some state) now eng) = snd (computeAllStats ft state now eng)
   \<and> fst (statsBatchTimer ft (Some state) now eng) =
        (if ownStats (fst (computeAllStats ft state now eng)) \<noteq> []
         then Some (ownStats (fst (computeAllStats ft state now eng))) else None)"
proof -
  have marks:
    "tk_market_ticker tmsg \<in> set (dirtyMarkets (onMessage (Ticker tmsg) cur now eng))"
    "os_market_ticker smsg \<in> set (dirtyMarkets (onMessage (OrderbookSnapshot smsg) cur now eng))"
    "od_market_ticker dmsg \<in> set (dirtyMarkets (onMessage (OrderbookDelta dmsg) cur now eng))"
    "tr_market_ticker trmsg \<in> set (dirtyMarkets (onMessage (Trade trmsg) cur now eng))"
    by (simp_all add: onTickerUpdate_def onOrderbookUpdate_def onTradeUpdate_def Let_def setAdd_mem)
  have timer:
    "snd (statsBatchTimer ft (Some state) now eng) = snd (computeAllStats ft state now eng)"
    "fst (statsBatchTimer ft (Some state) now eng) =
        (if ownStats (fst (computeAllStats ft state now eng)) \<noteq> []
         then Some (ownStats (fst (computeAllStats ft state now eng))) else None)"
    by (simp_all add: statsBatchTimer_def split_def Let_def)
  have allk: "''__proto__'' \<notin> fst ` set (tickersByMarket state) \<longrightarrow>
        fst ` set (ownStats (fst (computeAllStats ft state now eng))) =
          fst ` set (tickersByMarket state)
            \<union> (fst ` set (orderbookByMarket state) - set objectPrototypeNames)"
    using computeAllStats_keys [of state ft now eng] by blast
  from marks timer allk computeAllStats_tickers [of state ft now eng]
    computeStats_keys [of ft state now eng] computeStats_dirty [of ft state now eng]
    computeAllStats_dirty [of ft state now eng] computeStats_last [of t eng ft state now]
  show ?thesis by blast
qed

text \<open>
  An instance: after a ticker for one market, \<^verbatim>\<open>computeStats\<close> recomputes that market only,
  although the connection state knows a second market through its book; the full pass
  returns both.
\<close>

theorem dirty_set_tracking_witness:
  "''MKT-B'' \<notin> set (dirtyMarkets (onMessage (Ticker exampleTicker) None 100 newStatsEngine))
   \<and> map fst (ownStats (fst (computeStats (\<lambda>s k. False)
        (applyMessage (applyMessage createConnectionState (Ticker exampleTicker))
           (OrderbookDelta \<lparr>od_market_ticker = ''MKT-B'', od_price = 30, od_delta = 5,
              od_side = SideYes\<rparr>))
        500 (onMessage (Ticker exampleTicker) None 100 newStatsEngine)))) = [''MKT-A'']
   \<and> map_of (lastComputedStats (snd (computeStats (\<lambda>s k. False)
        (applyMessage (applyMessage createConnectionState (Ticker exampleTicker))
           (OrderbookDelta \<lparr>od_market_ticker = ''MKT-B'', od_price = 30, od_delta = 5,
              od_side = SideYes\<rparr>))
        500 (onMessage (Ticker exampleTicker) None 100 newStatsEngine)))) ''MKT-B'' = None
   \<and> fst ` set (ownStats (fst (computeAllStats (\<lambda>s k. False)
        (applyMessage (applyMessage createConnectionState (Ticker exampleTicker))
           (OrderbookDelta \<lparr>od_market_ticker = ''MKT-B'', od_price = 30, od_delta = 5,
              od_side = SideYes\<rparr>))
        500 (onMessage (Ticker exampleTicker) None 100 newStatsEngine)))) = {''MKT-A'', ''MKT-B''}"
proof -
  let ?eng = "onMessage (Ticker exampleTicker) None 100 newStatsEngine"
  let ?st = "applyMessage (applyMessage createConnectionState (Ticker exampleTicker))
           (OrderbookDelta \<lparr>od_market_ticker = ''MKT-B'', od_price = 30, od_delta = 5,
              od_side = SideYes\<rparr>)"
  let ?ft = "\<lambda>(s :: MarketStats) (k :: string). False"
  have e: "?eng = onTickerUpdate exampleTicker 100 newStatsEngine"
    by simp
  have d: "dirtyMarkets (onTickerUpdate exampleTicker 100 newStatsEngine) = [''MKT-A'']"
    by (simp add: exampleTicker_def newStatsEngine_def onTickerUpdate_def Let_def setAdd_def
        putBuffer_def)
  have l: "lastComputedStats (onTickerUpdate exampleTicker 100 newStatsEngine) = []"
    by (simp add: exampleTicker_def newStatsEngine_def onTickerUpdate_def Let_def setAdd_def
        putBuffer_def)
  have k: "map fst (ownStats (fst (computeStats ?ft ?st 500 ?eng))) = [''MKT-A'']"
    by (simp add: d computeStats_def computeMarketStats_def Let_def assignAt_def emptyObject_def)
  have tk: "fst ` set (tickersByMarket ?st) = {''MKT-A''}"
    by (simp add: exampleTicker_def createConnectionState_def applyTickerUpdate_def
        applyOrderbookDelta_def Let_def)
  have bk: "fst ` set (orderbookByMarket ?st) = {''MKT-B''}"
    by (simp add: exampleTicker_def createConnectionState_def applyTickerUpdate_def
        applyOrderbookDelta_def deltaSide_def Let_def)
  have nb: "''MKT-B'' \<notin> set objectPrototypeNames"
    by (simp add: objectPrototypeNames_def)
  note th = dirty_set_tracking [where state = ?st and now = 500 and eng = ?eng
      and t = "''MKT-B''" and ft = ?ft]
  have "''MKT-B'' \<notin> set (dirtyMarkets ?eng)" by (simp add: d)
  with th
  have "map_of (lastComputedStats (snd (computeStats ?ft ?st 500 ?eng))) ''MKT-B'' =
        map_of (lastComputedStats ?eng) ''MKT-B''"
    by blast
  then have lb: "map_of (lastComputedStats (snd (computeStats ?ft ?st 500 ?eng))) ''MKT-B'' = None"
    by (simp add: l)
  have "''__proto__'' \<notin> fst ` set (tickersByMarket ?st)" by (simp only: tk) simp
  with th have "fst ` set (ownStats (fst (computeAllStats ?ft ?st 500 ?eng))) =
      fst ` set (tickersByMarket ?st) \<union> (fst ` set (orderbookByMarket ?st) - set objectPrototypeNames)"
    by blast
  then have al: "fst ` set (ownStats (fst (computeAllStats ?ft ?st 500 ?eng))) = {''MKT-A'', ''MKT-B''}"
    using nb by (simp only: tk bk) auto
  from d k lb al show ?thesis by simp
qed

text \<open>
  The timer does not read the dirty set: a market whose ticker arrived before the previous
  tick is not dirty any more, and the next tick recomputes and sends it all the same.
\<close>

theorem stats_tick_counterexample:
  "(let st = applyMessage createConnectionState (Ticker exampleTicker);
        e1 = onMessage (Ticker exampleTicker) None 100 newStatsEngine;
        e2 = snd (statsBatchTimer (\<lambda>s k. False) (Some st) 500 e1)
    in (dirtyMarkets e2,
        map_option (map fst) (fst (statsBatchTimer (\<lambda>s k. False) (Some st) 1000 e2))))
   = ([], Some [''MKT-A''])"
  by (simp add: exampleTicker_def createConnectionState_def applyTickerUpdate_def
      newStatsEngine_def onTickerUpdate_def statsBatchTimer_def computeAllStats_def
      computeMarketStats_def Let_def getOrCreateBuffer_def putBuffer_def pruneBuffer_def
      setAdd_def orElse_def assignAt_def emptyObject_def)

text \<open>
  The second loop of the full pass skips a market that has only a book when its name is a
  member of \<^verbatim>\<open>Object.prototype\<close>: the guard \<^verbatim>\<open>!result[marketTicker]\<close> finds the inherited
  member.
\<close>

lemma prototype_named_market_skipped:
  "ownStats (fst (computeAllStats (\<lambda>s k. False)
      (applyMessage createConnectionState
         (OrderbookDelta \<lparr>od_market_ticker = ''constructor'', od_price = 30, od_delta = 5,
            od_side = SideYes\<rparr>))
      500 newStatsEngine)) = []"
  by (simp add: createConnectionState_def applyOrderbookDelta_def deltaSide_def
      newStatsEngine_def computeAllStats_def Let_def emptyObject_def truthyAt_def
      objectPrototypeNames_def)

section \<open>Signal lifecycle: persistence, cooldown, eviction\<close>

lemma handle_fst:
  "fst (handleSignalPersistence sg viols now eng) =
     viols @ (if emitted sg now eng then [sg] else [])"
  by (auto simp: emitted_def handleSignalPersistence_def Let_def split: option.splits)

lemma emitted_iff:
  "emitted sg now eng \<longleftrightarrow>
     (\<exists>p. map_of (pendingSignals eng) (persistKey sg) = Some p
          \<and> now - firstSeenTs p \<ge> PERSIST_MS \<and> cooledDown (emittedTs p) now)"
  by (auto simp: emitted_def handleSignalPersistence_def Let_def split: option.splits)

lemma cooledDown_iff:
  "cooledDown e now \<longleftrightarrow> (\<forall>t. e = Some t \<and> t \<noteq> 0 \<longrightarrow> now - t \<ge> 30000)"
  by (auto simp: cooledDown_def COOLDOWN_MS_def split: option.splits)

lemma handle_emitted:
  assumes "emitted sg now eng"
  shows "map_of (activeSignals (snd (handleSignalPersistence sg viols now eng))) (sig_id sg) = Some sg"
    and "map_option emittedTs
           (map_of (pendingSignals (snd (handleSignalPersistence sg viols now eng))) (persistKey sg))
         = Some (Some now)"
    and "map_option firstSeenTs
           (map_of (pendingSignals (snd (handleSignalPersistence sg viols now eng))) (persistKey sg))
         = map_option firstSeenTs (map_of (pendingSignals eng) (persistKey sg))"
  using assms
  by (auto simp: emitted_iff handleSignalPersistence_def Let_def update_conv' split: option.splits)

lemma handle_not_emitted:
  assumes "\<not> emitted sg now eng"
  shows "activeSignals (snd (handleSignalPersistence sg viols now eng)) = activeSignals eng"
    and "map_of (pendingSignals (snd (handleSignalPersistence sg viols now eng))) (persistKey sg)
         = (case map_of (pendingSignals eng) (persistKey sg) of
              None \<Rightarrow> Some \<lparr>signal = sg, firstSeenTs = now, lastSeenTs = now, emittedTs = None\<rparr>
            | Some p \<Rightarrow> Some (p\<lparr>lastSeenTs := now, signal := sg\<rparr>))"
  using assms
  by (auto simp: emitted_iff handleSignalPersistence_def Let_def update_conv' split: option.splits)

lemma handle_other_key:
  "k \<noteq> persistKey sg \<Longrightarrow>
   map_of (pendingSignals (snd (handleSignalPersistence sg viols now eng))) k =
   map_of (pendingSignals eng) k"
  by (auto simp: handleSignalPersistence_def Let_def update_conv' split: option.splits)

lemma handle_distinct:
  "distinct (map fst (pendingSignals eng)) \<Longrightarrow>
   distinct (map fst (pendingSignals (snd (handleSignalPersistence sg viols now eng))))"
  by (auto simp: handleSignalPersistence_def Let_def distinct_update split: option.splits)

lemma clear_distinct:
  "distinct (map fst (pendingSignals eng)) \<Longrightarrow>
   distinct (map fst (pendingSignals (clearOldSignals m now eng)))"
  by (simp add: clearOldSignals_def cleanPendingSignals_def distinct_map_filter)

text \<open>The pending map of every engine reached from the empty one has one entry per key.\<close>

lemma foldl_lifecycle_distinct:
  "distinct (map fst (pendingSignals eng)) \<Longrightarrow>
   distinct (map fst (pendingSignals (foldl lifecycleStep eng evs)))"
proof (induction evs arbitrary: eng)
  case Nil
  then show ?case by simp
next
  case (Cons ev evs)
  have "distinct (map fst (pendingSignals (lifecycleStep eng ev)))"
    using Cons.prems by (cases ev) (simp_all add: handle_distinct clear_distinct)
  then show ?case using Cons.IH by simp
qed

lemma runLifecycle_distinct: "distinct (map fst (pendingSignals (runLifecycle evs)))"
  unfolding runLifecycle_def
  by (rule foldl_lifecycle_distinct) (simp add: newSignalsEngine_def)

lemma map_of_filter_distinct:
  "distinct (map fst al) \<Longrightarrow>
   map_of (filter P al) k =
     (case map_of al k of None \<Rightarrow> None | Some v \<Rightarrow> if P (k, v) then Some v else None)"
proof (induction al)
  case Nil
  show ?case by simp
next
  case (Cons a al)
  then show ?case
    by (cases a) (auto split: option.splits simp: map_of_eq_None_iff image_iff dest!: map_of_SomeD)
qed

lemma clear_pending:
  "distinct (map fst (pendingSignals eng)) \<Longrightarrow>
   map_of (pendingSignals (clearOldSignals m now eng)) k =
     (case map_of (pendingSignals eng) k of None \<Rightarrow> None
      | Some p \<Rightarrow> if now - lastSeenTs p > 2000 then None else Some p)"
  by (simp add: clearOldSignals_def cleanPendingSignals_def map_of_filter_distinct
      split: option.splits)

lemma clear_active:
  "set (activeSignals (clearOldSignals m now eng)) =
     {(i, sg). (i, sg) \<in> set (activeSignals eng) \<and> now - sig_ts sg \<le> m}"
  by (auto simp: clearOldSignals_def cleanPendingSignals_def)

text \<open>
  Claim C2, as the code has it. Let \<open>eng\<close> be the engine after any sequence of candidate
  arrivals and cleanups, and let a candidate \<open>sg\<close> arrive at time \<open>now\<close>.

  \<^item> The candidate is emitted exactly when its key has a pending entry \<open>p\<close> with
    \<open>now - first_seen_ts \<ge> 3000\<close> and, if \<open>p\<close> records a (non-zero) emission time \<open>e\<close>,
    \<open>now - e \<ge> 30000\<close>. In particular it is never emitted on its first sighting, nor before
    3000 ms after \<open>first_seen_ts\<close>, nor within 30000 ms of the emission its entry records.
  \<^item> When emitted, it enters the active map under its id and its pending entry records
    \<open>emitted_ts = now\<close>, keeping \<open>first_seen_ts\<close>.
  \<^item> When not emitted, the active map is unchanged, and the pending entry of its key is
    created (first and last seen \<open>now\<close>, no emission time) or updated (last seen and
    candidate only). Entries of other keys are never touched.
  \<^item> A cleanup at time \<open>t\<close> drops exactly the pending entries with
    \<open>t - last_seen_ts > 2000\<close>, emission time included, and keeps the others unchanged.
  \<^item> A cleanup at time \<open>t\<close> removes exactly the active signals with \<open>t - ts > 60000\<close>.
\<close>

theorem signal_lifecycle:
  assumes "eng = runLifecycle evs"
    and "eng' = snd (handleSignalPersistence sg viols now eng)"
  shows "(emitted sg now eng \<longleftrightarrow>
            (\<exists>p. map_of (pendingSignals eng) (persistKey sg) = Some p
                 \<and> now - firstSeenTs p \<ge> 3000
                 \<and> (\<forall>e. emittedTs p = Some e \<and> e \<noteq> 0 \<longrightarrow> now - e \<ge> 30000)))
     \<and> fst (handleSignalPersistence sg viols now eng) =
         viols @ (if emitted sg now eng then [sg] else [])
     \<and> (emitted sg now eng \<longrightarrow>
          map_of (activeSignals eng') (sig_id sg) = Some sg
          \<and> map_option emittedTs (map_of (pendingSignals eng') (persistKey sg)) = Some (Some now)
          \<and> map_option firstSeenTs (map_of (pendingSignals eng') (persistKey sg)) =
              map_option firstSeenTs (map_of (pendingSignals eng) (persistKey sg)))
     \<and> (\<not> emitted sg now eng \<longrightarrow>
          activeSignals eng' = activeSignals eng
          \<and> map_of (pendingSignals eng') (persistKey sg) =
              (case map_of (pendingSignals eng) (persistKey sg) of
                 None \<Rightarrow> Some \<lparr>signal = sg, firstSeenTs = now, lastSeenTs = now, emittedTs = None\<rparr>
               | Some p \<Rightarrow> Some (p\<lparr>lastSeenTs := now, signal := sg\<rparr>)))
     \<and> (k \<noteq> persistKey sg \<longrightarrow> map_of (pendingSignals eng') k = map_of (pendingSignals eng) k)
     \<and> map_of (pendingSignals (lifecycleStep eng (Cleanup t))) k =
         (case map_of (pendingSignals eng) k of None \<Rightarrow> None
          | Some p \<Rightarrow> if t - lastSeenTs p > 2000 then None else Some p)
     \<and> set (activeSignals (lifecycleStep eng (Cleanup t))) =
         {(i, sg). (i, sg) \<in> set (activeSignals eng) \<and> t - sig_ts sg \<le> 60000}"
proof -
  have d: "distinct (map fst (pendingSignals eng))"
    using assms(1) by (simp add: runLifecycle_distinct)
  have a: "emitted sg now eng \<longleftrightarrow>
            (\<exists>p. map_of (pendingSignals eng) (persistKey sg) = Some p
                 \<and> now - firstSeenTs p \<ge> 3000
                 \<and> (\<forall>e. emittedTs p = Some e \<and> e \<noteq> 0 \<longrightarrow> now - e \<ge> 30000))"
    by (simp add: emitted_iff cooledDown_iff PERSIST_MS_def)
  have b: "emitted sg now eng \<longrightarrow>
          map_of (activeSignals eng') (sig_id sg) = Some sg
          \<and> map_option emittedTs (map_of (pendingSignals eng') (persistKey sg)) = Some (Some now)
          \<and> map_option firstSeenTs (map_of (pendingSignals eng') (persistKey sg)) =
              map_option firstSeenTs (map_of (pendingSignals eng) (persistKey sg))"
    using handle_emitted [of sg now eng viols] assms(2) by simp
  have c: "\<not> emitted sg now eng \<longrightarrow>
          activeSignals eng' = activeSignals eng
          \<and> map_of (pendingSignals eng') (persistKey sg) =
              (case map_of (pendingSignals eng) (persistKey sg) of
                 None \<Rightarrow> Some \<lparr>signal = sg, firstSeenTs = now, lastSeenTs = now, emittedTs = None\<rparr>
               | Some p \<Rightarrow> Some (p\<lparr>lastSeenTs := now, signal := sg\<rparr>))"
    using handle_not_emitted [of sg now eng viols] assms(2) by simp
  have e: "k \<noteq> persistKey sg \<longrightarrow> map_of (pendingSignals eng') k = map_of (pendingSignals eng) k"
    using handle_other_key [of k sg viols now eng] assms(2) by simp
  have f: "map_of (pendingSignals (lifecycleStep eng (Cleanup t))) k =
         (case map_of (pendingSignals eng) k of None \<Rightarrow> None
          | Some p \<Rightarrow> if t - lastSeenTs p > 2000 then None else Some p)"
    using clear_pending [OF d] by simp
  have g: "set (activeSignals (lifecycleStep eng (Cleanup t))) =
         {(i, sg). (i, sg) \<in> set (activeSignals eng) \<and> t - sig_ts sg \<le> 60000}"
    by (simp add: clear_active)
  from a handle_fst [of sg viols now eng] b c e f g show ?thesis by blast
qed

text \<open>
  An instance: a violation first seen at 1000 and seen again at 4000 is emitted then; seen
  again at 5000 it is not (cooldown), and the cleanup at 66000 drops both its pending entry
  and the signal emitted at 4000.
\<close>

theorem signal_lifecycle_witness:
  "\<not> emitted (exampleCandidate 1 1000) 1000 (runLifecycle [])
   \<and> emitted (exampleCandidate 2 4000) 4000 (runLifecycle [Candidate (exampleCandidate 1 1000) 1000])
   \<and> map_of (activeSignals (runLifecycle [Candidate (exampleCandidate 1 1000) 1000,
        Candidate (exampleCandidate 2 4000) 4000])) (SignalNo 2) = Some (exampleCandidate 2 4000)
   \<and> \<not> emitted (exampleCandidate 3 5000) 5000
        (runLifecycle [Candidate (exampleCandidate 1 1000) 1000,
           Candidate (exampleCandidate 2 4000) 4000])
   \<and> activeSignals (runLifecycle [Candidate (exampleCandidate 1 1000) 1000,
        Candidate (exampleCandidate 2 4000) 4000, Cleanup 66000]) = []
   \<and> pendingSignals (runLifecycle [Candidate (exampleCandidate 1 1000) 1000,
        Candidate (exampleCandidate 2 4000) 4000, Cleanup 66000]) = []"
proof -
  let ?c1 = "exampleCandidate 1 1000"
  let ?c2 = "exampleCandidate 2 4000"
  let ?c3 = "exampleCandidate 3 5000"
  let ?key = "''MONO_VIOLATION:MKT-A:g|total|Over|total_over''"
  have key: "persistKey (exampleCandidate n t) = ?key" for n t
    by (simp add: persistKey_def exampleCandidate_def orElse_def)
  have p0: "pendingSignals (runLifecycle []) = []"
    by (simp add: runLifecycle_def newSignalsEngine_def)
  have e1: "runLifecycle [Candidate ?c1 1000] =
      \<lparr>marketMeta = [], activeSignals = [],
       pendingSignals = [(?key, \<lparr>signal = ?c1, firstSeenTs = 1000, lastSeenTs = 1000,
          emittedTs = None\<rparr>)], signalIdCounter = 0\<rparr>"
    by (simp add: runLifecycle_def newSignalsEngine_def handleSignalPersistence_def key)
  have e2: "runLifecycle [Candidate ?c1 1000, Candidate ?c2 4000] =
      \<lparr>marketMeta = [], activeSignals = [(SignalNo 2, ?c2)],
       pendingSignals = [(?key, \<lparr>signal = ?c2, firstSeenTs = 1000, lastSeenTs = 4000,
          emittedTs = Some 4000\<rparr>)], signalIdCounter = 0\<rparr>"
    using e1
    by (simp add: runLifecycle_def handleSignalPersistence_def key Let_def PERSIST_MS_def
        cooledDown_def) (simp add: exampleCandidate_def)
  have e3: "runLifecycle [Candidate ?c1 1000, Candidate ?c2 4000, Cleanup 66000] =
      \<lparr>marketMeta = [], activeSignals = [], pendingSignals = [], signalIdCounter = 0\<rparr>"
    using e2
    by (simp add: runLifecycle_def clearOldSignals_def cleanPendingSignals_def)
       (simp add: exampleCandidate_def)
  have a: "\<not> emitted ?c1 1000 (runLifecycle [])"
    using signal_lifecycle [OF refl refl, of ?c1 1000 "[]"] p0 by simp
  have b: "emitted ?c2 4000 (runLifecycle [Candidate ?c1 1000])"
    using signal_lifecycle [OF refl refl, of ?c2 4000 "[Candidate ?c1 1000]"] e1
    by (simp add: key)
  have c: "\<not> emitted ?c3 5000 (runLifecycle [Candidate ?c1 1000, Candidate ?c2 4000])"
    using signal_lifecycle [OF refl refl, of ?c3 5000 "[Candidate ?c1 1000, Candidate ?c2 4000]"] e2
    by (simp add: key)
  from a b c e2 e3 show ?thesis by simp
qed

text \<open>
  The claim as worded fails: a violation emitted at 4000 and not seen at the cleanup of
  6001 loses its pending entry and with it the recorded emission time; seen again from 6001
  on, it is emitted again at 9001, 5001 ms after its previous emission.
\<close>

theorem cooldown_counterexample:
  "(let e1 = runLifecycle [Candidate (exampleCandidate 1 1000) 1000];
        e4 = runLifecycle [Candidate (exampleCandidate 1 1000) 1000,
               Candidate (exampleCandidate 2 4000) 4000, Cleanup 6001,
               Candidate (exampleCandidate 3 6001) 6001]
    in emitted (exampleCandidate 2 4000) 4000 e1 \<and> emitted (exampleCandidate 4 9001) 9001 e4
       \<and> persistKey (exampleCandidate 2 4000) = persistKey (exampleCandidate 4 9001)
       \<and> 9001 - 4000 < COOLDOWN_MS)"
  by (simp add: runLifecycle_def exampleCandidate_def newSignalsEngine_def emitted_def
      handleSignalPersistence_def clearOldSignals_def cleanPendingSignals_def persistKey_def
      orElse_def cooledDown_def PERSIST_MS_def COOLDOWN_MS_def Let_def)

section \<open>Isotonic regression\<close>

subsection \<open>Propagation and clipping\<close>













subsection \<open>The pooling sweep\<close>





subsection \<open>The fit\<close>








subsection \<open>The sweep over exact arithmetic\<close>

text \<open>
  The source gives both pooled cells the pool's whole weight and, after a backward pass,
  moves forward by one cell only. Over the rationals this does not terminate once a
  backward pass has pooled: the cell behind the index stays strictly below the cell ahead,
  the two are pooled again with ever larger weights, and their gap shrinks without closing.
  The TypeScript runs on doubles, where the gap closes by rounding after a few dozen rounds;
  rounding is outside this model, which is why the first part of \<open>isotonic_law\<close> speaks of
  the runs that return.
\<close>

lemma avg_between:
  fixes a b u v :: number
  assumes "a < b" "0 < u" "0 < v"
  shows "a < (a * u + b * v) / (u + v)" "(a * u + b * v) / (u + v) < b"
proof -
  have "a * v < b * v" using assms by simp
  then have "a * (u + v) < a * u + b * v" by (simp add: algebra_simps)
  then show "a < (a * u + b * v) / (u + v)"
    using assms by (simp add: pos_less_divide_eq)
  have "a * u < b * u" using assms by simp
  then have "a * u + b * v < b * (u + v)" by (simp add: algebra_simps)
  then show "(a * u + b * v) / (u + v) < b"
    using assms by (simp add: pos_divide_less_eq)
qed

lemma stuck_step:
  assumes "stuck i rw"
  shows "i + 1 < length (fst rw) \<and> fst rw ! i < fst rw ! (i + 1)
         \<and> (\<exists>rw'. poolBackward i (poolAt i rw) = (0, rw') \<and> stuck 1 rw')"
proof -
  from assms obtain a b w0 w1 w2 where i: "i = 1" and rw: "rw = ([a, a, b], [w0, w1, w2])"
    and ab: "a < b" and w: "0 < w0" "0 < w1" "0 < w2"
    by (auto simp: stuck_def)
  define c where "c = (a * w1 + b * w2) / (w1 + w2)"
  define d where "d = (a * w0 + c * (w1 + w2)) / (w0 + (w1 + w2))"
  have c: "a < c" "c < b" using avg_between [OF ab w(2) w(3)] by (simp_all add: c_def)
  have w12: "0 < w1 + w2" using w by simp
  have d: "a < d" "d < c" using avg_between [OF c(1) w(1) w12] by (simp_all add: d_def)
  have p1: "poolAt (Suc 0) rw = ([a, c, c], [w0, w1 + w2, w1 + w2])"
    by (simp add: poolAt_def rw c_def Let_def)
  have p0: "poolAt 0 ([a, c, c], [w0, w1 + w2, w1 + w2]) =
      ([d, d, c], [w0 + (w1 + w2), w0 + (w1 + w2), w1 + w2])"
    by (simp add: poolAt_def d_def Let_def)
  have pb: "poolBackward (Suc 0) (poolAt (Suc 0) rw) =
      (0, ([d, d, c], [w0 + (w1 + w2), w0 + (w1 + w2), w1 + w2]))"
    using c(1) by (simp add: p1 p0)
  have st: "stuck 1 ([d, d, c], [w0 + (w1 + w2), w0 + (w1 + w2), w1 + w2])"
    using d w by (auto simp: stuck_def)
  show ?thesis using i rw ab pb st by simp
qed

lemma pavSweep_stuck: "stuck i rw \<Longrightarrow> pavSweep i rw = None"
proof (rule ccontr)
  assume s: "stuck i rw" and "pavSweep i rw \<noteq> None"
  then obtain y where y: "pavSweep i rw = Some y" by auto
  have "\<not> stuck i rw"
  proof (rule pavSweep.raw_induct [where P = "\<lambda>i rw y. \<not> stuck i rw", OF _ y])
    fix sweep :: "nat \<Rightarrow> number list \<times> number list \<Rightarrow> number list option"
      and i rw y
    assume IH: "\<And>i rw y. sweep i rw = Some y \<Longrightarrow> \<not> stuck i rw"
      and body: "(if i + 1 < length (fst rw)
        then if fst rw ! i < fst rw ! (i + 1)
             then case poolBackward i (poolAt i rw) of (i', rw') \<Rightarrow> sweep (i' + 1) rw'
             else sweep (i + 1) rw
        else Some (fst rw)) = Some y"
    show "\<not> stuck i rw"
    proof
      assume "stuck i rw"
      from stuck_step [OF this] obtain rw' where
        g: "i + 1 < length (fst rw)" "fst rw ! i < fst rw ! (i + 1)"
        and pb: "poolBackward i (poolAt i rw) = (0, rw')" and st: "stuck 1 rw'"
        by blast
      from body g pb have "sweep 1 rw' = Some y" by simp
      from IH [OF this] st show False by simp
    qed
  qed
  with s show False by simp
qed

lemma isotonicRegression_exact_no_result:
  "isotonicRegression [0, 0, 1] Nonincreasing = None"
proof -
  have "stuck 1 ([0, 0, 1], [1, 1, 1])" by (auto simp: stuck_def)
  then have "pavSweep 1 ([0, 0, 1], [1, 1, 1]) = None" by (rule pavSweep_stuck)
  moreover have "pavSweep 0 ([0, 0, 1], [1, 1, 1]) = pavSweep 1 ([0, 0, 1], [1, 1, 1])"
    by (subst pavSweep.simps) simp
  ultimately show ?thesis
    by (simp add: isotonicRegression_def Let_def numeral_3_eq_3)
qed

section \<open>Monotonicity check\<close>

lemma margin_flag [simp]:
  "violationMargin d (flagged p) q = violationMargin d p q"
  "violationMargin d p (flagged q) = violationMargin d p q"
  by (simp_all add: violationMargin_def flagged_def Let_def)

lemma flagged_idem [simp]: "flagged (flagged p) = flagged p"
  by (simp add: flagged_def)



lemma monoStep_points:
  "an_points (monoStep log10 key d now i st) =
     (if violationMargin d (an_points st ! i) (an_points st ! (i + 1)) \<ge> MONO_MIN_CENTS
      then (an_points st)[i := flagged (an_points st ! i), i + 1 := flagged (an_points st ! (i + 1))]
      else an_points st)"
  by (simp add: monoStep_def Let_def split_def flagged_def)


lemma monoStep_max:
  "an_maxCents (monoStep log10 key d now i st) =
     (if violationMargin d (an_points st ! i) (an_points st ! (i + 1)) \<ge> MONO_MIN_CENTS then max (an_maxCents st) (violationMargin d (an_points st ! i) (an_points st ! (i + 1))) else an_maxCents st)"
  by (simp add: monoStep_def Let_def split_def)







lemma fold_upt_Suc: "fold f [0..<Suc m] s = f m (fold f [0..<m] s)"
  by simp








section \<open>Cross-ladder arbitrage\<close>

lemma numbered_append:
  "numbered now n (a @ b) = numbered now n a @ numbered now (n + length a) b"
  by (induction a arbitrary: n) auto

lemma arbPoint_eq:
  "arbPoint l1 l2 now p1 acc =
     (fst acc @ numbered now (snd acc) (pointMatches l1 l2 p1),
      snd acc + length (pointMatches l1 l2 p1))"
  by (cases acc) (simp add: arbPoint_def pointMatches_def split: option.splits)

lemma fold_arbPoint:
  "fold (arbPoint l1 l2 now) ps acc =
     (fst acc @ numbered now (snd acc) (concat (map (pointMatches l1 l2) ps)),
      snd acc + length (concat (map (pointMatches l1 l2) ps)))"
proof (induction ps arbitrary: acc)
  case Nil
  show ?case by simp
next
  case (Cons p ps)
  define acc' where "acc' = arbPoint l1 l2 now p acc"
  have a: "fst acc' = fst acc @ numbered now (snd acc) (pointMatches l1 l2 p)"
    "snd acc' = snd acc + length (pointMatches l1 l2 p)"
    unfolding acc'_def by (simp_all add: arbPoint_eq)
  have "fold (arbPoint l1 l2 now) (p # ps) acc = fold (arbPoint l1 l2 now) ps acc'"
    by (simp add: acc'_def)
  also have "\<dots> = (fst acc' @ numbered now (snd acc') (concat (map (pointMatches l1 l2) ps)),
      snd acc' + length (concat (map (pointMatches l1 l2) ps)))"
    by (rule Cons.IH)
  finally show ?case
    by (simp add: a numbered_append add.assoc)
qed

lemma arbPair_eq:
  "arbPair l1 now l2 acc =
     (fst acc @ numbered now (snd acc) (pairMatches l1 l2), snd acc + length (pairMatches l1 l2))"
  by (simp add: arbPair_def pairMatches_def fold_arbPoint)

lemma fold_arbPair:
  "fold (arbPair l1 now) rest acc =
     (fst acc @ numbered now (snd acc) (concat (map (pairMatches l1) rest)),
      snd acc + length (concat (map (pairMatches l1) rest)))"
proof (induction rest arbitrary: acc)
  case Nil
  show ?case by simp
next
  case (Cons l2 rest)
  define acc' where "acc' = arbPair l1 now l2 acc"
  have a: "fst acc' = fst acc @ numbered now (snd acc) (pairMatches l1 l2)"
    "snd acc' = snd acc + length (pairMatches l1 l2)"
    unfolding acc'_def by (simp_all add: arbPair_eq)
  have "fold (arbPair l1 now) (l2 # rest) acc = fold (arbPair l1 now) rest acc'"
    by (simp add: acc'_def)
  also have "\<dots> = (fst acc' @ numbered now (snd acc') (concat (map (pairMatches l1) rest)),
      snd acc' + length (concat (map (pairMatches l1) rest)))"
    by (rule Cons.IH)
  finally show ?case
    by (simp add: a numbered_append add.assoc)
qed

lemma arbFrom_eq:
  "arbFrom ladders now acc =
     (fst acc @ numbered now (snd acc) (allMatches ladders), snd acc + length (allMatches ladders))"
proof (induction ladders arbitrary: acc)
  case Nil
  show ?case by simp
next
  case (Cons l1 rest)
  show ?case
    by (simp add: Cons.IH fold_arbPair numbered_append add.assoc)
qed

lemma detect_eq:
  "detectCrossLadderArb ladders now eng =
     (numbered now (signalIdCounter eng) (allMatches ladders),
      eng\<lparr>signalIdCounter := signalIdCounter eng + length (allMatches ladders)\<rparr>)"
  by (simp add: detectCrossLadderArb_def arbFrom_eq)

lemma pointMatches_iff:
  "(l1, p1, p2) \<in> set (pointMatches l l2 p) \<longleftrightarrow>
     l1 = l \<and> p1 = p \<and> mirrorPoint l l2 p = Some p2 \<and> bid_prob p + bid_prob p2 > 101 / 100"
  by (auto simp: pointMatches_def split: option.splits)

lemma pairMatches_iff:
  "(l1, p1, p2) \<in> set (pairMatches l l2) \<longleftrightarrow>
     l1 = l \<and> ladder_type l = ladder_type l2 \<and> isOpposing l l2
     \<and> p1 \<in> set (points l) \<and> mirrorPoint l l2 p1 = Some p2
     \<and> bid_prob p1 + bid_prob p2 > 101 / 100"
  by (auto simp: pairMatches_def pointMatches_iff)

lemma concat_pairMatches_iff:
  "(l1, p1, p2) \<in> set (concat (map (pairMatches l) ls)) \<longleftrightarrow>
     (\<exists>j. j < length ls \<and> l1 = l
        \<and> ladder_type l1 = ladder_type (ls ! j) \<and> isOpposing l1 (ls ! j)
        \<and> p1 \<in> set (points l1) \<and> mirrorPoint l1 (ls ! j) p1 = Some p2
        \<and> bid_prob p1 + bid_prob p2 > 101 / 100)"
proof -
  have "(l1, p1, p2) \<in> set (concat (map (pairMatches l) ls)) \<longleftrightarrow>
      (\<exists>l2 \<in> set ls. (l1, p1, p2) \<in> set (pairMatches l l2))"
    by auto
  also have "\<dots> \<longleftrightarrow> (\<exists>j. j < length ls \<and> (l1, p1, p2) \<in> set (pairMatches l (ls ! j)))"
    by (metis in_set_conv_nth)
  finally show ?thesis
    by (simp add: pairMatches_iff) blast
qed

lemma allMatches_iff:
  "(l1, p1, p2) \<in> set (allMatches ladders) \<longleftrightarrow>
     (\<exists>i j. i < j \<and> j < length ladders \<and> l1 = ladders ! i
        \<and> ladder_type l1 = ladder_type (ladders ! j) \<and> isOpposing l1 (ladders ! j)
        \<and> p1 \<in> set (points l1) \<and> mirrorPoint l1 (ladders ! j) p1 = Some p2
        \<and> bid_prob p1 + bid_prob p2 > 101 / 100)"
proof (induction ladders)
  case Nil
  show ?case by simp
next
  case (Cons l ls)
  note here = concat_pairMatches_iff [of l1 p1 p2 l ls]
  show ?case (is "?L \<longleftrightarrow> ?R")
  proof
    assume ?L
    then consider "(l1, p1, p2) \<in> set (concat (map (pairMatches l) ls))"
      | "(l1, p1, p2) \<in> set (allMatches ls)" by auto
    then show ?R
    proof cases
      case 1
      with here obtain j where "j < length ls" "l1 = l"
        "ladder_type l1 = ladder_type (ls ! j)" "isOpposing l1 (ls ! j)"
        "p1 \<in> set (points l1)" "mirrorPoint l1 (ls ! j) p1 = Some p2"
        "bid_prob p1 + bid_prob p2 > 101 / 100" by blast
      then show ?thesis
        by (intro exI [of _ 0] exI [of _ "Suc j"]) simp
    next
      case 2
      with Cons.IH obtain i j where "i < j" "j < length ls" "l1 = ls ! i"
        "ladder_type l1 = ladder_type (ls ! j)" "isOpposing l1 (ls ! j)"
        "p1 \<in> set (points l1)" "mirrorPoint l1 (ls ! j) p1 = Some p2"
        "bid_prob p1 + bid_prob p2 > 101 / 100" by blast
      then show ?thesis
        by (intro exI [of _ "Suc i"] exI [of _ "Suc j"]) simp
    qed
  next
    assume ?R
    then obtain i j where ij: "i < j" "j < length (l # ls)" "l1 = (l # ls) ! i"
        "ladder_type l1 = ladder_type ((l # ls) ! j)" "isOpposing l1 ((l # ls) ! j)"
        "p1 \<in> set (points l1)" "mirrorPoint l1 ((l # ls) ! j) p1 = Some p2"
        "bid_prob p1 + bid_prob p2 > 101 / 100" by blast
    from ij(1) obtain j' where j': "j = Suc j'" by (cases j) auto
    show ?L
    proof (cases i)
      case 0
      with ij j' have "\<exists>j. j < length ls \<and> l1 = l
        \<and> ladder_type l1 = ladder_type (ls ! j) \<and> isOpposing l1 (ls ! j)
        \<and> p1 \<in> set (points l1) \<and> mirrorPoint l1 (ls ! j) p1 = Some p2
        \<and> bid_prob p1 + bid_prob p2 > 101 / 100"
        by (intro exI [of _ j']) simp
      with here have "(l1, p1, p2) \<in> set (concat (map (pairMatches l) ls))" by simp
      then show ?thesis by simp
    next
      case (Suc i')
      with ij j' have "\<exists>i j. i < j \<and> j < length ls \<and> l1 = ls ! i
        \<and> ladder_type l1 = ladder_type (ls ! j) \<and> isOpposing l1 (ls ! j)
        \<and> p1 \<in> set (points l1) \<and> mirrorPoint l1 (ls ! j) p1 = Some p2
        \<and> bid_prob p1 + bid_prob p2 > 101 / 100"
        by (intro exI [of _ i'] exI [of _ j']) simp
      with Cons.IH have "(l1, p1, p2) \<in> set (allMatches ls)" by simp
      then show ?thesis by simp
    qed
  qed
qed

lemma arbSignal_fields:
  "sig_type (arbSignal n now l1 p1 p2) = SUM_GT_1
   \<and> sig_id (arbSignal n now l1 p1 p2) = ArbNo n
   \<and> confidence (arbSignal n now l1 p1 p2) = HighConfidence
   \<and> magnitude (arbSignal n now l1 p1 p2) = Some ((bid_prob p1 + bid_prob p2 - 1) * 100)
   \<and> severity_score (arbSignal n now l1 p1 p2) = Some ((bid_prob p1 + bid_prob p2 - 1) * 100 * 10)
   \<and> related_tickers (arbSignal n now l1 p1 p2) = Some [pt_market_ticker p1, pt_market_ticker p2]
   \<and> sig_market_ticker (arbSignal n now l1 p1 p2) = pt_market_ticker p1"
  by (simp add: arbSignal_def Let_def)

lemma numbered_length: "length (numbered now n ms) = length ms"
  by (induction ms arbitrary: n) auto

lemma numbered_nth:
  "k < length ms \<Longrightarrow>
   numbered now n ms ! k = (case ms ! k of (l1, p1, p2) \<Rightarrow> arbSignal (n + k + 1) now l1 p1 p2)"
proof (induction ms arbitrary: n k)
  case Nil
  then show ?case by simp
next
  case (Cons m ms)
  obtain l1 p1 p2 where m: "m = (l1, p1, p2)" by (cases m) auto
  show ?case
  proof (cases k)
    case 0
    then show ?thesis by (simp add: m)
  next
    case (Suc k')
    with Cons.prems have "k' < length ms" by simp
    from Cons.IH [OF this, of "n + 1"] Suc show ?thesis by (simp add: m)
  qed
qed

text \<open>
  Claim C6. \<^verbatim>\<open>detectCrossLadderArb\<close> returns, in order and with consecutive \<^verbatim>\<open>arb-n\<close> ids,
  one \<open>SUM_GT_1\<close> candidate for each triple of \<open>allMatches\<close>, and no other: that is, for every
  pair of ladders \<open>i < j\<close> with the same type and opposing sides and every point \<open>p1\<close> of
  ladder \<open>i\<close> whose mirror point \<open>p2\<close> (the first point of ladder \<open>j\<close> within 0.01 of the line
  of \<open>p1\<close> for totals, of its negation for spreads) exists, a candidate exactly when
  \<open>bid_prob p1 + bid_prob p2 > 1.01\<close>. The candidate has magnitude
  \<open>(bid_prob p1 + bid_prob p2 - 1) \<sqdot> 100\<close>, confidence high, severity score ten times the
  magnitude, and related tickers \<open>[p1, p2]\<close>.
\<close>

theorem cross_ladder_arbitrage:
  "length (fst (detectCrossLadderArb ladders now eng)) = length (allMatches ladders)
   \<and> (\<forall>k<length (allMatches ladders).
        fst (detectCrossLadderArb ladders now eng) ! k =
          (case allMatches ladders ! k of
             (l1, p1, p2) \<Rightarrow> arbSignal (signalIdCounter eng + k + 1) now l1 p1 p2))
   \<and> signalIdCounter (snd (detectCrossLadderArb ladders now eng)) =
        signalIdCounter eng + length (allMatches ladders)
   \<and> ((l1, p1, p2) \<in> set (allMatches ladders) \<longleftrightarrow>
        (\<exists>i j. i < j \<and> j < length ladders \<and> l1 = ladders ! i
           \<and> ladder_type l1 = ladder_type (ladders ! j) \<and> isOpposing l1 (ladders ! j)
           \<and> p1 \<in> set (points l1) \<and> mirrorPoint l1 (ladders ! j) p1 = Some p2
           \<and> bid_prob p1 + bid_prob p2 > 101 / 100))
   \<and> mirrorPoint l1 l2 p1 =
        find (\<lambda>p. \<bar>pt_line p - (if ladder_type l1 = SpreadLadder then - pt_line p1 else pt_line p1)\<bar>
                     < 1 / 100) (points l2)
   \<and> sig_type (arbSignal n now l1 p1 p2) = SUM_GT_1
   \<and> confidence (arbSignal n now l1 p1 p2) = HighConfidence
   \<and> magnitude (arbSignal n now l1 p1 p2) = Some ((bid_prob p1 + bid_prob p2 - 1) * 100)
   \<and> severity_score (arbSignal n now l1 p1 p2) =
        Some ((bid_prob p1 + bid_prob p2 - 1) * 100 * 10)
   \<and> related_tickers (arbSignal n now l1 p1 p2) =
        Some [pt_market_ticker p1, pt_market_ticker p2]"
proof -
  have a: "length (fst (detectCrossLadderArb ladders now eng)) = length (allMatches ladders)"
    by (simp add: detect_eq numbered_length)
  have b: "\<forall>k<length (allMatches ladders).
        fst (detectCrossLadderArb ladders now eng) ! k =
          (case allMatches ladders ! k of
             (l1, p1, p2) \<Rightarrow> arbSignal (signalIdCounter eng + k + 1) now l1 p1 p2)"
    by (simp add: detect_eq numbered_nth)
  have c: "signalIdCounter (snd (detectCrossLadderArb ladders now eng)) =
        signalIdCounter eng + length (allMatches ladders)"
    by (simp add: detect_eq)
  have d: "mirrorPoint l1 l2 p1 =
        find (\<lambda>p. \<bar>pt_line p - (if ladder_type l1 = SpreadLadder then - pt_line p1 else pt_line p1)\<bar>
                     < 1 / 100) (points l2)"
    by (simp add: mirrorPoint_def Let_def)
  from a b c d allMatches_iff [of l1 p1 p2 ladders] arbSignal_fields [of n now l1 p1 p2]
  show ?thesis by blast
qed

text \<open>
  The total pair Over at 45 with bid 58 and Under at 45 with bid 45: exactly one candidate,
  of magnitude 3 cents.
\<close>

theorem cross_ladder_arbitrage_witness:
  "length (fst (detectCrossLadderArb overUnderExample 1000 newSignalsEngine)) = 1
   \<and> map sig_type (fst (detectCrossLadderArb overUnderExample 1000 newSignalsEngine)) = [SUM_GT_1]
   \<and> map magnitude (fst (detectCrossLadderArb overUnderExample 1000 newSignalsEngine)) = [Some 3]
   \<and> map severity_score (fst (detectCrossLadderArb overUnderExample 1000 newSignalsEngine)) = [Some 30]
   \<and> map related_tickers (fst (detectCrossLadderArb overUnderExample 1000 newSignalsEngine)) =
       [Some [''O45'', ''U45'']]"
proof -
  let ?over = "exampleLadder ''g|total|Over|total_over'' TotalLadder ''Over'' [examplePoint ''O45'' 45 58 60]"
  let ?under = "exampleLadder ''g|total|Under|total_under'' TotalLadder ''Under'' [examplePoint ''U45'' 45 45 47]"
  let ?r = "fst (detectCrossLadderArb overUnderExample 1000 newSignalsEngine)"
  have m: "allMatches overUnderExample = [(?over, examplePoint ''O45'' 45 58 60, examplePoint ''U45'' 45 45 47)]"
    by (simp add: overUnderExample_def pairMatches_def pointMatches_def mirrorPoint_def
        isOpposing_def exampleLadder_def examplePoint_def Let_def)
  note t = cross_ladder_arbitrage [of overUnderExample 1000 newSignalsEngine]
  from t m have len: "length ?r = 1" by simp
  from t m have "?r ! 0 = arbSignal (signalIdCounter newSignalsEngine + 0 + 1) 1000 ?over
      (examplePoint ''O45'' 45 58 60) (examplePoint ''U45'' 45 45 47)"
    by simp
  with len have r: "?r = [arbSignal (signalIdCounter newSignalsEngine + 0 + 1) 1000 ?over
      (examplePoint ''O45'' 45 58 60) (examplePoint ''U45'' 45 45 47)]"
    by (cases ?r) auto
  show ?thesis
    by (simp add: r arbSignal_def examplePoint_def Let_def)
qed


section \<open>Deduplication of ladder points\<close>

lemma map_of_groupByLine:
  "map_of (groupByLine raw m) l =
     (if map_of m l = None \<and> sameLine l raw = [] then None
      else Some (orElse (map_of m l) [] @ sameLine l raw))"
proof (induction raw arbitrary: m)
  case Nil
  show ?case by (cases "map_of m l") (simp_all add: sameLine_def orElse_def)
next
  case (Cons pt raw)
  show ?case
    by (simp add: Cons.IH update_conv' sameLine_def orElse_def split: option.splits)
qed

lemma distinct_groupByLine:
  "distinct (map fst m) \<Longrightarrow> distinct (map fst (groupByLine raw m))"
  by (induction raw arbitrary: m) (simp_all add: distinct_update)

lemma group_in:
  assumes "(l, pts) \<in> set (groupByLine raw [])"
  shows "pts = sameLine l raw \<and> pts \<noteq> []"
proof -
  have "distinct (map fst (groupByLine raw []))" by (simp add: distinct_groupByLine)
  with assms have "map_of (groupByLine raw []) l = Some pts" by simp
  then show ?thesis by (simp add: map_of_groupByLine orElse_def split: if_splits)
qed

lemma primary_update_id: "is_primary p = Some True \<Longrightarrow> p\<lparr>is_primary := Some True\<rparr> = p"
proof -
  assume a: "is_primary p = Some True"
  have "p\<lparr>is_primary := is_primary p\<rparr> = p" by simp
  with a show ?thesis by simp
qed

lemma group_keys: "fst ` set (groupByLine raw []) = pt_line ` set raw"
proof -
  have "l \<in> fst ` set (groupByLine raw []) \<longleftrightarrow> l \<in> pt_line ` set raw" for l
  proof -
    have "l \<in> fst ` set (groupByLine raw []) \<longleftrightarrow> map_of (groupByLine raw []) l \<noteq> None"
      by (simp add: map_of_eq_None_iff)
    also have "\<dots> \<longleftrightarrow> sameLine l raw \<noteq> []"
      by (simp add: map_of_groupByLine)
    also have "\<dots> \<longleftrightarrow> l \<in> pt_line ` set raw"
      by (auto simp: sameLine_def filter_empty_conv)
    finally show ?thesis .
  qed
  then show ?thesis by blast
qed

lemma sum_update:
  "sum_list (map (length \<circ> snd) (AList.update k (orElse (map_of m k) [] @ [x]) m)) =
     Suc (sum_list (map (length \<circ> snd) m))"
  by (induction m) (auto simp: orElse_def)

lemma sum_groupByLine:
  "sum_list (map (length \<circ> snd) (groupByLine raw m)) =
     sum_list (map (length \<circ> snd) m) + length raw"
  by (induction raw arbitrary: m) (simp_all add: sum_update)

lemma dedupeGroup_snd: "snd (dedupeGroup pts) = length pts - 1"
proof (cases "length pts > 1")
  case False
  then show ?thesis by (simp add: dedupeGroup_def)
next
  case True
  then have "sort_key (\<lambda>pt. - pointLiquidity pt) pts \<noteq> []"
    by (metis length_sort list.size(3) not_less_zero)
  then obtain b os where "sort_key (\<lambda>pt. - pointLiquidity pt) pts = b # os"
    by (cases "sort_key (\<lambda>pt. - pointLiquidity pt) pts") auto
  with True show ?thesis by (simp add: dedupeGroup_def)
qed

lemma dedupeGroup_hd:
  assumes "pts \<noteq> []" "list_all (\<lambda>p. is_primary p = Some True) pts"
  shows "\<exists>rest. fst (dedupeGroup pts) = hd (sort_key (\<lambda>pt. - pointLiquidity pt) pts) # rest
           \<and> list_all (\<lambda>p. is_primary p = Some False) rest
           \<and> (length pts > 1 \<longrightarrow>
                map (\<lambda>p. p\<lparr>is_primary := Some True\<rparr>) rest =
                tl (sort_key (\<lambda>pt. - pointLiquidity pt) pts))
           \<and> (length pts \<le> 1 \<longrightarrow> rest = [])"
proof (cases "length pts > 1")
  case False
  with assms(1) obtain q where q: "pts = [q]"
    by (cases pts) (auto simp: Suc_le_eq)
  then show ?thesis by (simp add: dedupeGroup_def)
next
  case True
  let ?s = "sort_key (\<lambda>pt. - pointLiquidity pt) pts"
  have "?s \<noteq> []" using assms(1) by (metis length_sort length_0_conv)
  then obtain b os where s: "?s = b # os" by (cases ?s) auto
  have "set ?s = set pts" by simp
  with s assms(2) have prim: "is_primary b = Some True" "list_all (\<lambda>p. is_primary p = Some True) os"
    by (auto simp: list_all_iff)
  have b: "b\<lparr>is_primary := Some True\<rparr> = b"
    using prim(1) by (rule primary_update_id)
  have os: "map (\<lambda>p. p\<lparr>is_primary := Some True\<rparr>) (map (\<lambda>pt. pt\<lparr>is_primary := Some False\<rparr>) os) = os"
    using prim(2) by (induction os) (simp_all add: primary_update_id)
  show ?thesis
    using True s b os
    by (simp add: dedupeGroup_def list_all_iff)
qed

lemma dedupeGroups_eq:
  "dedupeGroups G acc =
     (fst acc @ List.map_filter keepPrimary G,
      snd acc + sum_list (map (\<lambda>g. length (snd g) - 1) G))"
proof (induction G arbitrary: acc)
  case Nil
  show ?case by simp
next
  case (Cons g G)
  obtain l pts where g: "g = (l, pts)" by (cases g)
  obtain a d where acc: "acc = (a, d)" by (cases acc)
  obtain marked n where m: "dedupeGroup pts = (marked, n)" by (cases "dedupeGroup pts")
  have n: "n = length pts - 1" using dedupeGroup_snd [of pts] m by simp
  show ?case
    unfolding g acc
    by (simp add: m n Cons.IH keepPrimary_def split: list.splits)
qed

lemma primaryOf_props:
  assumes "l \<in> pt_line ` set raw"
  shows "primaryOf raw l \<in> set raw" "pt_line (primaryOf raw l) = l"
    "\<forall>r\<in>set raw. pt_line r = l \<longrightarrow> pointLiquidity r \<le> pointLiquidity (primaryOf raw l)"
proof -
  let ?f = "\<lambda>pt. - pointLiquidity pt"
  let ?s = "sort_key ?f (sameLine l raw)"
  have ne: "sameLine l raw \<noteq> []"
    using assms by (auto simp: sameLine_def filter_empty_conv)
  then have "?s \<noteq> []" by (metis length_sort length_0_conv)
  then obtain b os where s: "?s = b # os" by (cases ?s) auto
  have b: "primaryOf raw l = b" by (simp add: primaryOf_def s)
  have set: "set (b # os) = set (sameLine l raw)" using s by (metis set_sort)
  then have "b \<in> set (sameLine l raw)" by auto
  then show "primaryOf raw l \<in> set raw" "pt_line (primaryOf raw l) = l"
    by (simp_all add: b sameLine_def)
  have "sorted (map ?f (b # os))" using s by (metis sorted_sort_key)
  then have le: "\<forall>q\<in>set os. ?f b \<le> ?f q" by simp
  show "\<forall>r\<in>set raw. pt_line r = l \<longrightarrow> pointLiquidity r \<le> pointLiquidity (primaryOf raw l)"
  proof (intro ballI impI)
    fix r assume "r \<in> set raw" "pt_line r = l"
    then have "r \<in> set (b # os)" using set by (simp add: sameLine_def)
    with le show "pointLiquidity r \<le> pointLiquidity (primaryOf raw l)"
      by (auto simp: b)
  qed
qed

lemma keepPrimary_group:
  assumes "list_all (\<lambda>p. is_primary p = Some True) raw" "(l, pts) \<in> set (groupByLine raw [])"
  shows "keepPrimary (l, pts) =
     (if \<not> truthy (is_excluded (primaryOf raw l)) then Some (primaryOf raw l) else None)"
proof -
  from group_in [OF assms(2)] have pts: "pts = sameLine l raw" "pts \<noteq> []" by blast+
  have "list_all (\<lambda>p. is_primary p = Some True) pts"
    using assms(1) by (simp add: pts sameLine_def list_all_iff)
  from dedupeGroup_hd [OF pts(2) this] obtain rest where
    r: "fst (dedupeGroup pts) = hd (sort_key (\<lambda>pt. - pointLiquidity pt) pts) # rest" by blast
  have "sameLine l raw \<noteq> []" using pts by blast
  then have l: "l \<in> pt_line ` set raw"
    by (auto simp: sameLine_def filter_empty_conv)
  have "primaryOf raw l \<in> set raw" by (rule primaryOf_props(1) [OF l])
  with assms(1) have "is_primary (primaryOf raw l) = Some True" by (simp add: list_all_iff)
  then show ?thesis
    using r by (simp add: keepPrimary_def primaryOf_def pts(1) truthy_def)
qed

lemma map_filter_cong_set:
  "(\<And>g. g \<in> set G \<Longrightarrow> f g = h g) \<Longrightarrow> List.map_filter f G = List.map_filter h G"
  by (induction G) (auto split: option.splits)

lemma set_map_filter: "set (List.map_filter f G) = {y. \<exists>g\<in>set G. f g = Some y}"
  by (induction G) (auto split: option.splits)

lemma distinct_map_filter_keys:
  assumes "distinct (map fst G)" "\<And>g p. g \<in> set G \<Longrightarrow> f g = Some p \<Longrightarrow> k p = fst g"
  shows "distinct (map k (List.map_filter f G))"
  using assms
proof (induction G)
  case Nil
  show ?case by simp
next
  case (Cons g G)
  have IH: "distinct (map k (List.map_filter f G))"
    using Cons by simp
  show ?case
  proof (cases "f g")
    case None
    with IH show ?thesis by simp
  next
    case (Some p)
    have kp: "k p = fst g" using Cons.prems(2) [of g p] Some by simp
    have "k p \<notin> k ` set (List.map_filter f G)"
    proof
      assume "k p \<in> k ` set (List.map_filter f G)"
      then obtain q g' where "g' \<in> set G" "f g' = Some q" "k q = k p"
        by (auto simp: set_map_filter)
      with Cons.prems(2) [of g' q] kp have "fst g' = fst g" by simp
      with \<open>g' \<in> set G\<close> Cons.prems(1) show False by (auto simp: image_iff)
    qed
    with IH Some show ?thesis by simp
  qed
qed

lemma distinct_map_insort_key:
  "distinct (map f (insort_key f x xs)) = (f x \<notin> f ` set xs \<and> distinct (map f xs))"
  by (induction xs) (auto simp: set_insort_key)

lemma distinct_map_sort_key: "distinct (map f (sort_key f xs)) = distinct (map f xs)"
  by (induction xs) (simp_all add: distinct_map_insort_key)

lemma sum_length_minus_one:
  "list_all (\<lambda>g. snd g \<noteq> []) G \<Longrightarrow>
   sum_list (map (\<lambda>g. length (snd g) - 1) G) + length G = sum_list (map (length \<circ> snd) G)"
  by (induction G) (auto simp: Suc_leI)

lemma rawPoint_primary: "is_primary (fst (rawPoint eng m l diag)) = Some True"
  by (simp add: rawPoint_def Let_def split_def)

lemma rawPointsOf_primary:
  "list_all (\<lambda>p. is_primary p = Some True) (fst (rawPointsOf eng markets diag))"
proof (induction markets arbitrary: diag)
  case Nil
  show ?case by simp
next
  case (Cons m ms)
  show ?case
  proof (cases "line m")
    case None
    then show ?thesis using Cons.IH by simp
  next
    case (Some l)
    then show ?thesis
      using Cons.IH [of "snd (rawPoint eng m l diag)"] rawPoint_primary [of eng m l diag]
      by (simp add: split_def Let_def)
  qed
qed

lemma dedupe_unsorted:
  "fst (dedupe raw) = sortByLine (List.map_filter keepPrimary (groupByLine raw []))"
  "snd (dedupe raw) = sum_list (map (\<lambda>g. length (snd g) - 1) (groupByLine raw []))"
  by (simp_all add: dedupe_def dedupeGroups_eq split_def)

lemma dedupe_set:
  assumes "list_all (\<lambda>p. is_primary p = Some True) raw"
  shows "set (fst (dedupe raw)) =
     {primaryOf raw l | l. l \<in> pt_line ` set raw \<and> \<not> truthy (is_excluded (primaryOf raw l))}"
proof -
  let ?G = "groupByLine raw []"
  have "set (fst (dedupe raw)) = {y. \<exists>g\<in>set ?G. keepPrimary g = Some y}"
    by (simp add: dedupe_unsorted sortByLine_def set_map_filter)
  also have "\<dots> = {primaryOf raw l | l. l \<in> pt_line ` set raw \<and> \<not> truthy (is_excluded (primaryOf raw l))}"
    (is "?A = ?B")
  proof (intro set_eqI iffI)
    fix y assume "y \<in> ?A"
    then obtain l pts where g: "(l, pts) \<in> set ?G" "keepPrimary (l, pts) = Some y" by auto
    from g(1) have "l \<in> fst ` set ?G" by force
    then have l: "l \<in> pt_line ` set raw" by (simp add: group_keys)
    from g keepPrimary_group [OF assms g(1)] have "y = primaryOf raw l"
      "\<not> truthy (is_excluded (primaryOf raw l))" by (auto split: if_splits)
    with l show "y \<in> ?B" by blast
  next
    fix y assume "y \<in> ?B"
    then obtain l where l: "l \<in> pt_line ` set raw" "y = primaryOf raw l"
      "\<not> truthy (is_excluded (primaryOf raw l))" by blast
    from l(1) have "l \<in> fst ` set ?G" by (simp add: group_keys)
    then obtain pts where g: "(l, pts) \<in> set ?G" by auto
    from keepPrimary_group [OF assms g] l have "keepPrimary (l, pts) = Some y" by simp
    with g show "y \<in> ?A" by blast
  qed
  finally show ?thesis .
qed

lemma dedupe_distinct:
  assumes "list_all (\<lambda>p. is_primary p = Some True) raw"
  shows "distinct (map pt_line (fst (dedupe raw)))"
proof -
  let ?G = "groupByLine raw []"
  have d: "distinct (map fst ?G)" by (simp add: distinct_groupByLine)
  have "distinct (map pt_line (List.map_filter keepPrimary ?G))"
  proof (rule distinct_map_filter_keys [OF d])
    fix g p assume g: "g \<in> set ?G" "keepPrimary g = Some p"
    obtain l pts where lp: "g = (l, pts)" by (cases g)
    from g lp have "l \<in> fst ` set ?G" by force
    then have l: "l \<in> pt_line ` set raw" by (simp add: group_keys)
    from g lp keepPrimary_group [OF assms, of l pts] have "p = primaryOf raw l"
      by (auto split: if_splits)
    with primaryOf_props(2) [OF l] lp show "pt_line p = fst g" by simp
  qed
  then show ?thesis
    by (simp add: dedupe_unsorted sortByLine_def distinct_map_sort_key)
qed

lemma dedupe_dropped: "snd (dedupe raw) = length raw - card (pt_line ` set raw)"
proof -
  let ?G = "groupByLine raw []"
  have ne: "list_all (\<lambda>g. snd g \<noteq> []) ?G"
    using group_in [of _ _ raw] by (auto simp: list_all_iff)
  have "sum_list (map (\<lambda>g. length (snd g) - 1) ?G) + length ?G = sum_list (map (length \<circ> snd) ?G)"
    by (rule sum_length_minus_one [OF ne])
  also have "\<dots> = length raw" by (simp add: sum_groupByLine)
  finally have a: "sum_list (map (\<lambda>g. length (snd g) - 1) ?G) + length ?G = length raw" .
  have "distinct (map fst ?G)" by (simp add: distinct_groupByLine)
  then have "card (set (map fst ?G)) = length (map fst ?G)" by (rule distinct_card)
  then have "length ?G = card (pt_line ` set raw)" by (simp add: group_keys)
  with a show ?thesis by (simp add: dedupe_unsorted)
qed

lemma group_marking:
  assumes prim: "list_all (\<lambda>p. is_primary p = Some True) raw"
    and g: "(l, pts) \<in> set (groupByLine raw [])"
  shows "pts = sameLine l raw \<and>
     (\<exists>siblings. fst (dedupeGroup pts) = primaryOf raw l # siblings
        \<and> list_all (\<lambda>p. is_primary p = Some False) siblings
        \<and> length siblings = length pts - 1
        \<and> snd (dedupeGroup pts) = length siblings
        \<and> set siblings \<inter> set (fst (dedupe raw)) = {})"
proof -
  from group_in [OF g] have pts: "pts = sameLine l raw" "pts \<noteq> []" by blast+
  have pp: "list_all (\<lambda>p. is_primary p = Some True) pts"
    using prim by (simp add: pts sameLine_def list_all_iff)
  from dedupeGroup_hd [OF pts(2) pp] obtain rest where
    r: "fst (dedupeGroup pts) = hd (sort_key (\<lambda>pt. - pointLiquidity pt) pts) # rest"
      "list_all (\<lambda>p. is_primary p = Some False) rest"
      "length pts > 1 \<longrightarrow> map (\<lambda>p. p\<lparr>is_primary := Some True\<rparr>) rest =
                tl (sort_key (\<lambda>pt. - pointLiquidity pt) pts)"
      "length pts \<le> 1 \<longrightarrow> rest = []" by blast
  have len: "length rest = length pts - 1"
  proof (cases "length pts > 1")
    case True
    with r(3) have "length (map (\<lambda>p. p\<lparr>is_primary := Some True\<rparr>) rest) =
        length (tl (sort_key (\<lambda>pt. - pointLiquidity pt) pts))" by simp
    then show ?thesis by simp
  next
    case False
    with r(4) pts(2) show ?thesis by (cases pts) auto
  qed
  have an: "\<forall>p\<in>set (fst (dedupe raw)). is_primary p = Some True"
  proof
    fix p assume "p \<in> set (fst (dedupe raw))"
    then obtain l' where "l' \<in> pt_line ` set raw" "p = primaryOf raw l'"
      by (auto simp: dedupe_set [OF prim])
    with primaryOf_props(1) [of l' raw] prim show "is_primary p = Some True"
      by (simp add: list_all_iff)
  qed
  have disj: "set rest \<inter> set (fst (dedupe raw)) = {}"
    using r(2) an by (auto simp: list_all_iff)
  show ?thesis
    using pts(1) r(1,2) len disj dedupeGroup_snd [of pts]
    by (simp add: primaryOf_def)
qed

text \<open>
  Claim C5 (deduplication). The ladder builder groups the raw points by exact line value; every
  raw point enters with \<open>is_primary = true\<close> (last conjunct). For such input, \<open>dedupe\<close>
  returns at most one point per line, ordered by line; the returned points are exactly the
  primaries of the lines whose primary is not excluded, where the primary of a line is a raw
  point of that line whose liquidity score \<open>min(depth_bid, depth_ask)\<close> is maximal among the
  raw points of the line; in every group the primary comes first and each sibling is marked
  \<open>is_primary = false\<close>, is counted once in \<open>duplicates_dropped\<close> and is absent from the
  analysed points; and \<open>duplicates_dropped\<close> is the number of raw points minus the number of
  distinct lines.
\<close>
theorem deduplication:
  assumes "list_all (\<lambda>p. is_primary p = Some True) raw"
  shows "distinct (map pt_line (fst (dedupe raw)))
     \<and> sorted (map pt_line (fst (dedupe raw)))
     \<and> set (fst (dedupe raw)) =
         {primaryOf raw l | l. l \<in> pt_line ` set raw \<and> \<not> truthy (is_excluded (primaryOf raw l))}
     \<and> (\<forall>l\<in>pt_line ` set raw.
          primaryOf raw l \<in> set raw \<and> pt_line (primaryOf raw l) = l
          \<and> is_primary (primaryOf raw l) = Some True
          \<and> (\<forall>r\<in>set raw. pt_line r = l \<longrightarrow> pointLiquidity r \<le> pointLiquidity (primaryOf raw l)))
     \<and> (\<forall>l pts. (l, pts) \<in> set (groupByLine raw []) \<longrightarrow>
          pts = sameLine l raw \<and>
          (\<exists>siblings. fst (dedupeGroup pts) = primaryOf raw l # siblings
             \<and> list_all (\<lambda>p. is_primary p = Some False) siblings
             \<and> length siblings = length pts - 1
             \<and> snd (dedupeGroup pts) = length siblings
             \<and> set siblings \<inter> set (fst (dedupe raw)) = {}))
     \<and> snd (dedupe raw) = length raw - card (pt_line ` set raw)
     \<and> list_all (\<lambda>p. is_primary p = Some True) (sortByLine (fst (rawPointsOf eng markets diag)))"
proof -
  have s: "sorted (map pt_line (fst (dedupe raw)))"
    by (simp add: dedupe_unsorted sortByLine_def)
  have p: "\<forall>l\<in>pt_line ` set raw.
          primaryOf raw l \<in> set raw \<and> pt_line (primaryOf raw l) = l
          \<and> is_primary (primaryOf raw l) = Some True
          \<and> (\<forall>r\<in>set raw. pt_line r = l \<longrightarrow> pointLiquidity r \<le> pointLiquidity (primaryOf raw l))"
  proof
    fix l assume l: "l \<in> pt_line ` set raw"
    from primaryOf_props(1) [OF l] assms have "is_primary (primaryOf raw l) = Some True"
      by (simp add: list_all_iff)
    with primaryOf_props [OF l] show "primaryOf raw l \<in> set raw \<and> pt_line (primaryOf raw l) = l
          \<and> is_primary (primaryOf raw l) = Some True
          \<and> (\<forall>r\<in>set raw. pt_line r = l \<longrightarrow> pointLiquidity r \<le> pointLiquidity (primaryOf raw l))"
      by blast
  qed
  have r: "list_all (\<lambda>p. is_primary p = Some True) (sortByLine (fst (rawPointsOf eng markets diag)))"
    using rawPointsOf_primary [of eng markets diag] by (simp add: sortByLine_def list_all_iff)
  from dedupe_distinct [OF assms] s dedupe_set [OF assms] p group_marking [OF assms]
    dedupe_dropped [of raw] r
  show ?thesis by blast
qed

lemma ex_dedupe:
  "dedupe [depthPoint ''A'' 3 500, depthPoint ''B'' 3 2000, depthPoint ''C'' 5 1000]
     = ([depthPoint ''B'' 3 2000, depthPoint ''C'' 5 1000], 1)"
  by (simp add: dedupe_def dedupeGroup_def sortByLine_def depthPoint_def examplePoint_def
      pointLiquidity_def orElse_def truthy_def)

lemma ex_groups:
  "groupByLine [depthPoint ''A'' 3 500, depthPoint ''B'' 3 2000, depthPoint ''C'' 5 1000] []
     = [(3, [depthPoint ''A'' 3 500, depthPoint ''B'' 3 2000]), (5, [depthPoint ''C'' 5 1000])]"
  by (simp add: depthPoint_def examplePoint_def orElse_def)

theorem deduplication_witness:
  "list_all (\<lambda>p. is_primary p = Some True)
       [depthPoint ''A'' 3 500, depthPoint ''B'' 3 2000, depthPoint ''C'' 5 1000]
   \<and> dedupe [depthPoint ''A'' 3 500, depthPoint ''B'' 3 2000, depthPoint ''C'' 5 1000]
       = ([depthPoint ''B'' 3 2000, depthPoint ''C'' 5 1000], 1)
   \<and> distinct (map pt_line
       (fst (dedupe [depthPoint ''A'' 3 500, depthPoint ''B'' 3 2000, depthPoint ''C'' 5 1000])))
   \<and> primaryOf [depthPoint ''A'' 3 500, depthPoint ''B'' 3 2000, depthPoint ''C'' 5 1000] 3
       \<in> set [depthPoint ''A'' 3 500, depthPoint ''B'' 3 2000, depthPoint ''C'' 5 1000]
   \<and> (3, [depthPoint ''A'' 3 500, depthPoint ''B'' 3 2000])
       \<in> set (groupByLine
           [depthPoint ''A'' 3 500, depthPoint ''B'' 3 2000, depthPoint ''C'' 5 1000] [])
   \<and> (\<exists>siblings.
         fst (dedupeGroup [depthPoint ''A'' 3 500, depthPoint ''B'' 3 2000])
           = primaryOf [depthPoint ''A'' 3 500, depthPoint ''B'' 3 2000, depthPoint ''C'' 5 1000] 3
             # siblings
         \<and> list_all (\<lambda>p. is_primary p = Some False) siblings
         \<and> length siblings = 1)"
proof -
  let ?raw = "[depthPoint ''A'' 3 500, depthPoint ''B'' 3 2000, depthPoint ''C'' 5 1000]"
  let ?g = "[depthPoint ''A'' 3 500, depthPoint ''B'' 3 2000]"
  have prim: "list_all (\<lambda>p. is_primary p = Some True) ?raw"
    by (simp add: depthPoint_def examplePoint_def)
  have line: "3 \<in> pt_line ` set ?raw"
    by (simp add: depthPoint_def examplePoint_def)
  have grp: "(3, ?g) \<in> set (groupByLine ?raw [])"
    unfolding ex_groups by simp
  from deduplication [OF prim] have d: "distinct (map pt_line (fst (dedupe ?raw)))"
    and p: "\<forall>l\<in>pt_line ` set ?raw. primaryOf ?raw l \<in> set ?raw"
    and g: "\<forall>l pts. (l, pts) \<in> set (groupByLine ?raw []) \<longrightarrow>
          (\<exists>siblings. fst (dedupeGroup pts) = primaryOf ?raw l # siblings
             \<and> list_all (\<lambda>p. is_primary p = Some False) siblings
             \<and> length siblings = length pts - 1)"
    by blast+
  from p line have m: "primaryOf ?raw 3 \<in> set ?raw" by blast
  from g grp have "\<exists>siblings. fst (dedupeGroup ?g) = primaryOf ?raw 3 # siblings
             \<and> list_all (\<lambda>p. is_primary p = Some False) siblings
             \<and> length siblings = length ?g - 1" by blast
  then have s: "\<exists>siblings. fst (dedupeGroup ?g) = primaryOf ?raw 3 # siblings
             \<and> list_all (\<lambda>p. is_primary p = Some False) siblings
             \<and> length siblings = 1" by simp
  from prim ex_dedupe d m grp s show ?thesis by blast
qed

text \<open>
  The groups are formed over all raw points, gated ones included. When the most liquid
  point of a line is gated, no point of that line is analysed, although a sibling passes
  every gate: market \<open>A\<close> (line 3, depth 10000, spread 10) is gated for its spread, market
  \<open>B\<close> (line 3, depth 3000, spread 2) is not, and the ladder built from \<open>A\<close>, \<open>B\<close> and \<open>C\<close>
  (line 5) has the single point \<open>C\<close>.
\<close>

theorem dedup_gated_counterexample:
  "failsGate (exampleMarket ''A'' 3 10000 10)
   \<and> \<not> failsGate (exampleMarket ''B'' 3 3000 2)
   \<and> \<not> failsGate (exampleMarket ''C'' 5 3000 2)
   \<and> map_option (\<lambda>r. (map pt_market_ticker (points (fst r)),
                        duplicates_dropped (diagnostics (fst r))))
       (buildLadder (\<lambda>x. 0)
          [exampleMarket ''A'' 3 10000 10, exampleMarket ''B'' 3 3000 2,
           exampleMarket ''C'' 5 3000 2]
          ''GAME'' TotalLadder ''Over'' ''GAME|total|Over'' 1000 newSignalsEngine)
     = Some ([''C''], 1)"
  by (simp add: buildLadder_def rawPoint_def exampleMarket_def newSignalsEngine_def Let_def
      split_def orElse_def truthy_def sortByLine_def dedupe_def dedupeGroup_def
      pointLiquidity_def checkMonotonicity_def fitAndDetectOutliers_def
      MIN_LIQUIDITY_DEPTH_def MIN_LIQUIDITY_VOLUME_def MAX_SPREAD_CENTS_def MAX_STALE_MS_def
      failsGate_def lowLiquidity_def wideSpread_def staleQuote_def minDepthOf_def)


section \<open>Gating of ladder points\<close>

lemma map_update_same:
  assumes "f y = f (xs ! i)"
  shows "map f (xs[i := y]) = map f xs"
proof (cases "i < length xs")
  case True
  with assms have "f y = (map f xs) ! i" by simp
  then have "(map f xs)[i := f y] = map f xs" by (simp only: list_update_id)
  then show ?thesis by (simp only: map_update)
next
  case False
  then have "xs[i := y] = xs" by (intro list_update_beyond) simp
  then show ?thesis by (simp only:)
qed

lemma pointId_flagged: "pointId (flagged p) = pointId p"
  by (simp add: pointId_def flagged_def)

lemma monoStep_ids:
  "map pointId (an_points (monoStep log10 key d now i st)) = map pointId (an_points st)"
proof -
  let ?xs = "an_points st"
  have a: "map pointId (?xs[i := flagged (?xs ! i)]) = map pointId ?xs"
    by (rule map_update_same) (simp add: pointId_flagged)
  have "map pointId (?xs[i := flagged (?xs ! i), i + 1 := flagged (?xs ! (i + 1))])
          = map pointId (?xs[i := flagged (?xs ! i)])"
    by (rule map_update_same) (simp add: pointId_flagged)
  with a show ?thesis by (simp add: monoStep_points)
qed

lemma fold_mono_ids:
  "map pointId (an_points (fold (monoStep log10 key d now) js st)) = map pointId (an_points st)"
  by (induction js arbitrary: st) (simp_all add: monoStep_ids)

lemma outlierStep_ids:
  "map pointId (an_points (outlierStep log10 key now fitted i st)) = map pointId (an_points st)"
  by (auto simp: outlierStep_def Let_def split_def pointId_def intro!: map_update_same)

lemma fold_outlier_ids:
  "map pointId (an_points (fold (outlierStep log10 key now fitted) js st)) = map pointId (an_points st)"
  by (induction js arbitrary: st) (simp_all add: outlierStep_ids)

lemma fitAndDetect_ids:
  "fitAndDetectOutliers log10 pts viols key d now eng = Some r \<Longrightarrow>
   map pointId (an_points r) = map pointId pts"
  by (auto simp: fitAndDetectOutliers_def Let_def fold_outlier_ids split: if_splits option.splits)

lemma checkMonotonicity_ids:
  "map pointId (an_points (checkMonotonicity log10 pts viols key d now eng)) = map pointId pts"
  by (simp add: checkMonotonicity_def fold_mono_ids)

lemma rawPoint_gate:
  "is_excluded (fst (rawPoint eng m l diag)) = Some (failsGate m)"
  "exclude_reason (fst (rawPoint eng m l diag)) =
     (if lowLiquidity m then Some ''low_liquidity''
      else if wideSpread m then Some ''wide_spread''
      else if staleQuote m then Some ''stale'' else None)"
  "pt_market_ticker (fst (rawPoint eng m l diag)) = market_ticker m"
  "pt_line (fst (rawPoint eng m l diag)) = l"
  by (simp_all add: rawPoint_def Let_def split_def failsGate_def lowLiquidity_def wideSpread_def
      staleQuote_def minDepthOf_def MIN_LIQUIDITY_DEPTH_def MIN_LIQUIDITY_VOLUME_def
      MAX_SPREAD_CENTS_def MAX_STALE_MS_def)

lemma rawPointsOf_mem:
  "p \<in> set (fst (rawPointsOf eng markets diag)) \<Longrightarrow>
   \<exists>m\<in>set markets. \<exists>l d. line m = Some l \<and> p = fst (rawPoint eng m l d)"
proof (induction markets arbitrary: diag)
  case Nil
  then show ?case by simp
next
  case (Cons m ms)
  show ?case
  proof (cases "line m")
    case None
    with Cons show ?thesis by auto
  next
    case (Some l)
    with Cons.prems have "p = fst (rawPoint eng m l diag)
        \<or> p \<in> set (fst (rawPointsOf eng ms (snd (rawPoint eng m l diag))))"
      by (simp add: split_def Let_def)
    then show ?thesis
    proof
      assume "p = fst (rawPoint eng m l diag)"
      with Some show ?thesis by auto
    next
      assume "p \<in> set (fst (rawPointsOf eng ms (snd (rawPoint eng m l diag))))"
      from Cons.IH [OF this] show ?thesis by auto
    qed
  qed
qed

lemma keepPrimary_not_excluded: "keepPrimary g = Some p \<Longrightarrow> \<not> truthy (is_excluded p)"
  by (cases "fst (dedupeGroup (snd g))") (auto simp: keepPrimary_def split: if_splits)

lemma dedupe_not_excluded:
  "p \<in> set (fst (dedupe raw)) \<Longrightarrow> \<not> truthy (is_excluded p)"
  by (auto simp: dedupe_unsorted sortByLine_def set_map_filter dest: keepPrimary_not_excluded)

lemma dedupe_subset:
  assumes "list_all (\<lambda>p. is_primary p = Some True) raw" and "p \<in> set (fst (dedupe raw))"
  shows "p \<in> set raw"
proof -
  from assms obtain l where "l \<in> pt_line ` set raw" "p = primaryOf raw l"
    by (auto simp: dedupe_set)
  with primaryOf_props(1) [of l raw] show ?thesis by simp
qed

lemma buildLadder_ids:
  assumes "buildLadder log10 markets gameId ty dir key now eng = Some (ladder, eng')"
  shows "\<exists>diag. map pointId (points ladder) =
     map pointId (fst (dedupe (sortByLine (fst (rawPointsOf eng markets diag)))))"
  using assms
  by (auto simp: buildLadder_def Let_def split_def checkMonotonicity_ids
      split: option.splits dest!: fitAndDetect_ids)

lemma buildLadder_point:
  assumes b: "buildLadder log10 markets gameId ty dir key now eng = Some (ladder, eng')"
    and p: "p \<in> set (points ladder)"
  shows "is_excluded p = Some False \<and> exclude_reason p = None
     \<and> (\<exists>m\<in>set markets. market_ticker m = pt_market_ticker p \<and> line m = Some (pt_line p)
            \<and> \<not> failsGate m)"
proof -
  from buildLadder_ids [OF b] obtain diag where
    ids: "map pointId (points ladder) =
            map pointId (fst (dedupe (sortByLine (fst (rawPointsOf eng markets diag)))))" ..
  let ?raw = "sortByLine (fst (rawPointsOf eng markets diag))"
  from p have "pointId p \<in> set (map pointId (points ladder))" by simp
  with ids obtain q where q: "q \<in> set (fst (dedupe ?raw))" "pointId q = pointId p" by auto
  have prim: "list_all (\<lambda>p. is_primary p = Some True) ?raw"
    using rawPointsOf_primary [of eng markets diag] by (simp add: sortByLine_def list_all_iff)
  from dedupe_subset [OF prim q(1)] have "q \<in> set (fst (rawPointsOf eng markets diag))"
    by (simp add: sortByLine_def)
  from rawPointsOf_mem [OF this] obtain m l d where
    m: "m \<in> set markets" "line m = Some l" "q = fst (rawPoint eng m l d)" by blast
  from dedupe_not_excluded [OF q(1)] m(3) have ng: "\<not> failsGate m"
    by (simp add: rawPoint_gate truthy_def)
  with m(3) have "is_excluded q = Some False" "exclude_reason q = None"
    "pt_market_ticker q = market_ticker m" "pt_line q = l"
    by (simp_all add: rawPoint_gate failsGate_def)
  with q(2) m(1,2) ng show ?thesis by (auto simp: pointId_def)
qed

lemma rawPoint_counters:
  "excluded_by_liquidity (snd (rawPoint eng m l diag)) =
     excluded_by_liquidity diag + (if lowLiquidity m then 1 else 0)"
  "excluded_by_spread (snd (rawPoint eng m l diag)) =
     excluded_by_spread diag + (if \<not> lowLiquidity m \<and> wideSpread m then 1 else 0)"
  "excluded_by_staleness (snd (rawPoint eng m l diag)) =
     excluded_by_staleness diag
       + (if \<not> lowLiquidity m \<and> \<not> wideSpread m \<and> staleQuote m then 1 else 0)"
  by (simp_all add: rawPoint_def Let_def split_def lowLiquidity_def wideSpread_def
      staleQuote_def minDepthOf_def MIN_LIQUIDITY_DEPTH_def MIN_LIQUIDITY_VOLUME_def
      MAX_SPREAD_CENTS_def MAX_STALE_MS_def)

text \<open>
  Claim C7 (gating). A raw point is marked \<open>is_excluded\<close> exactly when its market fails a
  gate, with the reason of the first failing gate in the order liquidity, spread,
  staleness, and the matching diagnostics counter is incremented. The ladder that
  \<^verbatim>\<open>buildLadder\<close> returns holds analysed points only: every point of its \<open>points\<close> list has
  \<open>is_excluded = false\<close> and no reason, and belongs to a market that passes every gate.
  A gated point is therefore not kept in the ladder, while the page that renders
  \<^verbatim>\<open>ladder.points\<close> dims the rows with \<^verbatim>\<open>pt.is_excluded\<close> and prints their reason.
\<close>

theorem gated_points_dropped:
  "is_excluded (fst (rawPoint eng m l diag)) = Some (failsGate m)
   \<and> exclude_reason (fst (rawPoint eng m l diag)) =
       (if lowLiquidity m then Some ''low_liquidity''
        else if wideSpread m then Some ''wide_spread''
        else if staleQuote m then Some ''stale'' else None)
   \<and> excluded_by_liquidity (snd (rawPoint eng m l diag)) =
       excluded_by_liquidity diag + (if lowLiquidity m then 1 else 0)
   \<and> excluded_by_spread (snd (rawPoint eng m l diag)) =
       excluded_by_spread diag + (if \<not> lowLiquidity m \<and> wideSpread m then 1 else 0)
   \<and> excluded_by_staleness (snd (rawPoint eng m l diag)) =
       excluded_by_staleness diag
         + (if \<not> lowLiquidity m \<and> \<not> wideSpread m \<and> staleQuote m then 1 else 0)
   \<and> (buildLadder log10 markets gameId ladderType teamOrDirection ladderKey now eng
         = Some (ladder, eng') \<longrightarrow>
       (\<forall>p\<in>set (points ladder).
          is_excluded p = Some False \<and> exclude_reason p = None
          \<and> (\<exists>m'\<in>set markets. market_ticker m' = pt_market_ticker p
                \<and> line m' = Some (pt_line p) \<and> \<not> failsGate m')))"
  using rawPoint_gate(1,2) [of eng m l diag] rawPoint_counters [of eng m l diag]
    buildLadder_point [of log10 markets gameId ladderType teamOrDirection ladderKey now eng ladder eng']
  by blast

lemma ex_gated_ladder:
  "map_option (\<lambda>r. (map pt_market_ticker (points (fst r)),
                      excluded_by_spread (diagnostics (fst r))))
     (buildLadder (\<lambda>x. 0) [exampleMarket ''A'' 3 3000 2, exampleMarket ''B'' 5 3000 10]
        ''GAME'' TotalLadder ''Over'' ''GAME|total|Over'' 1000 newSignalsEngine)
   = Some ([''A''], 1)"
  by (simp add: buildLadder_def rawPoint_def exampleMarket_def newSignalsEngine_def Let_def
      split_def orElse_def truthy_def sortByLine_def dedupe_def dedupeGroup_def
      checkMonotonicity_def fitAndDetectOutliers_def MIN_LIQUIDITY_DEPTH_def
      MIN_LIQUIDITY_VOLUME_def MAX_SPREAD_CENTS_def MAX_STALE_MS_def)

theorem gated_points_dropped_witness:
  "failsGate (exampleMarket ''B'' 5 3000 10)
   \<and> exclude_reason (fst (rawPoint newSignalsEngine (exampleMarket ''B'' 5 3000 10) 5
         exampleDiagnostics))
       = Some ''wide_spread''
   \<and> (\<exists>ladder eng'.
         buildLadder (\<lambda>x. 0) [exampleMarket ''A'' 3 3000 2, exampleMarket ''B'' 5 3000 10]
           ''GAME'' TotalLadder ''Over'' ''GAME|total|Over'' 1000 newSignalsEngine
           = Some (ladder, eng')
         \<and> map pt_market_ticker (points ladder) = [''A'']
         \<and> excluded_by_spread (diagnostics ladder) = 1
         \<and> list_all (\<lambda>p. is_excluded p = Some False) (points ladder))"
proof -
  let ?B = "exampleMarket ''B'' 5 3000 10"
  let ?ms = "[exampleMarket ''A'' 3 3000 2, ?B]"
  have g: "failsGate ?B" "\<not> lowLiquidity ?B" "wideSpread ?B"
    by (simp_all add: failsGate_def lowLiquidity_def wideSpread_def minDepthOf_def
        exampleMarket_def orElse_def)
  from ex_gated_ladder obtain ladder eng' where
    b: "buildLadder (\<lambda>x. 0) ?ms ''GAME'' TotalLadder ''Over'' ''GAME|total|Over'' 1000
          newSignalsEngine = Some (ladder, eng')"
    and r: "map pt_market_ticker (points ladder) = [''A'']"
      "excluded_by_spread (diagnostics ladder) = 1"
    by auto
  from gated_points_dropped [where eng = newSignalsEngine and m = ?B and l = 5
      and diag = exampleDiagnostics and ?log10.0 = "\<lambda>x. 0" and markets = ?ms
      and gameId = "''GAME''" and ladderType = TotalLadder and teamOrDirection = "''Over''"
      and ladderKey = "''GAME|total|Over''" and now = 1000 and ladder = ladder
      and eng' = eng'] b g
  have "exclude_reason (fst (rawPoint newSignalsEngine ?B 5 exampleDiagnostics))
          = Some ''wide_spread''"
    and "\<forall>p\<in>set (points ladder). is_excluded p = Some False"
    by simp_all
  with g(1) b r show ?thesis by (auto simp: list_all_iff)
qed


section \<open>Points of markets without quotes\<close>

lemma rawPoint_defaults:
  "bid_prob (fst (rawPoint eng m l diag)) = orElse (best_bid m) 0 / 100"
  "ask_prob (fst (rawPoint eng m l diag)) = orElse (best_ask m) 100 / 100"
  "mid_prob (fst (rawPoint eng m l diag)) = orElse (mid m) 50 / 100"
  "spread_cents (fst (rawPoint eng m l diag)) = Some (orElse (spread m) 100)"
  by (simp_all add: rawPoint_def Let_def split_def)

lemma best_none:
  "(case levels of [] \<Rightarrow> quote | level # x \<Rightarrow> if quote = None then Some (f level) else quote) = None
   \<Longrightarrow> levels = []"
  by (cases levels) (auto split: if_splits)

lemma cms_volume: "computeMarketStats t state se now = Some s \<Longrightarrow> volume s = None"
  unfolding computeMarketStats_def Let_def
  by (clarify, simp only: MarketStats.select_convs)

lemma cms_spread:
  "computeMarketStats t state se now = Some s \<Longrightarrow>
   spread s = (case (best_bid s, best_ask s) of (Some b, Some a) \<Rightarrow> Some (a - b) | _ \<Rightarrow> None)"
  unfolding computeMarketStats_def Let_def
  by (clarify, simp only: MarketStats.select_convs)

lemma cms_mid:
  "computeMarketStats t state se now = Some s \<Longrightarrow>
   mid s = (case (best_bid s, best_ask s) of (Some b, Some a) \<Rightarrow> Some ((b + a) / 2) | _ \<Rightarrow> None)"
  unfolding computeMarketStats_def Let_def
  by (clarify, simp only: MarketStats.select_convs)

lemma cms_bid_depth:
  "computeMarketStats t state se now = Some s \<Longrightarrow> best_bid s = None \<Longrightarrow> sum_bid_top5 s = None"
  unfolding computeMarketStats_def Let_def
  apply (clarify, simp only: MarketStats.select_convs)
  apply (drule best_none)
  apply (simp add: positiveOrUndefined_def)
  done

lemma cms_ask_depth:
  "computeMarketStats t state se now = Some s \<Longrightarrow> best_ask s = None \<Longrightarrow> sum_ask_top5 s = None"
  unfolding computeMarketStats_def Let_def
  apply (clarify, simp only: MarketStats.select_convs)
  apply (drule best_none)
  apply (simp add: positiveOrUndefined_def)
  done

lemma positiveOrUndefined_nonneg: "0 \<le> orElse (positiveOrUndefined x) 0"
  by (simp add: positiveOrUndefined_def orElse_def)

lemma cms_depth_nonneg:
  "computeMarketStats t state se now = Some s \<Longrightarrow>
   0 \<le> orElse (sum_bid_top5 s) 0 \<and> 0 \<le> orElse (sum_ask_top5 s) 0"
  unfolding computeMarketStats_def Let_def
  by (clarify, simp only: MarketStats.select_convs positiveOrUndefined_nonneg simp_thms)

lemma stats_quoteless:
  assumes c: "computeMarketStats t state se now = Some s"
    and q: "best_bid s = None \<or> best_ask s = None \<or> mid s = None"
  shows "spread s = None \<and> volume s = None \<and> lowLiquidity s"
proof -
  from q cms_mid [OF c] have n: "best_bid s = None \<or> best_ask s = None"
    by (auto split: option.splits)
  with cms_spread [OF c] have sp: "spread s = None" by (auto split: option.splits)
  from n cms_bid_depth [OF c] cms_ask_depth [OF c]
  have "sum_bid_top5 s = None \<or> sum_ask_top5 s = None" by auto
  with cms_depth_nonneg [OF c] have "minDepthOf s = 0"
    by (auto simp: minDepthOf_def orElse_def min_def)
  with cms_volume [OF c] have "lowLiquidity s" by (simp add: lowLiquidity_def orElse_def)
  with sp cms_volume [OF c] show ?thesis by simp
qed

text \<open>
  Claim C10 (missing quotes). A missing best bid gives \<open>bid_prob = 0\<close>, a missing best ask
  \<open>ask_prob = 1\<close>, a missing mid \<open>mid_prob = 1/2\<close>. A missing spread is read as 100 cents: the
  point is then always excluded and never among the analysed points; its reason is
  \<open>low_liquidity\<close> when the liquidity gate fails too (that gate is tested first) and
  \<open>wide_spread\<close> otherwise. The statistics that \<^verbatim>\<open>computeMarketStats\<close> reports for a market
  without a best bid, a best ask or a mid have no spread, no volume and an empty side of the
  book, so they fail the liquidity gate.
\<close>

theorem missing_quote_defaults:
  "(best_bid m = None \<longrightarrow> bid_prob (fst (rawPoint eng m l diag)) = 0)
   \<and> (best_ask m = None \<longrightarrow> ask_prob (fst (rawPoint eng m l diag)) = 1)
   \<and> (mid m = None \<longrightarrow> mid_prob (fst (rawPoint eng m l diag)) = 1 / 2)
   \<and> (spread m = None \<longrightarrow>
        spread_cents (fst (rawPoint eng m l diag)) = Some 100
        \<and> is_excluded (fst (rawPoint eng m l diag)) = Some True
        \<and> exclude_reason (fst (rawPoint eng m l diag)) =
            Some (if lowLiquidity m then ''low_liquidity'' else ''wide_spread'')
        \<and> fst (rawPoint eng m l diag) \<notin> set (fst (dedupe raw)))
   \<and> (computeMarketStats t state se now' = Some s
        \<and> (best_bid s = None \<or> best_ask s = None \<or> mid s = None)
        \<longrightarrow> spread s = None \<and> volume s = None \<and> lowLiquidity s)"
proof -
  let ?pt = "fst (rawPoint eng m l diag)"
  have d: "best_bid m = None \<longrightarrow> bid_prob ?pt = 0" "best_ask m = None \<longrightarrow> ask_prob ?pt = 1"
    "mid m = None \<longrightarrow> mid_prob ?pt = 1 / 2"
    by (simp_all add: rawPoint_defaults orElse_def)
  have sp: "spread m = None \<longrightarrow>
        spread_cents ?pt = Some 100 \<and> is_excluded ?pt = Some True
        \<and> exclude_reason ?pt = Some (if lowLiquidity m then ''low_liquidity'' else ''wide_spread'')
        \<and> ?pt \<notin> set (fst (dedupe raw))"
  proof
    assume n: "spread m = None"
    then have w: "wideSpread m" "failsGate m"
      by (simp_all add: wideSpread_def failsGate_def orElse_def)
    have ex: "is_excluded ?pt = Some True" using w by (simp add: rawPoint_gate)
    then have "?pt \<notin> set (fst (dedupe raw))"
      using dedupe_not_excluded [of ?pt raw] by (auto simp: truthy_def)
    moreover have "spread_cents ?pt = Some 100" using n by (simp add: rawPoint_defaults orElse_def)
    moreover have "exclude_reason ?pt =
        Some (if lowLiquidity m then ''low_liquidity'' else ''wide_spread'')"
      using w by (simp add: rawPoint_gate)
    ultimately show "spread_cents ?pt = Some 100 \<and> is_excluded ?pt = Some True
        \<and> exclude_reason ?pt = Some (if lowLiquidity m then ''low_liquidity'' else ''wide_spread'')
        \<and> ?pt \<notin> set (fst (dedupe raw))"
      using ex by blast
  qed
  have st: "computeMarketStats t state se now' = Some s
        \<and> (best_bid s = None \<or> best_ask s = None \<or> mid s = None)
        \<longrightarrow> spread s = None \<and> volume s = None \<and> lowLiquidity s"
    using stats_quoteless [of t state se now' s] by blast
  from d sp st show ?thesis by blast
qed

lemma ex_quoteless_stats:
  "computeMarketStats ''Q'' createConnectionState newStatsEngine 1000
     = Some (MarketStats.truncate (quotelessMarket ''Q'' 7 None))"
  by (simp add: quotelessMarket_def computeMarketStats_def createConnectionState_def
      newStatsEngine_def positiveOrUndefined_def topLevels_def ageOf_def Let_def
      MarketStats.truncate_def)

text \<open>
  An instance: a market without quotes whose book is 3000 deep on both sides passes the
  liquidity gate and is excluded for its spread; and the statistics of a market that never
  received a message fail the liquidity gate.
\<close>

theorem missing_quote_defaults_witness:
  "spread (quotelessMarket ''Q'' 7 (Some 3000)) = None
   \<and> best_bid (quotelessMarket ''Q'' 7 (Some 3000)) = None
   \<and> best_ask (quotelessMarket ''Q'' 7 (Some 3000)) = None
   \<and> mid (quotelessMarket ''Q'' 7 (Some 3000)) = None
   \<and> \<not> lowLiquidity (quotelessMarket ''Q'' 7 (Some 3000))
   \<and> bid_prob (fst (rawPoint newSignalsEngine (quotelessMarket ''Q'' 7 (Some 3000)) 7
        exampleDiagnostics)) = 0
   \<and> ask_prob (fst (rawPoint newSignalsEngine (quotelessMarket ''Q'' 7 (Some 3000)) 7
        exampleDiagnostics)) = 1
   \<and> mid_prob (fst (rawPoint newSignalsEngine (quotelessMarket ''Q'' 7 (Some 3000)) 7
        exampleDiagnostics)) = 1 / 2
   \<and> spread_cents (fst (rawPoint newSignalsEngine (quotelessMarket ''Q'' 7 (Some 3000)) 7
        exampleDiagnostics)) = Some 100
   \<and> is_excluded (fst (rawPoint newSignalsEngine (quotelessMarket ''Q'' 7 (Some 3000)) 7
        exampleDiagnostics)) = Some True
   \<and> exclude_reason (fst (rawPoint newSignalsEngine (quotelessMarket ''Q'' 7 (Some 3000)) 7
        exampleDiagnostics)) = Some ''wide_spread''
   \<and> fst (rawPoint newSignalsEngine (quotelessMarket ''Q'' 7 (Some 3000)) 7 exampleDiagnostics)
       \<notin> set (fst (dedupe
             [fst (rawPoint newSignalsEngine (quotelessMarket ''Q'' 7 (Some 3000)) 7
                exampleDiagnostics)]))
   \<and> computeMarketStats ''Q'' createConnectionState newStatsEngine 1000
       = Some (MarketStats.truncate (quotelessMarket ''Q'' 7 None))
   \<and> mid (MarketStats.truncate (quotelessMarket ''Q'' 7 None)) = None
   \<and> lowLiquidity (MarketStats.truncate (quotelessMarket ''Q'' 7 None))"
proof -
  let ?m = "quotelessMarket ''Q'' 7 (Some 3000)"
  let ?pt = "fst (rawPoint newSignalsEngine ?m 7 exampleDiagnostics)"
  let ?s = "MarketStats.truncate (quotelessMarket ''Q'' 7 None)"
  have q: "spread ?m = None" "best_bid ?m = None" "best_ask ?m = None" "mid ?m = None"
    "\<not> lowLiquidity ?m"
    by (simp_all add: quotelessMarket_def lowLiquidity_def minDepthOf_def orElse_def)
  have sm: "mid ?s = None" by (simp add: quotelessMarket_def MarketStats.truncate_def)
  note th = missing_quote_defaults [where m = ?m and eng = newSignalsEngine and l = 7
      and diag = exampleDiagnostics and raw = "[?pt]" and t = "''Q''"
      and state = createConnectionState and se = newStatsEngine and now' = 1000 and s = ?s]
  from th q have pt:
    "bid_prob ?pt = 0" "ask_prob ?pt = 1" "mid_prob ?pt = 1 / 2"
    "spread_cents ?pt = Some 100" "is_excluded ?pt = Some True"
    "exclude_reason ?pt = Some ''wide_spread''"
    "?pt \<notin> set (fst (dedupe [?pt]))"
    by simp_all
  from th ex_quoteless_stats sm have ll: "lowLiquidity ?s" by blast
  from q pt ex_quoteless_stats sm ll show ?thesis by blast
qed

text \<open>
  A market that never received a message has no quote and no depth: its point is excluded
  for \<open>low_liquidity\<close>, and the spread counter is not incremented.
\<close>

theorem missing_quote_counterexample:
  "spread (quotelessMarket ''Q'' 7 None) = None
   \<and> best_bid (quotelessMarket ''Q'' 7 None) = None
   \<and> best_ask (quotelessMarket ''Q'' 7 None) = None
   \<and> mid (quotelessMarket ''Q'' 7 None) = None
   \<and> computeMarketStats ''Q'' createConnectionState newStatsEngine 1000
       = Some (MarketStats.truncate (quotelessMarket ''Q'' 7 None))
   \<and> is_excluded (fst (rawPoint newSignalsEngine (quotelessMarket ''Q'' 7 None) 7
        exampleDiagnostics)) = Some True
   \<and> exclude_reason (fst (rawPoint newSignalsEngine (quotelessMarket ''Q'' 7 None) 7
        exampleDiagnostics)) = Some ''low_liquidity''
   \<and> excluded_by_spread (snd (rawPoint newSignalsEngine (quotelessMarket ''Q'' 7 None) 7
        exampleDiagnostics)) = 0"
  by (simp add: quotelessMarket_def rawPoint_def Let_def split_def orElse_def
      newSignalsEngine_def exampleDiagnostics_def MIN_LIQUIDITY_DEPTH_def
      MIN_LIQUIDITY_VOLUME_def computeMarketStats_def createConnectionState_def
      newStatsEngine_def positiveOrUndefined_def topLevels_def ageOf_def
      MarketStats.truncate_def)

end
